theory Spec2Isabelle
  imports Complex_Main "HOL-Library.Monad_Syntax"
begin

section \<open>Numbers, vectors and rigid transforms\<close>

text \<open>
  The scalar fields that the joint builder copies from an SDF axis are C++ doubles that may
  carry an infinity (an SDF limit of \<open>inf\<close>, or the infinity that \<open>infIfNeg\<close>
  produces).  They are modelled by \<open>double\<close>: a real number, one of the two infinities, or
  the not-a-number value.  Comparison with a NaN is false, as in IEEE arithmetic.  Rounding is
  not modelled: a finite double is an exact real.
\<close>

datatype double = Finite real | PosInf | NegInf | NaN

fun dless :: "double \<Rightarrow> double \<Rightarrow> bool" where
  "dless (Finite a) (Finite b) = (a < b)"
| "dless (Finite a) PosInf = True"
| "dless NegInf (Finite b) = True"
| "dless NegInf PosInf = True"
| "dless _ _ = False"

fun dle :: "double \<Rightarrow> double \<Rightarrow> bool" where
  "dle (Finite a) (Finite b) = (a \<le> b)"
| "dle (Finite a) PosInf = True"
| "dle NegInf (Finite b) = True"
| "dle NegInf PosInf = True"
| "dle PosInf PosInf = True"
| "dle NegInf NegInf = True"
| "dle _ _ = False"

fun dneg :: "double \<Rightarrow> double" where
  "dneg (Finite a) = Finite (- a)"
| "dneg PosInf = NegInf"
| "dneg NegInf = PosInf"
| "dneg NaN = NaN"

text \<open>\<open>Eigen::Vector3d\<close> and \<open>Eigen::Matrix3d\<close> (row by row), over exact reals.\<close>

datatype Vector3d = Vector3d real real real

datatype Matrix3d = Matrix3d real real real  real real real  real real real

definition UnitZ :: Vector3d where
  "UnitZ = Vector3d 0 0 1"

fun vadd :: "Vector3d \<Rightarrow> Vector3d \<Rightarrow> Vector3d" where
  "vadd (Vector3d a b c) (Vector3d x y z) = Vector3d (a + x) (b + y) (c + z)"

fun vneg :: "Vector3d \<Rightarrow> Vector3d" where
  "vneg (Vector3d a b c) = Vector3d (- a) (- b) (- c)"

fun vscale :: "real \<Rightarrow> Vector3d \<Rightarrow> Vector3d" where
  "vscale s (Vector3d a b c) = Vector3d (s * a) (s * b) (s * c)"

fun vdiv :: "Vector3d \<Rightarrow> real \<Rightarrow> Vector3d" where
  "vdiv (Vector3d a b c) s = Vector3d (a / s) (b / s) (c / s)"

fun cross :: "Vector3d \<Rightarrow> Vector3d \<Rightarrow> Vector3d" where
  "cross (Vector3d a b c) (Vector3d x y z) =
     Vector3d (b * z - c * y) (c * x - a * z) (a * y - b * x)"

fun norm3 :: "Vector3d \<Rightarrow> real" where
  "norm3 (Vector3d a b c) = sqrt (a * a + b * b + c * c)"

fun mat_vec :: "Matrix3d \<Rightarrow> Vector3d \<Rightarrow> Vector3d" where
  "mat_vec (Matrix3d a b c  d e f  g h i) (Vector3d x y z) =
     Vector3d (a * x + b * y + c * z) (d * x + e * y + f * z) (g * x + h * y + i * z)"

fun transpose3 :: "Matrix3d \<Rightarrow> Matrix3d" where
  "transpose3 (Matrix3d a b c  d e f  g h i) = Matrix3d a d g  b e h  c f i"

instantiation Matrix3d :: monoid_mult
begin

fun times_Matrix3d :: "Matrix3d \<Rightarrow> Matrix3d \<Rightarrow> Matrix3d" where
  "times_Matrix3d (Matrix3d a b c  d e f  g h i) (Matrix3d a' b' c'  d' e' f'  g' h' i') =
     Matrix3d (a * a' + b * d' + c * g') (a * b' + b * e' + c * h') (a * c' + b * f' + c * i')
              (d * a' + e * d' + f * g') (d * b' + e * e' + f * h') (d * c' + e * f' + f * i')
              (g * a' + h * d' + i * g') (g * b' + h * e' + i * h') (g * c' + h * f' + i * i')"

definition one_Matrix3d :: Matrix3d where
  "one_Matrix3d = Matrix3d 1 0 0  0 1 0  0 0 1"

instance
proof
  fix A B C :: Matrix3d
  show "A * B * C = A * (B * C)"
    by (cases A, cases B, cases C) (simp add: algebra_simps)
  show "1 * A = A"
    by (cases A) (simp add: one_Matrix3d_def)
  show "A * 1 = A"
    by (cases A) (simp add: one_Matrix3d_def)
qed

end

text \<open>
  \<open>Eigen::Isometry3d\<close>: a linear part and a translation.  The product composes the two
  maps.  \<open>inverse\<close> is Eigen's inverse for the \<open>Isometry\<close> mode: it transposes the
  linear part instead of inverting it, so it is the inverse only when the linear part is
  orthogonal (\<open>is_isometry\<close>).
\<close>

datatype Isometry3d = Isometry3d (linear: Matrix3d) (translation: Vector3d)

instantiation Isometry3d :: monoid_mult
begin

definition times_Isometry3d :: "Isometry3d \<Rightarrow> Isometry3d \<Rightarrow> Isometry3d" where
  "times_Isometry3d A B =
     Isometry3d (linear A * linear B) (vadd (mat_vec (linear A) (translation B)) (translation A))"

definition one_Isometry3d :: Isometry3d where
  "one_Isometry3d = Isometry3d 1 (Vector3d 0 0 0)"

instance
proof
  fix A B C :: Isometry3d
  show "A * B * C = A * (B * C)"
  proof (cases A, cases B, cases C)
    fix RA tA RB tB RC tC
    assume "A = Isometry3d RA tA" "B = Isometry3d RB tB" "C = Isometry3d RC tC"
    moreover have "vadd (mat_vec (RA * RB) tC) (vadd (mat_vec RA tB) tA)
        = vadd (mat_vec RA (vadd (mat_vec RB tC) tB)) tA"
      by (cases RA, cases RB, cases tA, cases tB, cases tC) (simp add: algebra_simps)
    ultimately show ?thesis
      by (simp add: times_Isometry3d_def mult.assoc)
  qed
  show "1 * A = A"
    by (cases A, cases "linear A", cases "translation A")
       (simp add: times_Isometry3d_def one_Isometry3d_def one_Matrix3d_def)
  show "A * 1 = A"
    by (cases A, cases "linear A", cases "translation A")
       (simp add: times_Isometry3d_def one_Isometry3d_def one_Matrix3d_def)
qed

end

instantiation Isometry3d :: inverse
begin

definition inverse_Isometry3d :: "Isometry3d \<Rightarrow> Isometry3d" where
  "inverse_Isometry3d A =
     Isometry3d (transpose3 (linear A)) (vneg (mat_vec (transpose3 (linear A)) (translation A)))"

definition divide_Isometry3d :: "Isometry3d \<Rightarrow> Isometry3d \<Rightarrow> Isometry3d" where
  "divide_Isometry3d A B = A * inverse B"

instance ..

end

definition orthogonal3 :: "Matrix3d \<Rightarrow> bool" where
  "orthogonal3 R \<longleftrightarrow> transpose3 R * R = 1 \<and> R * transpose3 R = 1"

definition is_isometry :: "Isometry3d \<Rightarrow> bool" where
  "is_isometry T \<longleftrightarrow> orthogonal3 (linear T)"

section \<open>Joint axis properties\<close>

text \<open>\<open>infIfNeg\<close> (SDFFeatures.cc, lines 59-65).\<close>

definition infIfNeg :: "double \<Rightarrow> double" where
  "infIfNeg v = (if dless v (Finite 0) then PosInf else v)"

text \<open>The fields of \<open>sdf::JointAxis\<close> that the builder reads.\<close>

record JointAxis =
  Xyz :: Vector3d
  UseParentModelFrame :: bool
  InitialPosition :: double
  Damping :: double
  Friction :: double
  SpringReference :: double
  SpringStiffness :: double
  Lower :: double
  Upper :: double
  Effort :: double
  MaxVelocity :: double

text \<open>
  The joint properties of the engine that the builder fills in: the axis (one vector for a
  single-axis joint, two for a universal joint), the thread pitch of a screw joint, and one
  entry per degree of freedom in every other field.
\<close>

record Properties =
  mAxis :: "Vector3d list"
  mPitch :: real
  mInitialPositions :: "double list"
  mDampingCoefficients :: "double list"
  mFrictions :: "double list"
  mRestPositions :: "double list"
  mSpringStiffnesses :: "double list"
  mPositionLowerLimits :: "double list"
  mPositionUpperLimits :: "double list"
  mForceLowerLimits :: "double list"
  mForceUpperLimits :: "double list"
  mVelocityLowerLimits :: "double list"
  mVelocityUpperLimits :: "double list"

text \<open>
  \<open>CopyStandardJointAxisProperties\<close> (lines 69-86).  The C++ writes entry \<open>_index\<close> of
  fixed-size vectors; an index outside the vector is undefined behaviour there and leaves the
  list unchanged here, so the theorems below ask for \<open>has_dof\<close>.
\<close>

definition CopyStandardJointAxisProperties :: "nat \<Rightarrow> Properties \<Rightarrow> JointAxis \<Rightarrow> Properties" where
  "CopyStandardJointAxisProperties index properties sdfAxis = properties
     \<lparr> mInitialPositions := (mInitialPositions properties)[index := InitialPosition sdfAxis],
       mDampingCoefficients := (mDampingCoefficients properties)[index := Damping sdfAxis],
       mFrictions := (mFrictions properties)[index := Friction sdfAxis],
       mRestPositions := (mRestPositions properties)[index := SpringReference sdfAxis],
       mSpringStiffnesses := (mSpringStiffnesses properties)[index := SpringStiffness sdfAxis],
       mPositionLowerLimits := (mPositionLowerLimits properties)[index := Lower sdfAxis],
       mPositionUpperLimits := (mPositionUpperLimits properties)[index := Upper sdfAxis],
       mForceLowerLimits := (mForceLowerLimits properties)[index := dneg (infIfNeg (Effort sdfAxis))],
       mForceUpperLimits := (mForceUpperLimits properties)[index := infIfNeg (Effort sdfAxis)],
       mVelocityLowerLimits :=
         (mVelocityLowerLimits properties)[index := dneg (infIfNeg (MaxVelocity sdfAxis))],
       mVelocityUpperLimits :=
         (mVelocityUpperLimits properties)[index := infIfNeg (MaxVelocity sdfAxis)] \<rparr>"

definition has_dof :: "nat \<Rightarrow> Properties \<Rightarrow> bool" where
  "has_dof index p \<longleftrightarrow>
     index < length (mPositionLowerLimits p) \<and> index < length (mPositionUpperLimits p) \<and>
     index < length (mForceLowerLimits p) \<and> index < length (mForceUpperLimits p) \<and>
     index < length (mVelocityLowerLimits p) \<and> index < length (mVelocityUpperLimits p)"

text \<open>
  The properties a joint of the engine starts from before the builder writes to them: no
  damping, friction or spring, and no limits (the source, lines 578-581: "the default values of
  +/- infinity or 0.0"), for \<open>n\<close> degrees of freedom.
\<close>

definition default_properties :: "nat \<Rightarrow> Vector3d list \<Rightarrow> Properties" where
  "default_properties n axes =
     \<lparr> mAxis = axes, mPitch = 1 / 10,
       mInitialPositions = replicate n (Finite 0),
       mDampingCoefficients = replicate n (Finite 0),
       mFrictions = replicate n (Finite 0),
       mRestPositions = replicate n (Finite 0),
       mSpringStiffnesses = replicate n (Finite 0),
       mPositionLowerLimits = replicate n NegInf,
       mPositionUpperLimits = replicate n PosInf,
       mForceLowerLimits = replicate n NegInf,
       mForceUpperLimits = replicate n PosInf,
       mVelocityLowerLimits = replicate n NegInf,
       mVelocityUpperLimits = replicate n PosInf \<rparr>"

definition example_axis :: JointAxis where
  "example_axis =
     \<lparr> Xyz = Vector3d 0 0 1, UseParentModelFrame = False, InitialPosition = Finite 1,
       Damping = Finite 3, Friction = Finite 0, SpringReference = Finite 0,
       SpringStiffness = Finite 0, Lower = Finite (- 1), Upper = Finite 2,
       Effort = Finite 5, MaxVelocity = Finite (- 1) \<rparr>"

section \<open>Geometry builder\<close>

text \<open>The shape variants of \<open>sdf::Geometry\<close>; an absent variant is a null pointer.\<close>

record Box =
  BoxSize :: Vector3d

record Cylinder =
  CylinderRadius :: real
  CylinderLength :: real

record Sphere =
  SphereRadius :: real

record Plane =
  Normal :: Vector3d
  Size :: "real \<times> real"

record Mesh =
  MeshUri :: string

record Geometry =
  BoxShape :: "Box option"
  CylinderShape :: "Cylinder option"
  SphereShape :: "Sphere option"
  PlaneShape :: "Plane option"
  MeshShape :: "Mesh option"

section \<open>The description of a model\<close>

text \<open>
  The fields of the SDF objects that the builder reads.  A pose stands for the value of
  \<open>math::eigen3::convert\<close> on it, an \<open>Eigen::Isometry3d\<close>.  A pointer that may be null is an
  option.
\<close>

datatype JointType =
  INVALID | BALL | CONTINUOUS | FIXED | GEARBOX | PRISMATIC | REVOLUTE | REVOLUTE2 | SCREW | UNIVERSAL

record SdfJoint =
  JointName :: string
  ParentLinkName :: string
  ChildLinkName :: string
  Type :: JointType
  JointPose :: Isometry3d
  JointPoseFrame :: string
  Axis :: "nat \<Rightarrow> JointAxis option"
  ThreadPitch :: "real option"

record Material =
  Ambient :: "real \<times> real \<times> real \<times> real"

record SdfCollision =
  CollisionName :: string
  CollisionGeom :: "Geometry option"
  CollisionPose :: Isometry3d

record SdfVisual =
  VisualName :: string
  VisualGeom :: "Geometry option"
  VisualPose :: Isometry3d
  VisualMaterial :: "Material option"

record Inertial =
  Mass :: real
  Moi :: Matrix3d
  InertialPose :: Isometry3d

record SdfLink =
  LinkName :: string
  LinkPose :: Isometry3d
  LinkPoseFrame :: string
  LinkInertial :: Inertial
  Collisions :: "SdfCollision option list"
  Visuals :: "SdfVisual option list"

record SdfModel =
  ModelName :: string
  ModelPose :: Isometry3d
  Static :: bool
  SelfCollide :: bool
  Links :: "SdfLink list"
  Joints :: "SdfJoint option list"

definition LinkByName :: "SdfModel \<Rightarrow> string \<Rightarrow> SdfLink option" where
  "LinkByName sdfModel name = find (\<lambda>l. LinkName l = name) (Links sdfModel)"

text \<open>The shapes of the engine that the builder creates.\<close>

datatype Shape =
    DartBoxShape Vector3d
  | DartCylinderShape real real
  | DartSphereShape real

text \<open>What the builder writes to the diagnostic stream, one value per message.\<close>

datatype Diagnostic =
    MeshNotImplemented
  | NullJoint nat string
  | NullCollisionGeometry string
  | NullVisualGeometry string
  | LinkNotInModel string string
  | LinksNotFound string string string bool bool
  | ClosedKinematicChain string string
  | UnsupportedJointType JointType
  | UnsupportedLinkFrame string
  | UnsupportedJointFrame string

record ShapeAndTransform =
  shape :: "Shape option"
  tf :: Isometry3d

text \<open>
  \<open>Eigen::AngleAxisd(angle, axis).toRotationMatrix()\<close>, and \<open>Isometry3d::rotate\<close>, which
  multiplies the linear part by the rotation on the right.
\<close>

fun AngleAxisd :: "real \<Rightarrow> Vector3d \<Rightarrow> Matrix3d" where
  "AngleAxisd angle (Vector3d x y z) =
     (let s = sin angle; c = cos angle; t = 1 - c in
      Matrix3d (t * x * x + c)     (t * x * y - s * z) (t * x * z + s * y)
               (t * x * y + s * z) (t * y * y + c)     (t * y * z - s * x)
               (t * x * z - s * y) (t * y * z + s * x) (t * z * z + c))"

definition rotate :: "Isometry3d \<Rightarrow> Matrix3d \<Rightarrow> Isometry3d" where
  "rotate T R = Isometry3d (linear T * R) (translation T)"

text \<open>
  The angle of a rotation matrix, between 0 and \<open>\<pi>\<close>: the trace of a rotation by the angle
  \<open>\<theta>\<close> about any axis is \<open>1 + 2 cos \<theta>\<close>.
\<close>

fun trace3 :: "Matrix3d \<Rightarrow> real" where
  "trace3 (Matrix3d a b c  d e f  g h i) = a + e + i"

definition rotation_angle :: "Matrix3d \<Rightarrow> real" where
  "rotation_angle R = arccos ((trace3 R - 1) / 2)"

text \<open>
  \<open>ConstructBox\<close>, \<open>ConstructCylinder\<close>, \<open>ConstructSphere\<close> (lines 162-182): the
  dimensions are copied and the transform stays the identity.
\<close>

definition ConstructBox :: "Box \<Rightarrow> ShapeAndTransform" where
  "ConstructBox box = \<lparr> shape = Some (DartBoxShape (BoxSize box)), tf = 1 \<rparr>"

definition ConstructCylinder :: "Cylinder \<Rightarrow> ShapeAndTransform" where
  "ConstructCylinder cylinder =
     \<lparr> shape = Some (DartCylinderShape (CylinderRadius cylinder) (CylinderLength cylinder)),
       tf = 1 \<rparr>"

definition ConstructSphere :: "Sphere \<Rightarrow> ShapeAndTransform" where
  "ConstructSphere sphere = \<lparr> shape = Some (DartSphereShape (SphereRadius sphere)), tf = 1 \<rparr>"

text \<open>
  \<open>ConstructPlane\<close> (lines 185-207).  \<open>PlaneAxis\<close> and \<open>PlaneAngle\<close> are its local
  variables \<open>axis\<close> and \<open>angle\<close>; \<open>PlaneRotates\<close> is the condition of its \<open>if\<close>, the only
  place where \<open>axis/norm\<close> is computed.  For a zero normal the C++ computes \<open>asin(0/0)\<close>, a NaN
  that fails the comparison; here \<open>0/0 = 0\<close> and the comparison fails as well.
\<close>

definition PlaneAxis :: "Plane \<Rightarrow> Vector3d" where
  "PlaneAxis plane = cross UnitZ (Normal plane)"

definition PlaneAngle :: "Plane \<Rightarrow> real" where
  "PlaneAngle plane = arcsin (norm3 (PlaneAxis plane) / norm3 (Normal plane))"

definition PlaneRotates :: "Plane \<Rightarrow> bool" where
  "PlaneRotates plane \<longleftrightarrow> PlaneAngle plane > 1 / 10 ^ 12"

definition ConstructPlane :: "Plane \<Rightarrow> ShapeAndTransform" where
  "ConstructPlane plane =
     (let axis = PlaneAxis plane;
          norm = norm3 axis;
          angle = PlaneAngle plane;
          R = (if PlaneRotates plane then rotate 1 (AngleAxisd angle (vdiv axis norm)) else 1)
      in \<lparr> shape = Some (DartBoxShape (Vector3d (fst (Size plane)) (snd (Size plane)) (1 / 10 ^ 4))),
            tf = R \<rparr>)"

text \<open>\<open>ConstructMesh\<close> (lines 210-218) reports that meshes are not implemented.\<close>

definition ConstructMesh :: "Mesh \<Rightarrow> ShapeAndTransform \<times> Diagnostic list" where
  "ConstructMesh mesh = (\<lparr> shape = None, tf = 1 \<rparr>, [MeshNotImplemented])"

text \<open>\<open>ConstructGeometry\<close> (lines 221-236), with the messages it writes.\<close>

definition ConstructGeometry :: "Geometry \<Rightarrow> ShapeAndTransform \<times> Diagnostic list" where
  "ConstructGeometry geometry =
     (case BoxShape geometry of Some box \<Rightarrow> (ConstructBox box, [])
      | None \<Rightarrow>
     (case CylinderShape geometry of Some cylinder \<Rightarrow> (ConstructCylinder cylinder, [])
      | None \<Rightarrow>
     (case SphereShape geometry of Some sphere \<Rightarrow> (ConstructSphere sphere, [])
      | None \<Rightarrow>
     (case PlaneShape geometry of Some plane \<Rightarrow> (ConstructPlane plane, [])
      | None \<Rightarrow>
     (case MeshShape geometry of Some mesh \<Rightarrow> ConstructMesh mesh
      | None \<Rightarrow> (\<lparr> shape = None, tf = 1 \<rparr>, []))))))"

section \<open>The engine: bodies, joints and frames\<close>

text \<open>
  Modelled from the spec: the rigid-body engine behind the builder (dartsim) is not part of the
  sources.  Its body graph is modelled as the spec describes it (sections 3 and 4.5): every
  body has at most one parent body and one parent joint; the joint carries the fixed transforms
  parent-to-prejoint (\<open>T_ParentBodyToJoint\<close>) and child-to-postjoint
  (\<open>T_ChildBodyToJoint\<close>) and the position-dependent transform prejoint-to-postjoint
  (\<open>relative\<close>, at the joint's current generalized coordinates); the engine places the child
  at \<open>T_parent \<cdot> parent-to-prejoint \<cdot> prejoint_T_postjoint(q) \<cdot> child-to-postjoint\<inverse>\<close>.
  A pointer to a body is its index in \<open>nodes\<close>; the address of a joint object is a number.
\<close>

datatype DartJointType =
  FreeJoint | BallJoint | WeldJoint | PrismaticJoint | RevoluteJoint | ScrewJoint | UniversalJoint

record Joint =
  jointType :: DartJointType
  jointName :: string
  jointProperties :: Properties
  T_ParentBodyToJoint :: Isometry3d
  T_ChildBodyToJoint :: Isometry3d
  relative :: Isometry3d
  address :: nat

record Inertia =
  mass :: real
  moment :: Matrix3d
  localCOM :: Vector3d

record BodyNode =
  bodyName :: string
  skeleton :: nat
  mInertia :: Inertia
  parentBodyNode :: "nat option"
  parentJoint :: Joint

datatype Frame = World | Body nat

record SimpleFrame =
  frameName :: string
  parentFrame :: Frame
  relativeTransform :: Isometry3d

record Skeleton =
  skeletonName :: string
  mobile :: bool
  selfCollisionCheck :: bool

datatype Aspect = CollisionAspect | VisualAspect

record ShapeNode =
  shapeBody :: nat
  shapeNodeName :: string
  nodeShape :: Shape
  shapeRelativeTransform :: Isometry3d
  aspect :: Aspect
  color :: "(real \<times> real \<times> real \<times> real) option"

text \<open>
  Modelled from the spec: what the engine computes inside a joint is left open.  \<open>relativeAt\<close>
  is the prejoint-to-postjoint transform of a joint of a given kind and properties at given
  generalized coordinates; \<open>startPositions\<close> are the coordinates the engine gives a joint when
  it creates it (the spec: "default, typically zero") from the properties that \<open>moveTo\<close>
  hands over, the initial positions among them.
\<close>

record Engine =
  relativeAt :: "DartJointType \<Rightarrow> Properties \<Rightarrow> double list \<Rightarrow> Isometry3d"
  startPositions :: "DartJointType \<Rightarrow> Properties \<Rightarrow> double list"

text \<open>
  Modelled from the spec: the registries of the plugin (Base.hh is not part of the sources),
  "flat ownership maps from handle to native object" with one counter for all handles, and
  the identity returned to the caller, with its invalid sentinel.
\<close>

record ModelInfo =
  model :: nat
  frame :: SimpleFrame

record ShapeInfo =
  node :: nat
  tf_offset :: Isometry3d

datatype Identity = Identity nat | InvalidId

record State =
  nodes :: "BodyNode list"
  shapeNodes :: "ShapeNode list"
  skeletons :: "Skeleton list"
  jointCount :: nat
  models :: "nat \<rightharpoonup> ModelInfo"
  links :: "nat \<rightharpoonup> nat"
  joints :: "nat \<rightharpoonup> nat"
  shapes :: "nat \<rightharpoonup> ShapeInfo"
  entityCount :: nat
  cerr :: "Diagnostic list"

definition report :: "State \<Rightarrow> Diagnostic \<Rightarrow> State" where
  "report st d = st\<lparr> cerr := cerr st @ [d] \<rparr>"

definition AddModel :: "State \<Rightarrow> ModelInfo \<Rightarrow> nat \<Rightarrow> nat \<times> State" where
  "AddModel st info worldID =
     (entityCount st,
      st\<lparr> models := (models st)(entityCount st \<mapsto> info), entityCount := Suc (entityCount st) \<rparr>)"

definition AddLink :: "State \<Rightarrow> nat \<Rightarrow> nat \<times> State" where
  "AddLink st bn =
     (entityCount st,
      st\<lparr> links := (links st)(entityCount st \<mapsto> bn), entityCount := Suc (entityCount st) \<rparr>)"

definition AddJoint :: "State \<Rightarrow> nat \<Rightarrow> nat \<times> State" where
  "AddJoint st joint =
     (entityCount st,
      st\<lparr> joints := (joints st)(entityCount st \<mapsto> joint), entityCount := Suc (entityCount st) \<rparr>)"

definition AddShape :: "State \<Rightarrow> ShapeInfo \<Rightarrow> nat \<times> State" where
  "AddShape st info =
     (entityCount st,
      st\<lparr> shapes := (shapes st)(entityCount st \<mapsto> info), entityCount := Suc (entityCount st) \<rparr>)"

text \<open>
  The transform of a body relative to its parent frame, and its world transform: the product
  of the relative transforms up the chain of parents.  The walk up the chain is a loop; on a
  graph with a cycle it does not return (\<open>None\<close>), and it has no value at a pointer that is
  not a body.
\<close>

definition getRelativeTransform :: "BodyNode \<Rightarrow> Isometry3d" where
  "getRelativeTransform bn =
     T_ParentBodyToJoint (parentJoint bn) * relative (parentJoint bn)
       * inverse (T_ChildBodyToJoint (parentJoint bn))"

partial_function (option) getWorldTransform :: "BodyNode list \<Rightarrow> nat \<Rightarrow> Isometry3d option" where
  "getWorldTransform ns b =
     (if b < length ns then
        (case parentBodyNode (ns ! b) of
           None \<Rightarrow> Some (getRelativeTransform (ns ! b))
         | Some p \<Rightarrow>
             Option.bind (getWorldTransform ns p) (\<lambda>W. Some (W * getRelativeTransform (ns ! b))))
      else None)"

text \<open>
  \<open>a->descendsFrom(b)\<close>: true when \<open>a\<close> is \<open>b\<close> or \<open>b\<close> is met on the way from \<open>a\<close> up to
  the world.
\<close>

partial_function (option) descendsFrom :: "BodyNode list \<Rightarrow> nat \<Rightarrow> nat \<Rightarrow> bool option" where
  "descendsFrom ns a b =
     (if a = b then Some True
      else if a < length ns then
        (case parentBodyNode (ns ! a) of
           None \<Rightarrow> Some False
         | Some p \<Rightarrow> descendsFrom ns p b)
      else None)"

text \<open>\<open>child->getTransform(withRespectTo)\<close> for two bodies.\<close>

definition getTransform :: "BodyNode list \<Rightarrow> nat \<Rightarrow> nat \<Rightarrow> Isometry3d option" where
  "getTransform ns b withRespectTo =
     (if \<not> b < length ns then None
      else if parentBodyNode (ns ! b) = Some withRespectTo then Some (getRelativeTransform (ns ! b))
      else if withRespectTo = b then Some 1
      else do {
        W0 \<leftarrow> getWorldTransform ns withRespectTo;
        W \<leftarrow> getWorldTransform ns b;
        Some (inverse W0 * W)
      })"

definition SimpleFrame_getWorldTransform :: "BodyNode list \<Rightarrow> SimpleFrame \<Rightarrow> Isometry3d option" where
  "SimpleFrame_getWorldTransform ns f =
     (case parentFrame f of
        World \<Rightarrow> Some (relativeTransform f)
      | Body b \<Rightarrow> do { W \<leftarrow> getWorldTransform ns b; Some (W * relativeTransform f) })"

text \<open>
  \<open>skeleton->getBodyNode(name)\<close> and \<open>skeleton->getNumBodyNodes()\<close>.  \<open>indexOf\<close> is the
  first position of a list that satisfies a predicate.
\<close>

fun indexOf :: "('a \<Rightarrow> bool) \<Rightarrow> 'a list \<Rightarrow> nat option" where
  "indexOf P [] = None"
| "indexOf P (x # xs) = (if P x then Some 0 else map_option Suc (indexOf P xs))"

definition getBodyNode :: "BodyNode list \<Rightarrow> nat \<Rightarrow> string \<Rightarrow> nat option" where
  "getBodyNode ns sk name = indexOf (\<lambda>bn. skeleton bn = sk \<and> bodyName bn = name) ns"

definition getNumBodyNodes :: "BodyNode list \<Rightarrow> nat \<Rightarrow> nat" where
  "getNumBodyNodes ns sk = length (filter (\<lambda>bn. skeleton bn = sk) ns)"

text \<open>
  \<open>child->moveTo<JointType>(newParent, properties)\<close>: the child gets the new parent and a
  new parent joint of the given kind, with identity transforms to its two bodies, the name the
  engine gives a joint by default, and the coordinates the engine starts it with.  The caller
  has excluded that the new parent descends from the child; both bodies are in one skeleton.
\<close>

definition attach :: "State \<Rightarrow> nat \<Rightarrow> nat \<Rightarrow> Joint \<Rightarrow> State" where
  "attach st child newParent joint =
     st\<lparr> nodes := (nodes st)[child := (nodes st ! child)
            \<lparr> parentBodyNode := Some newParent, parentJoint := joint \<rparr>],
         jointCount := Suc (jointCount st) \<rparr>"

definition moveTo :: "Engine \<Rightarrow> State \<Rightarrow> nat \<Rightarrow> nat \<Rightarrow> DartJointType \<Rightarrow> Properties \<Rightarrow> State" where
  "moveTo E st child newParent jtype props =
     attach st child newParent
       \<lparr> jointType = jtype, jointName = ''Joint'', jointProperties = props,
         T_ParentBodyToJoint = 1, T_ChildBodyToJoint = 1,
         relative = relativeAt E jtype props (startPositions E jtype props),
         address = jointCount st \<rparr>"

text \<open>The setters of the parent joint of body \<open>b\<close>.\<close>

definition updateJoint :: "State \<Rightarrow> nat \<Rightarrow> (Joint \<Rightarrow> Joint) \<Rightarrow> State" where
  "updateJoint st b f =
     st\<lparr> nodes := (nodes st)[b := (nodes st ! b)\<lparr> parentJoint := f (parentJoint (nodes st ! b)) \<rparr>] \<rparr>"

definition setName :: "State \<Rightarrow> nat \<Rightarrow> string \<Rightarrow> State" where
  "setName st b name = updateJoint st b (\<lambda>j. j\<lparr> jointName := name \<rparr>)"

definition setTransformFromParentBodyNode :: "State \<Rightarrow> nat \<Rightarrow> Isometry3d \<Rightarrow> State" where
  "setTransformFromParentBodyNode st b T = updateJoint st b (\<lambda>j. j\<lparr> T_ParentBodyToJoint := T \<rparr>)"

definition setTransformFromChildBodyNode :: "State \<Rightarrow> nat \<Rightarrow> Isometry3d \<Rightarrow> State" where
  "setTransformFromChildBodyNode st b T = updateJoint st b (\<lambda>j. j\<lparr> T_ChildBodyToJoint := T \<rparr>)"

text \<open>
  \<open>screw->setPitch(pitch)\<close>, called right after the joint is created: the coordinates are
  still those the joint was created with (under its properties of then), the transform across
  the joint is the one for the new pitch.
\<close>

definition setPitch :: "Engine \<Rightarrow> State \<Rightarrow> nat \<Rightarrow> real \<Rightarrow> State" where
  "setPitch E st b pitch =
     updateJoint st b (\<lambda>j. j
       \<lparr> jointProperties := (jointProperties j)\<lparr> mPitch := pitch \<rparr>,
         relative := relativeAt E (jointType j) ((jointProperties j)\<lparr> mPitch := pitch \<rparr>)
                       (startPositions E (jointType j) (jointProperties j)) \<rparr>)"

text \<open>
  \<open>joint->setPositions(q)\<close>: the transform across the parent joint of \<open>b\<close> becomes the one at
  the coordinates \<open>q\<close>.  The builder does not call it; it is what a caller does to put a joint
  at its declared initial position.
\<close>

definition setPositions :: "Engine \<Rightarrow> BodyNode list \<Rightarrow> nat \<Rightarrow> double list \<Rightarrow> BodyNode list" where
  "setPositions E ns b q =
     ns[b := (ns ! b)\<lparr> parentJoint := (parentJoint (ns ! b))
          \<lparr> relative := relativeAt E (jointType (parentJoint (ns ! b)))
                          (jointProperties (parentJoint (ns ! b))) q \<rparr> \<rparr>]"

text \<open>
  \<open>FreeJoint::setTransform(tf)\<close> for the free joint of a body without a parent: the
  coordinates of the joint are set so that the body is at \<open>tf\<close> in the world.
\<close>

definition FreeJoint_setTransform :: "State \<Rightarrow> nat \<Rightarrow> Isometry3d \<Rightarrow> State" where
  "FreeJoint_setTransform st b T =
     updateJoint st b (\<lambda>j. j\<lparr> relative := inverse (T_ParentBodyToJoint j) * T * T_ChildBodyToJoint j \<rparr>)"

text \<open>
  \<open>Eigen::Matrix3d::inverse()\<close>, the inverse of a general matrix (by cofactors), used for the
  inertia of a link.
\<close>

fun inverse3 :: "Matrix3d \<Rightarrow> Matrix3d" where
  "inverse3 (Matrix3d a b c  d e f  g h i) =
     (let det = a * (e * i - f * h) - b * (d * i - f * g) + c * (d * h - e * g) in
      Matrix3d ((e * i - f * h) / det) ((c * h - b * i) / det) ((b * f - c * e) / det)
               ((f * g - d * i) / det) ((a * i - c * g) / det) ((c * d - a * f) / det)
               ((d * h - e * g) / det) ((b * g - a * h) / det) ((a * e - b * d) / det))"

section \<open>Reference-frame resolver\<close>

text \<open>\<open>GetParentModelFrame\<close> (lines 89-93).\<close>

definition GetParentModelFrame :: "BodyNode list \<Rightarrow> ModelInfo \<Rightarrow> Isometry3d option" where
  "GetParentModelFrame ns modelInfo = SimpleFrame_getWorldTransform ns (frame modelInfo)"

text \<open>\<open>ResolveSdfLinkReferenceFrame\<close> (lines 668-681).\<close>

definition ResolveSdfLinkReferenceFrame ::
  "State \<Rightarrow> string \<Rightarrow> ModelInfo \<Rightarrow> (Isometry3d \<times> State) option" where
  "ResolveSdfLinkReferenceFrame st frameN modelInfo =
     (if frameN = [] then do { T \<leftarrow> GetParentModelFrame (nodes st) modelInfo; Some (T, st) }
      else Some (1, report st (UnsupportedLinkFrame frameN)))"

text \<open>\<open>ResolveSdfJointReferenceFrame\<close> (lines 684-700).\<close>

definition ResolveSdfJointReferenceFrame ::
  "State \<Rightarrow> string \<Rightarrow> nat \<Rightarrow> (Isometry3d \<times> State) option" where
  "ResolveSdfJointReferenceFrame st frameN child =
     (if frameN = [] then do { T \<leftarrow> getWorldTransform (nodes st) child; Some (T, st) }
      else Some (1, report st (UnsupportedJointFrame frameN)))"

section \<open>Shapes of a link\<close>

text \<open>\<open>SDFFeatures::ConstructSdfCollision\<close> (lines 413-450).\<close>

definition ConstructSdfCollision :: "State \<Rightarrow> nat \<Rightarrow> SdfCollision \<Rightarrow> (Identity \<times> State) option" where
  "ConstructSdfCollision st linkID collision =
     (case CollisionGeom collision of
        None \<Rightarrow> Some (InvalidId, report st (NullCollisionGeometry (CollisionName collision)))
      | Some geom \<Rightarrow>
          (let (st0, diags) = ConstructGeometry geom;
               st1 = st\<lparr> cerr := cerr st @ diags \<rparr>
           in case shape st0 of
                None \<Rightarrow> Some (InvalidId, st1)
              | Some sh \<Rightarrow>
                  (case links st1 linkID of
                     None \<Rightarrow> None
                   | Some bn \<Rightarrow>
                       if bn < length (nodes st1) then
                         (let internalName =
                                bodyName (nodes st1 ! bn) @ ''_collision_'' @ CollisionName collision;
                              node = length (shapeNodes st1);
                              st2 = st1\<lparr> shapeNodes := shapeNodes st1 @
                                      [\<lparr> shapeBody = bn, shapeNodeName = internalName, nodeShape = sh,
                                         shapeRelativeTransform = CollisionPose collision * tf st0,
                                         aspect = CollisionAspect, color = None \<rparr>] \<rparr>;
                              (shapeID, st3) = AddShape st2 \<lparr> node = node, tf_offset = tf st0 \<rparr>
                          in Some (Identity shapeID, st3))
                       else None)))"

text \<open>\<open>SDFFeatures::ConstructSdfVisual\<close> (lines 453-499).\<close>

definition ConstructSdfVisual :: "State \<Rightarrow> nat \<Rightarrow> SdfVisual \<Rightarrow> (Identity \<times> State) option" where
  "ConstructSdfVisual st linkID visual =
     (case VisualGeom visual of
        None \<Rightarrow> Some (InvalidId, report st (NullVisualGeometry (VisualName visual)))
      | Some geom \<Rightarrow>
          (let (st0, diags) = ConstructGeometry geom;
               st1 = st\<lparr> cerr := cerr st @ diags \<rparr>
           in case shape st0 of
                None \<Rightarrow> Some (InvalidId, st1)
              | Some sh \<Rightarrow>
                  (case links st1 linkID of
                     None \<Rightarrow> None
                   | Some bn \<Rightarrow>
                       if bn < length (nodes st1) then
                         (let internalName =
                                bodyName (nodes st1 ! bn) @ ''_visual_'' @ VisualName visual;
                              node = length (shapeNodes st1);
                              st2 = st1\<lparr> shapeNodes := shapeNodes st1 @
                                      [\<lparr> shapeBody = bn, shapeNodeName = internalName, nodeShape = sh,
                                         shapeRelativeTransform = VisualPose visual * tf st0,
                                         aspect = VisualAspect,
                                         color = map_option Ambient (VisualMaterial visual) \<rparr>] \<rparr>;
                              (shapeID, st3) = AddShape st2 \<lparr> node = node, tf_offset = tf st0 \<rparr>
                          in Some (Identity shapeID, st3))
                       else None)))"

text \<open>The two loops over the collisions and the visuals of a link (lines 380-392).\<close>

fun CollisionLoop :: "State \<Rightarrow> nat \<Rightarrow> SdfCollision option list \<Rightarrow> State option" where
  "CollisionLoop st linkID [] = Some st"
| "CollisionLoop st linkID (None # cs) = CollisionLoop st linkID cs"
| "CollisionLoop st linkID (Some collision # cs) =
     do { (r, st') \<leftarrow> ConstructSdfCollision st linkID collision; CollisionLoop st' linkID cs }"

fun VisualLoop :: "State \<Rightarrow> nat \<Rightarrow> SdfVisual option list \<Rightarrow> State option" where
  "VisualLoop st linkID [] = Some st"
| "VisualLoop st linkID (None # vs) = VisualLoop st linkID vs"
| "VisualLoop st linkID (Some visual # vs) =
     do { (r, st') \<leftarrow> ConstructSdfVisual st linkID visual; VisualLoop st' linkID vs }"

section \<open>Link builder and link resolver\<close>

text \<open>
  The first part of \<open>SDFFeatures::ConstructSdfLink\<close> (lines 324-355): the properties of the
  body and of its free joint, and the new body, without a parent, in the skeleton of the
  model.  The body is created with the name of the link; the renaming the engine does when
  the skeleton already has a body of that name is not modelled (the link resolver calls the
  builder only for a name the skeleton does not have).
\<close>

definition CreateFreeBody :: "State \<Rightarrow> ModelInfo \<Rightarrow> SdfLink \<Rightarrow> State" where
  "CreateFreeBody st modelInfo sdfLink =
     (let sdfInertia = LinkInertial sdfLink;
          R_inertial = linear (InertialPose sdfInertia);
          I_link = R_inertial * Moi sdfInertia * inverse3 R_inertial;
          localCom = translation (InertialPose sdfInertia)
      in st\<lparr> nodes := nodes st @
              [\<lparr> bodyName = LinkName sdfLink, skeleton = model modelInfo,
                 mInertia = \<lparr> mass = Mass sdfInertia, moment = I_link, localCOM = localCom \<rparr>,
                 parentBodyNode = None,
                 parentJoint =
                   \<lparr> jointType = FreeJoint, jointName = LinkName sdfLink @ ''_FreeJoint'',
                     jointProperties = default_properties 6 [],
                     T_ParentBodyToJoint = 1, T_ChildBodyToJoint = 1, relative = 1,
                     address = jointCount st \<rparr> \<rparr>],
              jointCount := Suc (jointCount st) \<rparr>)"

text \<open>
  The step of \<open>SDFFeatures::ConstructSdfLink\<close> for the canonical link (lines 369-378): when
  the body \<open>bn\<close> is the only one of its skeleton, the model frame is moved from the world onto
  it; \<open>setTransform\<close> gives the frame the relative transform that puts it at \<open>tf_frame\<close> in the
  world.
\<close>

definition MoveModelFrame :: "State \<Rightarrow> nat \<Rightarrow> ModelInfo \<Rightarrow> nat \<Rightarrow> State option" where
  "MoveModelFrame st modelID modelInfo bn =
     (if getNumBodyNodes (nodes st) (model modelInfo) = 1 then do {
        tf_frame \<leftarrow> SimpleFrame_getWorldTransform (nodes st) (frame modelInfo);
        W \<leftarrow> getWorldTransform (nodes st) bn;
        Some (st\<lparr> models := (models st)(modelID \<mapsto> modelInfo
                \<lparr> frame := (frame modelInfo)
                    \<lparr> parentFrame := Body bn, relativeTransform := inverse W * tf_frame \<rparr> \<rparr>) \<rparr>)
      }
      else Some st)"

text \<open>
  \<open>SDFFeatures::ConstructSdfLink\<close> (lines 320-395).  \<open>models.at\<close> throws for a model that is
  not registered (\<open>None\<close>).
\<close>

definition ConstructSdfLink :: "State \<Rightarrow> nat \<Rightarrow> SdfLink \<Rightarrow> (Identity \<times> State) option" where
  "ConstructSdfLink st modelID sdfLink =
     (case models st modelID of
        None \<Rightarrow> None
      | Some modelInfo \<Rightarrow>
          (let bn = length (nodes st);
               st1 = CreateFreeBody st modelInfo sdfLink
           in do {
             (T, st2) \<leftarrow> ResolveSdfLinkReferenceFrame st1 (LinkPoseFrame sdfLink) modelInfo;
             let st3 = FreeJoint_setTransform st2 bn (T * LinkPose sdfLink);
             let (linkID, st4) = AddLink st3 bn;
             let (jointID, st5) = AddJoint st4 (jointCount st);
             st6 \<leftarrow> MoveModelFrame st5 modelID modelInfo bn;
             st7 \<leftarrow> CollisionLoop st6 linkID (Collisions sdfLink);
             st8 \<leftarrow> VisualLoop st7 linkID (Visuals sdfLink);
             Some (Identity linkID, st8)
           }))"

text \<open>
  \<open>SDFFeatures::FindOrConstructLink\<close> (lines 502-522).  The result is the pointer to the
  body, or null.
\<close>

definition FindOrConstructLink ::
  "State \<Rightarrow> nat \<Rightarrow> nat \<Rightarrow> SdfModel \<Rightarrow> string \<Rightarrow> (nat option \<times> State) option" where
  "FindOrConstructLink st skel modelID sdfModel linkName =
     (case getBodyNode (nodes st) skel linkName of
        Some link \<Rightarrow> Some (Some link, st)
      | None \<Rightarrow>
          (case LinkByName sdfModel linkName of
             None \<Rightarrow> Some (None, report st (LinkNotInModel (ModelName sdfModel) linkName))
           | Some sdfLink \<Rightarrow> do {
               (ident, st') \<leftarrow> ConstructSdfLink st modelID sdfLink;
               (case ident of
                  InvalidId \<Rightarrow> None
                | Identity linkID \<Rightarrow>
                    (case links st' linkID of None \<Rightarrow> None | Some bn \<Rightarrow> Some (Some bn, st')))
             }))"

section \<open>Joint builder\<close>

text \<open>
  \<open>ConvertJointAxis\<close> (lines 96-112).  The source goes through unit quaternions; a rotation
  is modelled by its matrix, the inverse of a rotation by the transpose.
\<close>

definition ConvertJointAxis ::
  "BodyNode list \<Rightarrow> JointAxis \<Rightarrow> ModelInfo \<Rightarrow> Isometry3d \<Rightarrow> Vector3d option" where
  "ConvertJointAxis ns sdfAxis modelInfo T_joint =
     (let axis = Xyz sdfAxis in
      if UseParentModelFrame sdfAxis then do {
        T_model \<leftarrow> GetParentModelFrame ns modelInfo;
        let O_R_J = linear T_joint;
        let O_R_M = linear T_model;
        let J_R_M = transpose3 O_R_J * O_R_M;
        Some (mat_vec J_R_M axis)
      }
      else Some axis)"

text \<open>
  \<open>ConstructSingleAxisJoint\<close> (lines 115-131).  The axis pointer of a joint without that
  axis is null, and reading through it is undefined (\<open>None\<close>).
\<close>

definition ConstructSingleAxisJoint ::
  "Engine \<Rightarrow> State \<Rightarrow> DartJointType \<Rightarrow> ModelInfo \<Rightarrow> SdfJoint \<Rightarrow> nat \<Rightarrow> nat \<Rightarrow> Isometry3d
    \<Rightarrow> State option" where
  "ConstructSingleAxisJoint E st jtype modelInfo sdfJoint parent child T_joint =
     (case Axis sdfJoint 0 of
        None \<Rightarrow> None
      | Some sdfAxis \<Rightarrow> do {
          axis \<leftarrow> ConvertJointAxis (nodes st) sdfAxis modelInfo T_joint;
          let properties = (default_properties 1 [UnitZ])\<lparr> mAxis := [axis] \<rparr>;
          let properties = CopyStandardJointAxisProperties 0 properties sdfAxis;
          Some (moveTo E st child parent jtype properties)
        })"

text \<open>\<open>ConstructUniversalJoint\<close> (lines 134-152); the loop runs over the indices 0 and 1.\<close>

fun UniversalAxes ::
  "BodyNode list \<Rightarrow> ModelInfo \<Rightarrow> SdfJoint \<Rightarrow> Isometry3d \<Rightarrow> Properties \<Rightarrow> nat list
    \<Rightarrow> Properties option" where
  "UniversalAxes ns modelInfo sdfJoint T_joint properties [] = Some properties"
| "UniversalAxes ns modelInfo sdfJoint T_joint properties (index # rest) =
     (case Axis sdfJoint index of
        None \<Rightarrow> None
      | Some sdfAxis \<Rightarrow> do {
          axis \<leftarrow> ConvertJointAxis ns sdfAxis modelInfo T_joint;
          let properties = properties\<lparr> mAxis := (mAxis properties)[index := axis] \<rparr>;
          let properties = CopyStandardJointAxisProperties index properties sdfAxis;
          UniversalAxes ns modelInfo sdfJoint T_joint properties rest
        })"

definition ConstructUniversalJoint ::
  "Engine \<Rightarrow> State \<Rightarrow> ModelInfo \<Rightarrow> SdfJoint \<Rightarrow> nat \<Rightarrow> nat \<Rightarrow> Isometry3d \<Rightarrow> State option" where
  "ConstructUniversalJoint E st modelInfo sdfJoint parent child T_joint =
     do {
       properties \<leftarrow> UniversalAxes (nodes st) modelInfo sdfJoint T_joint
         (default_properties 2 [Vector3d 1 0 0, Vector3d 0 1 0]) [0, 1];
       Some (moveTo E st child parent UniversalJoint properties)
     }"

text \<open>
  The end of \<open>SDFFeatures::ConstructSdfJoint\<close> (lines 635-664), once the joint exists as the
  parent joint of the child: its name, the two provisional transforms, the transform across
  the joint read back, the corrected parent transform, and the registration.
\<close>

definition ReconcileJointTransforms ::
  "State \<Rightarrow> SdfJoint \<Rightarrow> nat \<Rightarrow> nat \<Rightarrow> Isometry3d \<Rightarrow> Isometry3d \<Rightarrow> Isometry3d
    \<Rightarrow> (Identity \<times> State) option" where
  "ReconcileJointTransforms st sdfJoint parent child T_parent T_child T_joint =
     (let st1 = setName st child (JointName sdfJoint);
          child_T_postjoint = inverse T_child * T_joint;
          parent_T_prejoint_init = inverse T_parent * T_joint;
          st2 = setTransformFromParentBodyNode st1 child parent_T_prejoint_init;
          st3 = setTransformFromChildBodyNode st2 child child_T_postjoint
      in do {
        T_rel \<leftarrow> getTransform (nodes st3) child parent;
        let prejoint_T_postjoint = inverse parent_T_prejoint_init * T_rel * child_T_postjoint;
        W \<leftarrow> getWorldTransform (nodes st3) parent;
        let parent_T_prejoint_final =
              inverse W * T_child * child_T_postjoint * inverse prejoint_T_postjoint;
        let st4 = setTransformFromParentBodyNode st3 child parent_T_prejoint_final;
        let (jointID, st5) = AddJoint st4 (address (parentJoint (nodes st4 ! child)));
        Some (Identity jointID, st5)
      })"

text \<open>
  The dispatch on the type of the joint in \<open>SDFFeatures::ConstructSdfJoint\<close> (lines
  573-633): the state in which the joint has been created as the parent joint of the child, or
  nothing for a type that is not supported.
\<close>

definition CreateJointOfType ::
  "Engine \<Rightarrow> State \<Rightarrow> ModelInfo \<Rightarrow> SdfJoint \<Rightarrow> nat \<Rightarrow> nat \<Rightarrow> Isometry3d \<Rightarrow> State option option" where
  "CreateJointOfType E st modelInfo sdfJoint parent child T_joint =
     (case Type sdfJoint of
        BALL \<Rightarrow> Some (Some (moveTo E st child parent BallJoint (default_properties 3 [])))
      | FIXED \<Rightarrow> Some (Some (moveTo E st child parent WeldJoint (default_properties 0 [])))
      | PRISMATIC \<Rightarrow>
          map_option Some
            (ConstructSingleAxisJoint E st PrismaticJoint modelInfo sdfJoint parent child T_joint)
      | REVOLUTE \<Rightarrow>
          map_option Some
            (ConstructSingleAxisJoint E st RevoluteJoint modelInfo sdfJoint parent child T_joint)
      | SCREW \<Rightarrow> do {
          screw \<leftarrow> ConstructSingleAxisJoint E st ScrewJoint modelInfo sdfJoint parent child T_joint;
          (case ThreadPitch sdfJoint of
             Some pitch \<Rightarrow> Some (Some (setPitch E screw child pitch))
           | None \<Rightarrow> Some (Some screw))
        }
      | UNIVERSAL \<Rightarrow>
          map_option Some (ConstructUniversalJoint E st modelInfo sdfJoint parent child T_joint)
      | _ \<Rightarrow> Some None)"

text \<open>
  \<open>SDFFeatures::ConstructSdfJoint\<close> (lines 525-665), for the model, the joint and the two
  body pointers (null: \<open>None\<close>).  A pointer that is not a body of the engine is undefined
  behaviour (\<open>None\<close> as a result).
\<close>

definition ConstructSdfJoint ::
  "Engine \<Rightarrow> State \<Rightarrow> ModelInfo \<Rightarrow> SdfJoint \<Rightarrow> nat option \<Rightarrow> nat option
    \<Rightarrow> (Identity \<times> State) option" where
  "ConstructSdfJoint E st modelInfo sdfJoint parentPtr childPtr =
     (case (parentPtr, childPtr) of
        (Some parent, Some child) \<Rightarrow>
          if \<not> (parent < length (nodes st) \<and> child < length (nodes st)) then None
          else do {
            closed \<leftarrow> descendsFrom (nodes st) parent child;
            if closed then
              Some (InvalidId,
                    report st (ClosedKinematicChain (bodyName (nodes st ! parent))
                                                    (bodyName (nodes st ! child))))
            else do {
              T_parent \<leftarrow> getWorldTransform (nodes st) parent;
              T_child \<leftarrow> getWorldTransform (nodes st) child;
              (T_frame, st) \<leftarrow> ResolveSdfJointReferenceFrame st (JointPoseFrame sdfJoint) child;
              let T_joint = T_frame * JointPose sdfJoint;
              created \<leftarrow> CreateJointOfType E st modelInfo sdfJoint parent child T_joint;
              (case created of
                 None \<Rightarrow> Some (InvalidId, report st (UnsupportedJointType (Type sdfJoint)))
               | Some st \<Rightarrow>
                   ReconcileJointTransforms st sdfJoint parent child T_parent T_child T_joint)
            }
          }
      | _ \<Rightarrow>
          Some (InvalidId,
                report st (LinksNotFound (ParentLinkName sdfJoint) (ChildLinkName sdfJoint)
                             (skeletonName (skeletons st ! model modelInfo))
                             (parentPtr = None) (childPtr = None))))"

text \<open>
  \<open>SDFFeatures::ConstructSdfJoint\<close> for a model handle (lines 398-410); \<open>models[_modelID]\<close>
  of a handle that is not registered leads to a null skeleton (\<open>None\<close>).
\<close>

definition ConstructSdfJointInModel ::
  "Engine \<Rightarrow> State \<Rightarrow> nat \<Rightarrow> SdfJoint \<Rightarrow> (Identity \<times> State) option" where
  "ConstructSdfJointInModel E st modelID sdfJoint =
     (case models st modelID of
        None \<Rightarrow> None
      | Some modelInfo \<Rightarrow>
          ConstructSdfJoint E st modelInfo sdfJoint
            (getBodyNode (nodes st) (model modelInfo) (ParentLinkName sdfJoint))
            (getBodyNode (nodes st) (model modelInfo) (ChildLinkName sdfJoint)))"

section \<open>Model assembler\<close>

text \<open>
  The two loops of \<open>SDFFeatures::ConstructSdfModel\<close> (lines 288-314).  \<open>modelInfo\<close> in the
  source is a reference to the registered entry, read here from the registry when it is used.
\<close>

fun LinkLoop :: "State \<Rightarrow> nat \<Rightarrow> nat \<Rightarrow> SdfModel \<Rightarrow> SdfLink list \<Rightarrow> State option" where
  "LinkLoop st skel modelID sdfModel [] = Some st"
| "LinkLoop st skel modelID sdfModel (l # ls) =
     do {
       (r, st') \<leftarrow> FindOrConstructLink st skel modelID sdfModel (LinkName l);
       LinkLoop st' skel modelID sdfModel ls
     }"

fun JointLoop ::
  "Engine \<Rightarrow> State \<Rightarrow> nat \<Rightarrow> nat \<Rightarrow> SdfModel \<Rightarrow> nat \<Rightarrow> SdfJoint option list \<Rightarrow> State option" where
  "JointLoop E st skel modelID sdfModel i [] = Some st"
| "JointLoop E st skel modelID sdfModel i (None # js) =
     JointLoop E (report st (NullJoint i (ModelName sdfModel))) skel modelID sdfModel (Suc i) js"
| "JointLoop E st skel modelID sdfModel i (Some sdfJoint # js) =
     do {
       (parent, st1) \<leftarrow> FindOrConstructLink st skel modelID sdfModel (ParentLinkName sdfJoint);
       (child, st2) \<leftarrow> FindOrConstructLink st1 skel modelID sdfModel (ChildLinkName sdfJoint);
       modelInfo \<leftarrow> models st2 modelID;
       (r, st3) \<leftarrow> ConstructSdfJoint E st2 modelInfo sdfJoint parent child;
       JointLoop E st3 skel modelID sdfModel (Suc i) js
     }"

text \<open>
  \<open>SDFFeatures::ConstructSdfModel\<close> (lines 269-317).  The new skeleton is the next entry of
  \<open>skeletons\<close>; the world that receives it is not modelled.
\<close>

definition ConstructSdfModel ::
  "Engine \<Rightarrow> State \<Rightarrow> nat \<Rightarrow> SdfModel \<Rightarrow> (Identity \<times> State) option" where
  "ConstructSdfModel E st worldID sdfModel =
     (let skel = length (skeletons st);
          modelFrame = \<lparr> frameName = ModelName sdfModel @ ''_frame'', parentFrame = World,
                         relativeTransform = ModelPose sdfModel \<rparr>;
          st1 = st\<lparr> skeletons := skeletons st @
                  [\<lparr> skeletonName = ModelName sdfModel, mobile = \<not> Static sdfModel,
                     selfCollisionCheck = SelfCollide sdfModel \<rparr>] \<rparr>;
          (modelID, st2) = AddModel st1 \<lparr> model = skel, frame = modelFrame \<rparr> worldID
      in do {
        st3 \<leftarrow> LinkLoop st2 skel modelID sdfModel (Links sdfModel);
        st4 \<leftarrow> JointLoop E st3 skel modelID sdfModel 0 (Joints sdfModel);
        Some (Identity modelID, st4)
      })"

section \<open>The tree of bodies\<close>

text \<open>
  The edges of the body graph, from a parent to its child, and the invariant that the
  joint builder keeps: following the parents from any body ends (no body is its own
  ancestor), and no parent pointer dangles.
\<close>

definition parentRel :: "BodyNode list \<Rightarrow> (nat \<times> nat) set" where
  "parentRel ns = {(p, c). c < length ns \<and> parentBodyNode (ns ! c) = Some p}"

definition tree :: "BodyNode list \<Rightarrow> bool" where
  "tree ns \<longleftrightarrow>
     wf (parentRel ns) \<and> (\<forall>c < length ns. \<forall>p. parentBodyNode (ns ! c) = Some p \<longrightarrow> p < length ns)"

text \<open>
  The engine hands out rigid transforms: the transform across a joint at the coordinates it
  is created with is an isometry.
\<close>

definition engine_isometric :: "Engine \<Rightarrow> bool" where
  "engine_isometric E \<longleftrightarrow>
     (\<forall>jtype props props'. is_isometry (relativeAt E jtype props' (startPositions E jtype props)))"

text \<open>
  An engine that creates a joint at the initial positions of the properties it is created
  with.  The builder counts on it: it copies the declared initial position of each axis into
  the properties (line 73) and solves for the parent transform at "the current initial
  position" (lines 649-651).
\<close>

definition starts_at_initial_positions :: "Engine \<Rightarrow> bool" where
  "starts_at_initial_positions E \<longleftrightarrow>
     (\<forall>jtype props. startPositions E jtype props = mInitialPositions props)"

text \<open>
  The joint types the builder supports, and the axes a joint of each type must declare for
  the builder to read them (a missing axis is a null pointer).
\<close>

definition supported :: "JointType \<Rightarrow> bool" where
  "supported t \<longleftrightarrow> t \<in> {BALL, FIXED, PRISMATIC, REVOLUTE, SCREW, UNIVERSAL}"

definition axes_present :: "SdfJoint \<Rightarrow> bool" where
  "axes_present sdfJoint \<longleftrightarrow>
     (if Type sdfJoint \<in> {PRISMATIC, REVOLUTE, SCREW} then Axis sdfJoint 0 \<noteq> None
      else if Type sdfJoint = UNIVERSAL then Axis sdfJoint 0 \<noteq> None \<and> Axis sdfJoint 1 \<noteq> None
      else True)"

text \<open>The frame of a model hangs on the world or on a body of the engine.\<close>

definition frame_attached :: "BodyNode list \<Rightarrow> ModelInfo \<Rightarrow> bool" where
  "frame_attached ns modelInfo \<longleftrightarrow>
     (case parentFrame (frame modelInfo) of World \<Rightarrow> True | Body b \<Rightarrow> b < length ns)"

text \<open>
  A model under construction.  The first body of a skeleton is the one the engine counts
  first: the earliest made, the bodies being kept in the order of their creation.  While the
  links and joints of a model are built, the bodies form a tree and the frame registered for
  the model has the world as parent as long as the skeleton has no body, and the first body
  of the skeleton afterwards.  \<open>declared_bodies\<close>: every body of the skeleton carries the name
  of a link that the model declares.
\<close>

definition first_body :: "BodyNode list \<Rightarrow> nat \<Rightarrow> nat option" where
  "first_body ns skel = indexOf (\<lambda>bn. skeleton bn = skel) ns"

definition build_inv :: "State \<Rightarrow> nat \<Rightarrow> nat \<Rightarrow> bool" where
  "build_inv st skel modelID \<longleftrightarrow>
     tree (nodes st) \<and>
     (\<exists>modelInfo. models st modelID = Some modelInfo \<and> model modelInfo = skel \<and>
        parentFrame (frame modelInfo) =
          (case first_body (nodes st) skel of None \<Rightarrow> World | Some b \<Rightarrow> Body b))"

definition declared_bodies :: "State \<Rightarrow> nat \<Rightarrow> SdfModel \<Rightarrow> bool" where
  "declared_bodies st skel sdfModel \<longleftrightarrow>
     (\<forall>bn \<in> set (nodes st). skeleton bn = skel \<longrightarrow> LinkByName sdfModel (bodyName bn) \<noteq> None)"

text \<open>
  The bodies by skeleton and name, in the order of their creation, and a step of the
  construction of a model: it keeps the skeletons, keeps the bodies there are under their
  names, and adds bodies to the skeleton of the model only.
\<close>

definition keys :: "BodyNode list \<Rightarrow> (nat \<times> string) list" where
  "keys ns = map (\<lambda>bn. (skeleton bn, bodyName bn)) ns"

definition grows :: "nat \<Rightarrow> State \<Rightarrow> State \<Rightarrow> bool" where
  "grows skel st st' \<longleftrightarrow>
     skeletons st' = skeletons st \<and>
     (\<exists>ks. keys (nodes st') = keys (nodes st) @ ks \<and> (\<forall>k \<in> set ks. fst k = skel))"

section \<open>Example inputs\<close>

text \<open>
  An engine for the examples: it creates every joint at the coordinate zero; across a
  prismatic joint the child is translated along the axis by the coordinate; the other kinds of
  joints are only taken at zero, where the transform across them is the identity.
\<close>

fun slide :: "Vector3d list \<Rightarrow> double list \<Rightarrow> Isometry3d" where
  "slide [axis] [Finite q] = Isometry3d 1 (vscale q axis)"
| "slide axes q = 1"

definition zero_start_engine :: Engine where
  "zero_start_engine =
     \<lparr> relativeAt = (\<lambda>jtype props q. if jtype = PrismaticJoint then slide (mAxis props) q else 1),
       startPositions = (\<lambda>jtype props. replicate (length (mInitialPositions props)) (Finite 0)) \<rparr>"

text \<open>The same engine, creating every joint at the initial positions of its properties.\<close>

definition initial_start_engine :: Engine where
  "initial_start_engine =
     \<lparr> relativeAt = (\<lambda>jtype props q. if jtype = PrismaticJoint then slide (mAxis props) q else 1),
       startPositions = (\<lambda>jtype props. mInitialPositions props) \<rparr>"

definition empty_state :: State where
  "empty_state =
     \<lparr> nodes = [], shapeNodes = [], skeletons = [], jointCount = 0,
       models = Map.empty, links = Map.empty, joints = Map.empty, shapes = Map.empty,
       entityCount = 0, cerr = [] \<rparr>"

definition translate :: "real \<Rightarrow> real \<Rightarrow> real \<Rightarrow> Isometry3d" where
  "translate x y z = Isometry3d 1 (Vector3d x y z)"

definition free_body :: "string \<Rightarrow> Isometry3d \<Rightarrow> nat \<Rightarrow> BodyNode" where
  "free_body name T addr =
     \<lparr> bodyName = name, skeleton = 0,
       mInertia = \<lparr> mass = 1, moment = 1, localCOM = Vector3d 0 0 0 \<rparr>,
       parentBodyNode = None,
       parentJoint =
         \<lparr> jointType = FreeJoint, jointName = name @ ''_FreeJoint'',
           jointProperties = default_properties 6 [],
           T_ParentBodyToJoint = 1, T_ChildBodyToJoint = 1, relative = T, address = addr \<rparr> \<rparr>"

definition model_m :: ModelInfo where
  "model_m = \<lparr> model = 0,
               frame = \<lparr> frameName = ''m_frame'', parentFrame = Body 0, relativeTransform = 1 \<rparr> \<rparr>"

definition two_bodies :: State where
  "two_bodies =
     \<lparr> nodes = [free_body ''base'' 1 0, free_body ''arm'' (translate 1 0 0) 1],
       shapeNodes = [],
       skeletons = [\<lparr> skeletonName = ''m'', mobile = True, selfCollisionCheck = False \<rparr>],
       jointCount = 2,
       models = [0 \<mapsto> model_m],
       links = [1 \<mapsto> 0, 3 \<mapsto> 1], joints = [2 \<mapsto> 0, 4 \<mapsto> 1], shapes = Map.empty,
       entityCount = 5, cerr = [] \<rparr>"

definition slider_joint :: SdfJoint where
  "slider_joint =
     \<lparr> JointName = ''slider'', ParentLinkName = ''base'', ChildLinkName = ''arm'',
       Type = PRISMATIC, JointPose = 1, JointPoseFrame = [],
       Axis = (\<lambda>i. if i = 0 then Some example_axis else None), ThreadPitch = None \<rparr>"

text \<open>The arm of \<open>two_bodies\<close> once it hangs on the base by \<open>slider_joint\<close>.\<close>

definition sliding_arm :: BodyNode where
  "sliding_arm =
     (free_body ''arm'' (translate 1 0 0) 1)
       \<lparr> parentBodyNode := Some 0,
         parentJoint :=
           \<lparr> jointType = PrismaticJoint, jointName = ''slider'',
             jointProperties =
               CopyStandardJointAxisProperties 0
                 ((default_properties 1 [UnitZ])\<lparr> mAxis := [Vector3d 0 0 1] \<rparr>) example_axis,
             T_ParentBodyToJoint = translate 1 0 0, T_ChildBodyToJoint = 1, relative = 1,
             address = 2 \<rparr> \<rparr>"

definition built_slider :: State where
  "built_slider =
     two_bodies\<lparr> nodes := [free_body ''base'' 1 0, sliding_arm], jointCount := 3,
                 joints := [2 \<mapsto> 0, 4 \<mapsto> 1, 5 \<mapsto> 2], entityCount := 6 \<rparr>"

definition arm_link :: SdfLink where
  "arm_link =
     \<lparr> LinkName = ''arm'', LinkPose = translate 1 0 0, LinkPoseFrame = [],
       LinkInertial = \<lparr> Mass = 1, Moi = 1, InertialPose = 1 \<rparr>,
       Collisions = [], Visuals = [] \<rparr>"

definition world_joint :: SdfJoint where
  "world_joint =
     \<lparr> JointName = ''anchor'', ParentLinkName = ''world'', ChildLinkName = ''arm'',
       Type = FIXED, JointPose = 1, JointPoseFrame = [],
       Axis = (\<lambda>i. None), ThreadPitch = None \<rparr>"

definition anchored_model :: SdfModel where
  "anchored_model =
     \<lparr> ModelName = ''m'', ModelPose = 1, Static = False, SelfCollide = False,
       Links = [arm_link], Joints = [Some world_joint] \<rparr>"

text \<open>The two bodies with the arm already hanging on the base.\<close>

definition arm_on_base :: State where
  "arm_on_base =
     two_bodies\<lparr> nodes := [free_body ''base'' 1 0,
                            (free_body ''arm'' (translate 1 0 0) 1)\<lparr> parentBodyNode := Some 0 \<rparr>] \<rparr>"

text \<open>
  The axis conversion in the words of the specification: an axis declared relative to the
  model frame is rotated by the rotation part of \<open>T_joint\<inverse> \<cdot> T_model\<close>, any other axis
  is used as declared.
\<close>

definition spec_axis :: "Isometry3d \<Rightarrow> Isometry3d \<Rightarrow> JointAxis \<Rightarrow> Vector3d" where
  "spec_axis T_joint T_model sdfAxis =
     (if UseParentModelFrame sdfAxis
      then mat_vec (linear (inverse T_joint * T_model)) (Xyz sdfAxis)
      else Xyz sdfAxis)"

text \<open>An axis declared relative to the model frame, and a joint frame turned about \<open>z\<close>.\<close>

definition model_axis :: JointAxis where
  "model_axis = example_axis\<lparr> Xyz := Vector3d 1 0 0, UseParentModelFrame := True \<rparr>"

definition quarter_turn :: Isometry3d where
  "quarter_turn = Isometry3d (Matrix3d 0 (- 1) 0  1 0 0  0 0 1) (Vector3d 0 0 0)"

definition hinge_joint :: SdfJoint where
  "hinge_joint =
     \<lparr> JointName = ''hinge'', ParentLinkName = ''base'', ChildLinkName = ''arm'',
       Type = REVOLUTE, JointPose = 1, JointPoseFrame = [],
       Axis = (\<lambda>i. if i = 0 then Some model_axis else None), ThreadPitch = None \<rparr>"

definition tilted_plane :: Plane where
  "tilted_plane = \<lparr> Normal = Vector3d 1 0 0, Size = (2, 3) \<rparr>"

text \<open>A plane whose normal points below the horizon.\<close>

definition overturned_plane :: Plane where
  "overturned_plane = \<lparr> Normal = Vector3d 0 3 (- 4), Size = (2, 3) \<rparr>"

text \<open>
  A state in which a model is registered and has no body yet, its frame one unit above the
  origin of the world; and a model of three links, of which \<open>two_bodies\<close> has built two.
\<close>

definition lifted_frame :: ModelInfo where
  "lifted_frame = \<lparr> model = 0,
     frame = \<lparr> frameName = ''m_frame'', parentFrame = World, relativeTransform = translate 0 0 1 \<rparr> \<rparr>"

definition registered_model :: State where
  "registered_model =
     empty_state\<lparr> skeletons := [\<lparr> skeletonName = ''m'', mobile = True, selfCollisionCheck = False \<rparr>],
                  models := [0 \<mapsto> lifted_frame], entityCount := 1 \<rparr>"

definition base_link :: SdfLink where
  "base_link =
     \<lparr> LinkName = ''base'', LinkPose = 1, LinkPoseFrame = [],
       LinkInertial = \<lparr> Mass = 1, Moi = 1, InertialPose = 1 \<rparr>,
       Collisions = [], Visuals = [] \<rparr>"

definition tool_link :: SdfLink where
  "tool_link =
     \<lparr> LinkName = ''tool'', LinkPose = translate 2 0 0, LinkPoseFrame = [],
       LinkInertial = \<lparr> Mass = 1, Moi = 1, InertialPose = 1 \<rparr>,
       Collisions = [], Visuals = [] \<rparr>"

definition robot :: SdfModel where
  "robot =
     \<lparr> ModelName = ''m'', ModelPose = 1, Static = False, SelfCollide = False,
       Links = [base_link, arm_link, tool_link], Joints = [] \<rparr>"

section \<open>Rigid transforms form a group\<close>

lemma transpose3_mult: "transpose3 (A * B) = transpose3 B * transpose3 A"
  by (cases A, cases B) (simp add: algebra_simps)

lemma transpose3_transpose3: "transpose3 (transpose3 A) = A"
  by (cases A) simp

lemma transpose3_one: "transpose3 1 = 1"
  by (simp add: one_Matrix3d_def)

lemma mat_vec_mult: "mat_vec (A * B) v = mat_vec A (mat_vec B v)"
  by (cases A, cases B, cases v) (simp add: algebra_simps)

lemma mat_vec_one: "mat_vec 1 v = v"
  by (cases v) (simp add: one_Matrix3d_def)

lemma mat_vec_vneg: "mat_vec A (vneg v) = vneg (mat_vec A v)"
  by (cases A, cases v) (simp add: algebra_simps)

lemma vadd_vneg: "vadd v (vneg v) = Vector3d 0 0 0" "vadd (vneg v) v = Vector3d 0 0 0"
  by (cases v, simp)+

lemma orthogonal3_one: "orthogonal3 1"
  by (simp add: orthogonal3_def transpose3_one)

lemma orthogonal3_transpose: "orthogonal3 A \<Longrightarrow> orthogonal3 (transpose3 A)"
  by (simp add: orthogonal3_def transpose3_transpose3)

lemma orthogonal3_mult:
  assumes "orthogonal3 A" "orthogonal3 B"
  shows "orthogonal3 (A * B)"
proof -
  have A: "transpose3 A * A = 1" "A * transpose3 A = 1"
    and B: "transpose3 B * B = 1" "B * transpose3 B = 1"
    using assms by (simp_all add: orthogonal3_def)
  have "transpose3 B * transpose3 A * (A * B) = transpose3 B * (transpose3 A * A) * B"
    by (simp add: mult.assoc)
  also have "\<dots> = 1" by (simp add: A B)
  finally have l: "transpose3 (A * B) * (A * B) = 1" by (simp add: transpose3_mult)
  have "A * B * (transpose3 B * transpose3 A) = A * (B * transpose3 B) * transpose3 A"
    by (simp add: mult.assoc)
  also have "\<dots> = 1" by (simp add: A B)
  finally have r: "A * B * transpose3 (A * B) = 1" by (simp add: transpose3_mult)
  from l r show ?thesis by (simp add: orthogonal3_def)
qed

lemma is_isometry_one: "is_isometry 1"
  by (simp add: is_isometry_def one_Isometry3d_def orthogonal3_one)

lemma is_isometry_mult: "is_isometry A \<Longrightarrow> is_isometry B \<Longrightarrow> is_isometry (A * B)"
  by (simp add: is_isometry_def times_Isometry3d_def orthogonal3_mult)

lemma is_isometry_inverse: "is_isometry A \<Longrightarrow> is_isometry (inverse A)"
  by (simp add: is_isometry_def inverse_Isometry3d_def orthogonal3_transpose)

lemma inverse_one: "inverse (1::Isometry3d) = 1"
  by (simp add: inverse_Isometry3d_def one_Isometry3d_def transpose3_one mat_vec_one)

lemma inverse_left:
  assumes "is_isometry T"
  shows "inverse T * T = 1"
proof -
  have "transpose3 (linear T) * linear T = 1"
    using assms by (simp add: is_isometry_def orthogonal3_def)
  then show ?thesis
    by (simp add: times_Isometry3d_def inverse_Isometry3d_def one_Isometry3d_def vadd_vneg)
qed

lemma inverse_right:
  assumes "is_isometry T"
  shows "T * inverse T = 1"
proof -
  have R: "linear T * transpose3 (linear T) = 1"
    using assms by (simp add: is_isometry_def orthogonal3_def)
  have "mat_vec (linear T) (mat_vec (transpose3 (linear T)) (translation T)) = translation T"
    by (simp add: mat_vec_mult [symmetric] R mat_vec_one)
  then show ?thesis
    by (simp add: times_Isometry3d_def inverse_Isometry3d_def one_Isometry3d_def R
        mat_vec_vneg vadd_vneg)
qed

lemma inverse_left_cancel: "is_isometry T \<Longrightarrow> inverse T * (T * A) = A"
  by (simp add: mult.assoc [symmetric] inverse_left)

lemma inverse_right_cancel: "is_isometry T \<Longrightarrow> T * (inverse T * A) = A"
  by (simp add: mult.assoc [symmetric] inverse_right)

section \<open>Walking up the tree of bodies\<close>

lemma tree_induct [consumes 2, case_names root child]:
  assumes "tree ns" "b < length ns"
    and root: "\<And>b. b < length ns \<Longrightarrow> parentBodyNode (ns ! b) = None \<Longrightarrow> P b"
    and step: "\<And>b p. b < length ns \<Longrightarrow> parentBodyNode (ns ! b) = Some p \<Longrightarrow> p < length ns
                 \<Longrightarrow> P p \<Longrightarrow> P b"
  shows "P b"
proof -
  have wf: "wf (parentRel ns)" using assms(1) by (simp add: tree_def)
  from wf assms(2) show ?thesis
  proof (induction b rule: wf_induct_rule)
    case (less b)
    show ?case
    proof (cases "parentBodyNode (ns ! b)")
      case None
      with less.prems show ?thesis by (rule root)
    next
      case (Some p)
      with less.prems have edge: "(p, b) \<in> parentRel ns" by (simp add: parentRel_def)
      from assms(1) less.prems Some have p: "p < length ns" by (simp add: tree_def)
      from less.IH [OF edge p] less.prems Some p show ?thesis by (rule step [rotated 3])
    qed
  qed
qed

lemma parentRel_iff: "(p, c) \<in> parentRel ns \<longleftrightarrow> c < length ns \<and> parentBodyNode (ns ! c) = Some p"
  by (simp add: parentRel_def)

lemma getWorldTransform_root:
  "b < length ns \<Longrightarrow> parentBodyNode (ns ! b) = None
    \<Longrightarrow> getWorldTransform ns b = Some (getRelativeTransform (ns ! b))"
  by (subst getWorldTransform.simps) simp

lemma getWorldTransform_child:
  "b < length ns \<Longrightarrow> parentBodyNode (ns ! b) = Some p
    \<Longrightarrow> getWorldTransform ns b =
        Option.bind (getWorldTransform ns p) (\<lambda>W. Some (W * getRelativeTransform (ns ! b)))"
  by (subst getWorldTransform.simps) simp

lemma getWorldTransform_total:
  assumes "tree ns" "b < length ns"
  shows "\<exists>T. getWorldTransform ns b = Some T"
  using assms
proof (induction rule: tree_induct)
  case (root b)
  then show ?case by (simp add: getWorldTransform_root)
next
  case (child b p)
  then show ?case by (auto simp: getWorldTransform_child)
qed

lemma ancestors_step:
  assumes "a \<noteq> b"
  shows "(b, a) \<in> (parentRel ns)\<^sup>* \<longleftrightarrow> (\<exists>p. (p, a) \<in> parentRel ns \<and> (b, p) \<in> (parentRel ns)\<^sup>*)"
proof
  assume "(b, a) \<in> (parentRel ns)\<^sup>*"
  then show "\<exists>p. (p, a) \<in> parentRel ns \<and> (b, p) \<in> (parentRel ns)\<^sup>*"
    using assms by (cases rule: rtrancl.cases) auto
next
  assume "\<exists>p. (p, a) \<in> parentRel ns \<and> (b, p) \<in> (parentRel ns)\<^sup>*"
  then show "(b, a) \<in> (parentRel ns)\<^sup>*" by (auto intro: rtrancl_into_rtrancl)
qed

lemma descendsFrom_total:
  assumes "tree ns" "a < length ns"
  shows "descendsFrom ns a b = Some ((b, a) \<in> (parentRel ns)\<^sup>*)"
  using assms
proof (induction rule: tree_induct)
  case (root a)
  show ?case
  proof (cases "a = b")
    case True
    then show ?thesis by (subst descendsFrom.simps) simp
  next
    case False
    with root have "(b, a) \<notin> (parentRel ns)\<^sup>*"
      by (simp add: ancestors_step parentRel_iff)
    with False root show ?thesis by (subst descendsFrom.simps) simp
  qed
next
  case (child a p)
  show ?case
  proof (cases "a = b")
    case True
    then show ?thesis by (subst descendsFrom.simps) simp
  next
    case False
    with child have "(b, a) \<in> (parentRel ns)\<^sup>* \<longleftrightarrow> (b, p) \<in> (parentRel ns)\<^sup>*"
      by (auto simp: ancestors_step parentRel_iff)
    with False child show ?thesis by (subst descendsFrom.simps) simp
  qed
qed

lemma getWorldTransform_update_other:
  assumes "tree ns" "b < length ns" "(c, b) \<notin> (parentRel ns)\<^sup>*"
  shows "getWorldTransform (ns[c := x]) b = getWorldTransform ns b"
  using assms
proof (induction rule: tree_induct)
  case (root b)
  then have "b \<noteq> c" by auto
  with root show ?case by (simp add: getWorldTransform_root)
next
  case (child b p)
  then have ne: "b \<noteq> c" by auto
  from child ne have "(c, p) \<notin> (parentRel ns)\<^sup>*"
    by (auto simp: ancestors_step [of b c] parentRel_iff)
  with child.IH have "getWorldTransform (ns[c := x]) p = getWorldTransform ns p" by simp
  with child ne show ?case by (simp add: getWorldTransform_child)
qed

lemma getWorldTransform_append:
  assumes "tree ns" "b < length ns"
  shows "getWorldTransform (ns @ [n]) b = getWorldTransform ns b"
  using assms
proof (induction rule: tree_induct)
  case (root b)
  then show ?case by (simp add: getWorldTransform_root nth_append)
next
  case (child b p)
  then show ?case by (simp add: getWorldTransform_child nth_append)
qed

lemma parentRel_append_root:
  "parentBodyNode n = None \<Longrightarrow> parentRel (ns @ [n]) = parentRel ns"
  by (auto simp: parentRel_def nth_append less_Suc_eq)

lemma tree_append_root:
  assumes "tree ns" "parentBodyNode n = None"
  shows "tree (ns @ [n])"
  using assms
  by (auto simp: tree_def parentRel_append_root nth_append less_Suc_eq)

lemma parent_update_same:
  assumes "parentBodyNode n = parentBodyNode (ns ! c)" "b < length ns"
  shows "parentBodyNode (ns[c := n] ! b) = parentBodyNode (ns ! b)"
  using assms by (cases "b = c") simp_all

lemma parentRel_update_same:
  "parentBodyNode n = parentBodyNode (ns ! c) \<Longrightarrow> parentRel (ns[c := n]) = parentRel ns"
  by (auto simp: parentRel_def parent_update_same)

lemma tree_update_same:
  assumes "tree ns" "parentBodyNode n = parentBodyNode (ns ! c)"
  shows "tree (ns[c := n])"
  using assms
  by (simp add: tree_def parentRel_update_same parent_update_same)

lemma parentRel_moved:
  assumes "c < length ns" "parentBodyNode n = Some p"
  shows "parentRel (ns[c := n]) = insert (p, c) (parentRel ns - {(q, c') . c' = c})"
  using assms by (auto simp: parentRel_def nth_list_update)

lemma tree_moved:
  assumes "tree ns" "c < length ns" "p < length ns" "parentBodyNode n = Some p"
    and "(c, p) \<notin> (parentRel ns)\<^sup>*"
  shows "tree (ns[c := n])"
proof -
  let ?r = "parentRel ns - {(q, c') . c' = c}"
  have sub: "?r \<subseteq> parentRel ns" by auto
  have "wf ?r" using assms(1) sub by (auto simp: tree_def intro: wf_subset)
  moreover have "(c, p) \<notin> ?r\<^sup>*"
    using assms(5) rtrancl_mono [OF sub] by auto
  ultimately have "wf (parentRel (ns[c := n]))"
    by (simp add: parentRel_moved [OF assms(2,4)])
  moreover have "\<forall>c' < length (ns[c := n]). \<forall>q. parentBodyNode (ns[c := n] ! c') = Some q
      \<longrightarrow> q < length (ns[c := n])"
    using assms by (auto simp: tree_def nth_list_update)
  ultimately show ?thesis by (simp add: tree_def)
qed

lemma tree_no_cycle:
  assumes "tree ns" "c < length ns" "parentBodyNode (ns ! c) = Some p"
  shows "(c, p) \<notin> (parentRel ns)\<^sup>*"
proof
  assume "(c, p) \<in> (parentRel ns)\<^sup>*"
  moreover have "(p, c) \<in> parentRel ns" using assms by (simp add: parentRel_iff)
  ultimately have "(c, c) \<in> (parentRel ns)\<^sup>+" by (rule rtrancl_into_trancl1)
  moreover have "acyclic (parentRel ns)" using assms(1) by (simp add: tree_def wf_acyclic)
  ultimately show False by (simp add: acyclic_def)
qed

section \<open>The joint builder\<close>

lemma SimpleFrame_getWorldTransform_total:
  assumes "tree ns" "frame_attached ns modelInfo"
  shows "\<exists>T. SimpleFrame_getWorldTransform ns (frame modelInfo) = Some T"
proof (cases "parentFrame (frame modelInfo)")
  case World
  then show ?thesis by (simp add: SimpleFrame_getWorldTransform_def)
next
  case (Body b)
  with assms have "b < length ns" by (simp add: frame_attached_def)
  with assms(1) obtain W where "getWorldTransform ns b = Some W"
    using getWorldTransform_total by blast
  with Body show ?thesis by (simp add: SimpleFrame_getWorldTransform_def)
qed

lemma ConvertJointAxis_total:
  assumes "tree ns" "frame_attached ns modelInfo"
  shows "\<exists>v. ConvertJointAxis ns sdfAxis modelInfo T_joint = Some v"
  using SimpleFrame_getWorldTransform_total [OF assms]
  by (auto simp: ConvertJointAxis_def GetParentModelFrame_def Let_def)

text \<open>What a state looks like once a joint has been created between two bodies.\<close>

lemma setPitch_attach:
  assumes "c < length (nodes st)"
  shows "setPitch E (attach st c p j) c pitch =
         attach st c p (j\<lparr> jointProperties := (jointProperties j)\<lparr> mPitch := pitch \<rparr>,
                    relative := relativeAt E (jointType j) ((jointProperties j)\<lparr> mPitch := pitch \<rparr>)
                       (startPositions E (jointType j) (jointProperties j)) \<rparr>)"
  using assms by (simp add: setPitch_def updateJoint_def attach_def)

lemma ConstructSingleAxisJoint_attach:
  assumes "ConstructSingleAxisJoint E st jtype modelInfo sdfJoint p c T_joint = Some st'"
  shows "\<exists>props. st' = moveTo E st c p jtype props"
  using assms
  by (auto simp: ConstructSingleAxisJoint_def Let_def split: option.splits Option.bind_splits)

lemma ConstructUniversalJoint_attach:
  assumes "ConstructUniversalJoint E st modelInfo sdfJoint p c T_joint = Some st'"
  shows "\<exists>props. st' = moveTo E st c p UniversalJoint props"
  using assms
  by (auto simp: ConstructUniversalJoint_def split: Option.bind_splits)

lemma CreateJointOfType_moveTo:
  assumes "CreateJointOfType E st modelInfo sdfJoint p c T_joint = Some (Some st')"
  shows "\<exists>jtype props. st' = moveTo E st c p jtype props
           \<or> (\<exists>pitch. st' = setPitch E (moveTo E st c p jtype props) c pitch)"
proof (cases "Type sdfJoint")
  case SCREW
  with assms obtain screw where
    s: "ConstructSingleAxisJoint E st ScrewJoint modelInfo sdfJoint p c T_joint = Some screw"
    and st': "st' = (case ThreadPitch sdfJoint of Some pitch \<Rightarrow> setPitch E screw c pitch | None \<Rightarrow> screw)"
    by (auto simp: CreateJointOfType_def split: Option.bind_splits option.splits)
  from ConstructSingleAxisJoint_attach [OF s] st' show ?thesis
    by (cases "ThreadPitch sdfJoint") auto
next
  case PRISMATIC
  with assms have "ConstructSingleAxisJoint E st PrismaticJoint modelInfo sdfJoint p c T_joint = Some st'"
    by (auto simp: CreateJointOfType_def)
  from ConstructSingleAxisJoint_attach [OF this] show ?thesis by blast
next
  case REVOLUTE
  with assms have "ConstructSingleAxisJoint E st RevoluteJoint modelInfo sdfJoint p c T_joint = Some st'"
    by (auto simp: CreateJointOfType_def)
  from ConstructSingleAxisJoint_attach [OF this] show ?thesis by blast
next
  case UNIVERSAL
  with assms have "ConstructUniversalJoint E st modelInfo sdfJoint p c T_joint = Some st'"
    by (auto simp: CreateJointOfType_def)
  from ConstructUniversalJoint_attach [OF this] show ?thesis by blast
qed (use assms in \<open>auto simp: CreateJointOfType_def\<close>)

lemma CreateJointOfType_created:
  assumes "CreateJointOfType E st modelInfo sdfJoint p c T_joint = Some (Some st')"
    and c: "c < length (nodes st)"
  shows "\<exists>j props0. st' = attach st c p j
      \<and> T_ParentBodyToJoint j = 1 \<and> T_ChildBodyToJoint j = 1 \<and> address j = jointCount st
      \<and> relative j = relativeAt E (jointType j) (jointProperties j)
                        (startPositions E (jointType j) props0)
      \<and> (\<exists>pitch. jointProperties j = props0\<lparr> mPitch := pitch \<rparr>)"
proof -
  from CreateJointOfType_moveTo [OF assms(1)] obtain jtype props where
    "st' = moveTo E st c p jtype props
       \<or> (\<exists>pitch. st' = setPitch E (moveTo E st c p jtype props) c pitch)"
    by blast
  then show ?thesis
  proof
    let ?j = "\<lparr> jointType = jtype, jointName = ''Joint'', jointProperties = props,
         T_ParentBodyToJoint = 1, T_ChildBodyToJoint = 1,
         relative = relativeAt E jtype props (startPositions E jtype props),
         address = jointCount st \<rparr>"
    assume "st' = moveTo E st c p jtype props"
    then have "st' = attach st c p ?j" by (simp add: moveTo_def)
    moreover have "jointProperties ?j = props\<lparr> mPitch := mPitch props \<rparr>" by simp
    ultimately show ?thesis
      by (intro exI [of _ ?j] exI [of _ props] conjI) (simp_all, rule exI [of _ "mPitch props"], simp)
  next
    let ?j = "\<lparr> jointType = jtype, jointName = ''Joint'', jointProperties = props,
         T_ParentBodyToJoint = 1, T_ChildBodyToJoint = 1,
         relative = relativeAt E jtype props (startPositions E jtype props),
         address = jointCount st \<rparr>"
    assume "\<exists>pitch. st' = setPitch E (moveTo E st c p jtype props) c pitch"
    then obtain pitch where "st' = setPitch E (moveTo E st c p jtype props) c pitch" ..
    then have "st' = attach st c p (?j\<lparr> jointProperties := (jointProperties ?j)\<lparr> mPitch := pitch \<rparr>,
                    relative := relativeAt E (jointType ?j) ((jointProperties ?j)\<lparr> mPitch := pitch \<rparr>)
                       (startPositions E (jointType ?j) (jointProperties ?j)) \<rparr>)"
      unfolding moveTo_def setPitch_attach [OF c] .
    then show ?thesis
      by (intro exI [of _ "?j\<lparr> jointProperties := (jointProperties ?j)\<lparr> mPitch := pitch \<rparr>,
                    relative := relativeAt E (jointType ?j) ((jointProperties ?j)\<lparr> mPitch := pitch \<rparr>)
                       (startPositions E (jointType ?j) (jointProperties ?j)) \<rparr>"] exI [of _ props] conjI)
         (simp_all, rule exI [of _ pitch], simp)
  qed
qed

lemma CreateJointOfType_initial:
  assumes "CreateJointOfType E st modelInfo sdfJoint p c T_joint = Some (Some st')"
    and c: "c < length (nodes st)"
  shows "(Type sdfJoint \<in> {PRISMATIC, REVOLUTE, SCREW} \<longrightarrow>
            (\<exists>a. Axis sdfJoint 0 = Some a
               \<and> mInitialPositions (jointProperties (parentJoint (nodes st' ! c)))
                   = [InitialPosition a]))
       \<and> (Type sdfJoint = UNIVERSAL \<longrightarrow>
            (\<exists>a0 a1. Axis sdfJoint 0 = Some a0 \<and> Axis sdfJoint (Suc 0) = Some a1
               \<and> mInitialPositions (jointProperties (parentJoint (nodes st' ! c)))
                   = [InitialPosition a0, InitialPosition a1]))"
  using assms
  by (cases "Type sdfJoint")
     (auto simp: CreateJointOfType_def ConstructSingleAxisJoint_def ConstructUniversalJoint_def
        moveTo_def attach_def setPitch_def updateJoint_def CopyStandardJointAxisProperties_def
        default_properties_def Let_def numeral_2_eq_2
      split: option.splits Option.bind_splits)

lemma CreateJointOfType_total:
  assumes "tree (nodes st)" "frame_attached (nodes st) modelInfo"
    and "axes_present sdfJoint"
  shows "\<exists>r. CreateJointOfType E st modelInfo sdfJoint p c T_joint = Some r
           \<and> (r = None \<longleftrightarrow> \<not> supported (Type sdfJoint))"
proof -
  have conv: "\<exists>v. ConvertJointAxis (nodes st) a modelInfo T_joint = Some v" for a
    using ConvertJointAxis_total [OF assms(1,2)] .
  have single: "Axis sdfJoint 0 \<noteq> None \<Longrightarrow>
      \<exists>s. ConstructSingleAxisJoint E st jtype modelInfo sdfJoint p c T_joint = Some s" for jtype
  proof -
    assume "Axis sdfJoint 0 \<noteq> None"
    then obtain a0 where a: "Axis sdfJoint 0 = Some a0" by auto
    obtain v0 where v0: "ConvertJointAxis (nodes st) a0 modelInfo T_joint = Some v0"
      using conv by blast
    show ?thesis by (simp add: ConstructSingleAxisJoint_def a v0 Let_def)
  qed
  have universal: "Axis sdfJoint 0 \<noteq> None \<Longrightarrow> Axis sdfJoint 1 \<noteq> None \<Longrightarrow>
      \<exists>s. ConstructUniversalJoint E st modelInfo sdfJoint p c T_joint = Some s"
  proof -
    assume "Axis sdfJoint 0 \<noteq> None" "Axis sdfJoint 1 \<noteq> None"
    then obtain a0 a1 where a: "Axis sdfJoint 0 = Some a0" "Axis sdfJoint (Suc 0) = Some a1" by auto
    obtain v0 where v0: "ConvertJointAxis (nodes st) a0 modelInfo T_joint = Some v0"
      using conv by blast
    obtain v1 where v1: "ConvertJointAxis (nodes st) a1 modelInfo T_joint = Some v1"
      using conv by blast
    show ?thesis by (simp add: ConstructUniversalJoint_def a v0 v1 Let_def)
  qed
  show ?thesis
  proof (cases "Type sdfJoint")
    case PRISMATIC
    with assms(3) single [of PrismaticJoint] show ?thesis
      by (auto simp: CreateJointOfType_def axes_present_def supported_def)
  next
    case REVOLUTE
    with assms(3) single [of RevoluteJoint] show ?thesis
      by (auto simp: CreateJointOfType_def axes_present_def supported_def)
  next
    case SCREW
    with assms(3) single [of ScrewJoint] show ?thesis
      by (auto simp: CreateJointOfType_def axes_present_def supported_def split: option.splits)
  next
    case UNIVERSAL
    with assms(3) universal show ?thesis
      by (auto simp: CreateJointOfType_def axes_present_def supported_def)
  qed (simp_all add: CreateJointOfType_def supported_def)
qed

lemma nodes_updateJoint:
  "nodes (updateJoint st b f) =
     (nodes st)[b := (nodes st ! b)\<lparr> parentJoint := f (parentJoint (nodes st ! b)) \<rparr>]"
  by (simp add: updateJoint_def)

lemma updateJoint_twice:
  "b < length (nodes st) \<Longrightarrow> updateJoint (updateJoint st b f) b g = updateJoint st b (\<lambda>j. g (f j))"
  by (simp add: updateJoint_def)

lemma tree_updateJoint: "tree (nodes st) \<Longrightarrow> tree (nodes (updateJoint st b f))"
  by (simp add: nodes_updateJoint tree_update_same)

lemma getWorldTransform_updateJoint_other:
  assumes "tree (nodes st)" "p < length (nodes st)" "(c, p) \<notin> (parentRel (nodes st))\<^sup>*"
  shows "getWorldTransform (nodes (updateJoint st c f)) p = getWorldTransform (nodes st) p"
  using assms by (simp add: nodes_updateJoint getWorldTransform_update_other)

lemma getWorldTransform_updateJoint_self:
  assumes tr: "tree (nodes st)" and c: "c < length (nodes st)" and p: "p < length (nodes st)"
    and par: "parentBodyNode (nodes st ! c) = Some p"
    and Wp: "getWorldTransform (nodes st) p = Some W"
  shows "getWorldTransform (nodes (updateJoint st c f)) c =
           Some (W * (T_ParentBodyToJoint (f (parentJoint (nodes st ! c)))
                       * relative (f (parentJoint (nodes st ! c)))
                       * inverse (T_ChildBodyToJoint (f (parentJoint (nodes st ! c))))))"
proof -
  have nc: "(c, p) \<notin> (parentRel (nodes st))\<^sup>*"
    using tr c par by (rule tree_no_cycle)
  have "getWorldTransform (nodes (updateJoint st c f)) p = Some W"
    using getWorldTransform_updateJoint_other [OF tr p nc] Wp by simp
  moreover have "parentBodyNode (nodes (updateJoint st c f) ! c) = Some p"
    using c par by (simp add: nodes_updateJoint)
  moreover have "c < length (nodes (updateJoint st c f))"
    using c by (simp add: nodes_updateJoint)
  ultimately show ?thesis
    using c by (simp add: getWorldTransform_child) (simp add: nodes_updateJoint getRelativeTransform_def)
qed

text \<open>
  The reconciliation of the transforms: the parent-to-prejoint transform that the joint
  ends with, the registration of the joint, and nothing else.
\<close>

lemma ReconcileJointTransforms_result:
  assumes tr: "tree (nodes st)" and c: "c < length (nodes st)" and p: "p < length (nodes st)"
    and par: "parentBodyNode (nodes st ! c) = Some p"
    and Wp: "getWorldTransform (nodes st) p = Some T_parent"
    and iso: "is_isometry T_parent" "is_isometry T_child" "is_isometry T_joint"
  shows "ReconcileJointTransforms st sdfJoint p c T_parent T_child T_joint =
     Some (Identity (entityCount st),
       (updateJoint st c (\<lambda>j. j
              \<lparr> jointName := JointName sdfJoint,
                T_ParentBodyToJoint :=
                  inverse T_parent * T_child * (inverse T_child * T_joint) * inverse (relative j),
                T_ChildBodyToJoint := inverse T_child * T_joint \<rparr>))
         \<lparr> joints := (joints st)(entityCount st \<mapsto> address (parentJoint (nodes st ! c))),
           entityCount := Suc (entityCount st) \<rparr>)"
proof -
  let ?C = "inverse T_child * T_joint"
  let ?P0 = "inverse T_parent * T_joint"
  let ?j = "parentJoint (nodes st ! c)"
  let ?st3 = "updateJoint st c (\<lambda>j. j\<lparr> jointName := JointName sdfJoint,
                 T_ParentBodyToJoint := ?P0, T_ChildBodyToJoint := ?C \<rparr>)"
  have isoC: "is_isometry ?C" and isoP0: "is_isometry ?P0"
    using iso by (simp_all add: is_isometry_mult is_isometry_inverse)
  have nc: "(c, p) \<notin> (parentRel (nodes st))\<^sup>*"
    using tr c par by (rule tree_no_cycle)
  have st3: "setTransformFromChildBodyNode
               (setTransformFromParentBodyNode (setName st c (JointName sdfJoint)) c ?P0) c ?C = ?st3"
    using c by (simp add: setName_def setTransformFromParentBodyNode_def
        setTransformFromChildBodyNode_def updateJoint_def)
  have rel: "getTransform (nodes ?st3) c p = Some (?P0 * relative ?j * inverse ?C)"
    using c par by (simp add: getTransform_def nodes_updateJoint getRelativeTransform_def)
  have pre: "inverse ?P0 * (?P0 * relative ?j * inverse ?C) * ?C = relative ?j"
  proof -
    have "inverse ?P0 * (?P0 * relative ?j * inverse ?C) * ?C
        = (inverse ?P0 * ?P0) * relative ?j * (inverse ?C * ?C)"
      by (simp only: mult.assoc)
    then show ?thesis by (simp add: inverse_left [OF isoP0] inverse_left [OF isoC])
  qed
  have W: "getWorldTransform (nodes ?st3) p = Some T_parent"
    using getWorldTransform_updateJoint_other [OF tr p nc] Wp by simp
  have comm: "j\<lparr> jointName := n, T_ChildBodyToJoint := C, T_ParentBodyToJoint := X \<rparr>
      = j\<lparr> jointName := n, T_ParentBodyToJoint := X, T_ChildBodyToJoint := C \<rparr>"
    for j :: Joint and n C X
    by simp
  have st4: "setTransformFromParentBodyNode ?st3 c X =
        updateJoint st c (\<lambda>j. j\<lparr> jointName := JointName sdfJoint,
                 T_ParentBodyToJoint := X, T_ChildBodyToJoint := ?C \<rparr>)" for X
    using c by (simp add: setTransformFromParentBodyNode_def updateJoint_def comm)
  show ?thesis
    unfolding ReconcileJointTransforms_def Let_def st3
    using c by (simp add: rel pre W st4 AddJoint_def) (simp add: updateJoint_def)
qed

lemma ReconcileJointTransforms_child_pose:
  assumes tr: "tree (nodes st)" and c: "c < length (nodes st)" and p: "p < length (nodes st)"
    and par: "parentBodyNode (nodes st ! c) = Some p"
    and Wp: "getWorldTransform (nodes st) p = Some T_parent"
    and iso: "is_isometry T_parent" "is_isometry T_child" "is_isometry T_joint"
    and J: "is_isometry (relative (parentJoint (nodes st ! c)))"
    and res: "ReconcileJointTransforms st sdfJoint p c T_parent T_child T_joint = Some (r, st')"
  shows "getWorldTransform (nodes st') c = Some T_child"
    and "getWorldTransform (nodes st') p = Some T_parent"
proof -
  let ?C = "inverse T_child * T_joint"
  let ?J = "relative (parentJoint (nodes st ! c))"
  let ?f = "\<lambda>j. j\<lparr> jointName := JointName sdfJoint,
                T_ParentBodyToJoint := inverse T_parent * T_child * ?C * inverse (relative j),
                T_ChildBodyToJoint := ?C \<rparr>"
  have isoC: "is_isometry ?C"
    using iso by (simp add: is_isometry_mult is_isometry_inverse)
  have nodes: "nodes st' = nodes (updateJoint st c ?f)"
    using res ReconcileJointTransforms_result [OF tr c p par Wp iso, of sdfJoint] by auto
  have nc: "(c, p) \<notin> (parentRel (nodes st))\<^sup>*"
    using tr c par by (rule tree_no_cycle)
  show "getWorldTransform (nodes st') p = Some T_parent"
    unfolding nodes using getWorldTransform_updateJoint_other [OF tr p nc] Wp by simp
  have "T_parent * (inverse T_parent * T_child * ?C * inverse ?J * ?J * inverse ?C)
      = (T_parent * inverse T_parent) * T_child * (?C * ((inverse ?J * ?J) * inverse ?C))"
    by (simp only: mult.assoc)
  also have "\<dots> = T_child"
    by (simp add: inverse_right [OF iso(1)] inverse_left [OF J] inverse_right [OF isoC])
  finally have "T_parent * (inverse T_parent * T_child * ?C * inverse ?J * ?J * inverse ?C) = T_child" .
  then show "getWorldTransform (nodes st') c = Some T_child"
    unfolding nodes getWorldTransform_updateJoint_self [OF tr c p par Wp]
    by simp
qed

lemma nodes_report [simp]: "nodes (report st d) = nodes st"
  by (simp add: report_def)

lemma nodes_attach:
  "nodes (attach st c p j) = (nodes st)[c := (nodes st ! c)\<lparr> parentBodyNode := Some p, parentJoint := j \<rparr>]"
  by (simp add: attach_def)

lemma ResolveSdfJointReferenceFrame_result:
  assumes "getWorldTransform (nodes st) c = Some T_child"
  shows "\<exists>st0. ResolveSdfJointReferenceFrame st frameN c =
            Some (if frameN = [] then T_child else 1, st0)
          \<and> nodes st0 = nodes st \<and> jointCount st0 = jointCount st \<and> entityCount st0 = entityCount st
          \<and> joints st0 = joints st \<and> models st0 = models st \<and> links st0 = links st"
  using assms by (simp add: ResolveSdfJointReferenceFrame_def report_def)

lemma ConstructSdfJoint_null:
  assumes "parentPtr = None \<or> childPtr = None"
  shows "ConstructSdfJoint E st modelInfo sdfJoint parentPtr childPtr =
     Some (InvalidId,
           report st (LinksNotFound (ParentLinkName sdfJoint) (ChildLinkName sdfJoint)
                        (skeletonName (skeletons st ! model modelInfo))
                        (parentPtr = None) (childPtr = None)))"
  using assms by (auto simp: ConstructSdfJoint_def split: option.splits)

lemma ConstructSdfJoint_closed:
  assumes "tree (nodes st)" "p < length (nodes st)" "c < length (nodes st)"
    and "(c, p) \<in> (parentRel (nodes st))\<^sup>*"
  shows "ConstructSdfJoint E st modelInfo sdfJoint (Some p) (Some c) =
     Some (InvalidId,
           report st (ClosedKinematicChain (bodyName (nodes st ! p)) (bodyName (nodes st ! c))))"
  using assms by (simp add: ConstructSdfJoint_def descendsFrom_total)

lemma ConstructSdfJoint_success:
  assumes tr: "tree (nodes st)" and c: "c < length (nodes st)" and p: "p < length (nodes st)"
    and nd: "(c, p) \<notin> (parentRel (nodes st))\<^sup>*"
    and fa: "frame_attached (nodes st) modelInfo"
    and ax: "axes_present sdfJoint" and sup: "supported (Type sdfJoint)"
    and Wp: "getWorldTransform (nodes st) p = Some T_parent"
    and Wc: "getWorldTransform (nodes st) c = Some T_child"
    and iso: "is_isometry T_parent" "is_isometry T_child" "is_isometry (JointPose sdfJoint)"
    and E: "engine_isometric E"
    and Tj: "T_joint = (if JointPoseFrame sdfJoint = [] then T_child else 1) * JointPose sdfJoint"
  shows "\<exists>st' j. ConstructSdfJoint E st modelInfo sdfJoint (Some p) (Some c)
                   = Some (Identity (entityCount st), st')
      \<and> nodes st' = (nodes st)[c := (nodes st ! c)\<lparr> parentBodyNode := Some p, parentJoint := j \<rparr>]
      \<and> T_ParentBodyToJoint j
           = inverse T_parent * T_child * (inverse T_child * T_joint) * inverse (relative j)
      \<and> T_ChildBodyToJoint j = inverse T_child * T_joint
      \<and> (\<exists>props0 pitch. relative j = relativeAt E (jointType j) (jointProperties j)
                                          (startPositions E (jointType j) props0)
                           \<and> jointProperties j = props0\<lparr> mPitch := pitch \<rparr>)
      \<and> jointName j = JointName sdfJoint
      \<and> getWorldTransform (nodes st') c = Some T_child
      \<and> getWorldTransform (nodes st') p = Some T_parent
      \<and> (Type sdfJoint \<in> {PRISMATIC, REVOLUTE, SCREW} \<longrightarrow>
            (\<exists>a. Axis sdfJoint 0 = Some a
               \<and> mInitialPositions (jointProperties j) = [InitialPosition a]))
      \<and> (Type sdfJoint = UNIVERSAL \<longrightarrow>
            (\<exists>a0 a1. Axis sdfJoint 0 = Some a0 \<and> Axis sdfJoint (Suc 0) = Some a1
               \<and> mInitialPositions (jointProperties j)
                   = [InitialPosition a0, InitialPosition a1]))"
proof -
  obtain st0 where
    res: "ResolveSdfJointReferenceFrame st (JointPoseFrame sdfJoint) c =
            Some (if JointPoseFrame sdfJoint = [] then T_child else 1, st0)"
    and n0: "nodes st0 = nodes st" and e0: "entityCount st0 = entityCount st"
    using ResolveSdfJointReferenceFrame_result [OF Wc] by blast
  have isoTj: "is_isometry T_joint"
    using iso by (simp add: Tj is_isometry_mult is_isometry_one)
  obtain r where cr: "CreateJointOfType E st0 modelInfo sdfJoint p c T_joint = Some r"
    and r: "r \<noteq> None"
    using CreateJointOfType_total [of st0 modelInfo sdfJoint E p c T_joint] tr fa ax sup
    by (auto simp: n0)
  then obtain st1 where st1: "r = Some st1" by auto
  from CreateJointOfType_created [of E st0 modelInfo sdfJoint p c T_joint st1] cr st1 c
  obtain j0 where a: "st1 = attach st0 c p j0"
    and j0: "T_ParentBodyToJoint j0 = 1" "T_ChildBodyToJoint j0 = 1"
      "\<exists>props0 pitch. relative j0 = relativeAt E (jointType j0) (jointProperties j0)
                                          (startPositions E (jointType j0) props0)
                           \<and> jointProperties j0 = props0\<lparr> mPitch := pitch \<rparr>"
    by (auto simp: n0)
  have n1: "nodes st1 = (nodes st)[c := (nodes st ! c)\<lparr> parentBodyNode := Some p, parentJoint := j0 \<rparr>]"
    by (simp add: a nodes_attach n0)
  have pj1: "parentJoint (nodes st1 ! c) = j0"
    using c by (simp add: n1)
  have init: "Type sdfJoint \<in> {PRISMATIC, REVOLUTE, SCREW} \<longrightarrow>
            (\<exists>a. Axis sdfJoint 0 = Some a
               \<and> mInitialPositions (jointProperties j0) = [InitialPosition a])"
      "Type sdfJoint = UNIVERSAL \<longrightarrow>
            (\<exists>a0 a1. Axis sdfJoint 0 = Some a0 \<and> Axis sdfJoint (Suc 0) = Some a1
               \<and> mInitialPositions (jointProperties j0)
                   = [InitialPosition a0, InitialPosition a1])"
    using CreateJointOfType_initial [of E st0 modelInfo sdfJoint p c T_joint st1] cr st1 c
    by (simp_all add: n0 pj1)
  have tr1: "tree (nodes st1)"
    unfolding n1 using tr c p nd by (intro tree_moved) simp_all
  have c1: "c < length (nodes st1)" and p1: "p < length (nodes st1)"
    using c p by (simp_all add: n1)
  have par1: "parentBodyNode (nodes st1 ! c) = Some p"
    using c by (simp add: n1)
  have Wp1: "getWorldTransform (nodes st1) p = Some T_parent"
    unfolding n1 using getWorldTransform_update_other [OF tr p nd] Wp by simp
  have J1: "is_isometry (relative (parentJoint (nodes st1 ! c)))"
    using c j0(3) E by (auto simp: n1 engine_isometric_def)
  have e1: "entityCount st1 = entityCount st"
    by (simp add: a attach_def e0)
  let ?f = "\<lambda>j. j\<lparr> jointName := JointName sdfJoint,
                T_ParentBodyToJoint :=
                  inverse T_parent * T_child * (inverse T_child * T_joint) * inverse (relative j),
                T_ChildBodyToJoint := inverse T_child * T_joint \<rparr>"
  let ?st' = "(updateJoint st1 c ?f)
         \<lparr> joints := (joints st1)(entityCount st1 \<mapsto> address (parentJoint (nodes st1 ! c))),
           entityCount := Suc (entityCount st1) \<rparr>"
  have rec: "ReconcileJointTransforms st1 sdfJoint p c T_parent T_child T_joint =
      Some (Identity (entityCount st1), ?st')"
    using ReconcileJointTransforms_result [OF tr1 c1 p1 par1 Wp1 iso(1,2) isoTj] .
  have main: "ConstructSdfJoint E st modelInfo sdfJoint (Some p) (Some c) =
      Some (Identity (entityCount st), ?st')"
    using c p nd tr
    by (simp add: ConstructSdfJoint_def descendsFrom_total Wp Wc res Tj [symmetric] cr st1 rec e1)
  have nodes': "nodes ?st' = (nodes st)[c := (nodes st ! c)\<lparr> parentBodyNode := Some p, parentJoint := ?f j0 \<rparr>]"
    using c by (simp add: nodes_updateJoint n1)
  have poses: "getWorldTransform (nodes ?st') c = Some T_child"
    "getWorldTransform (nodes ?st') p = Some T_parent"
    using ReconcileJointTransforms_child_pose [OF tr1 c1 p1 par1 Wp1 iso(1,2) isoTj J1 rec] .
  show ?thesis
    apply (rule exI [of _ ?st'], rule exI [of _ "?f j0"])
    using main nodes' poses j0(3) init by simp
qed

text \<open>What the joint builder never changes, whatever its result.\<close>

lemma ReconcileJointTransforms_nodes:
  assumes "ReconcileJointTransforms st sdfJoint p c T_parent T_child T_joint = Some (r, st')"
    and c: "c < length (nodes st)"
  shows "\<exists>f. nodes st' = nodes (updateJoint st c f) \<and> models st' = models st
            \<and> skeletons st' = skeletons st \<and> links st' = links st"
proof -
  let ?st3 = "setTransformFromChildBodyNode
              (setTransformFromParentBodyNode (setName st c (JointName sdfJoint)) c
                 (inverse T_parent * T_joint)) c (inverse T_child * T_joint)"
  from assms(1) obtain X where
    "nodes st' = nodes (setTransformFromParentBodyNode ?st3 c X)"
    "models st' = models (setTransformFromParentBodyNode ?st3 c X)"
    "skeletons st' = skeletons (setTransformFromParentBodyNode ?st3 c X)"
    "links st' = links (setTransformFromParentBodyNode ?st3 c X)"
    by (auto simp: ReconcileJointTransforms_def Let_def AddJoint_def split: Option.bind_splits)
  moreover have "\<exists>f. setTransformFromParentBodyNode ?st3 c X = updateJoint st c f"
    using c by (auto simp: setName_def setTransformFromParentBodyNode_def
        setTransformFromChildBodyNode_def updateJoint_twice nodes_updateJoint)
  ultimately show ?thesis
    by (auto simp: updateJoint_def)
qed

lemma tree_roots:
  assumes "\<forall>n \<in> set ns. parentBodyNode n = None"
  shows "tree ns"
proof -
  have "parentRel ns = {}" using assms by (auto simp: parentRel_def)
  then show ?thesis using assms by (simp add: tree_def)
qed

lemma is_isometry_translate: "is_isometry (translate x y z)"
  by (simp add: translate_def is_isometry_def orthogonal3_one)

lemma is_isometry_slide: "is_isometry (slide axes q)"
  by (cases "(axes, q)" rule: slide.cases)
     (simp_all add: is_isometry_def orthogonal3_one one_Isometry3d_def)

lemma engine_isometric_zero_start: "engine_isometric zero_start_engine"
  by (simp add: engine_isometric_def zero_start_engine_def is_isometry_slide is_isometry_one)

lemma tree_two_bodies: "tree (nodes two_bodies)"
  by (rule tree_roots) (simp add: two_bodies_def free_body_def)

lemma getRelativeTransform_free_body: "getRelativeTransform (free_body name T addr) = T"
  by (simp add: getRelativeTransform_def free_body_def inverse_one)

lemma nodes_two_bodies:
  "nodes two_bodies = [free_body ''base'' 1 0, free_body ''arm'' (translate 1 0 0) 1]"
  by (simp add: two_bodies_def)

lemma parent_free_body: "parentBodyNode (free_body name T addr) = None"
  by (simp add: free_body_def)

lemma two_bodies_poses:
  "getWorldTransform (nodes two_bodies) 0 = Some 1"
  "getWorldTransform (nodes two_bodies) 1 = Some (translate 1 0 0)"
  by (simp_all add: nodes_two_bodies getWorldTransform_root parent_free_body
      getRelativeTransform_free_body)

lemmas eval_joint =
  ConstructSdfJoint_def CreateJointOfType_def ConstructSingleAxisJoint_def
  ReconcileJointTransforms_def ConvertJointAxis_def CopyStandardJointAxisProperties_def
  default_properties_def ResolveSdfJointReferenceFrame_def getTransform_def
  getRelativeTransform_def moveTo_def attach_def updateJoint_def setName_def
  setTransformFromParentBodyNode_def setTransformFromChildBodyNode_def AddJoint_def
  setPositions_def Let_def

lemma ConstructSdfJoint_preserves:
  assumes tr: "tree (nodes st)"
    and res: "ConstructSdfJoint E st modelInfo sdfJoint parentPtr childPtr = Some (r, st')"
  shows "tree (nodes st') \<and> length (nodes st') = length (nodes st)
       \<and> map (\<lambda>bn. (skeleton bn, bodyName bn)) (nodes st') = map (\<lambda>bn. (skeleton bn, bodyName bn)) (nodes st)
       \<and> models st' = models st \<and> skeletons st' = skeletons st \<and> links st' = links st"
proof (cases "parentPtr = None \<or> childPtr = None")
  case True
  with res tr show ?thesis by (auto simp: ConstructSdfJoint_null report_def)
next
  case False
  then obtain p c where pc: "parentPtr = Some p" "childPtr = Some c" by auto
  from res pc have range: "p < length (nodes st)" "c < length (nodes st)"
    by (auto simp: ConstructSdfJoint_def split: if_splits)
  show ?thesis
  proof (cases "(c, p) \<in> (parentRel (nodes st))\<^sup>*")
    case True
    with res tr pc range show ?thesis by (auto simp: ConstructSdfJoint_closed report_def)
  next
    case nd: False
    from res pc range nd tr obtain T_parent T_child T_frame st0 created where
      Wp: "getWorldTransform (nodes st) p = Some T_parent"
      and r0: "ResolveSdfJointReferenceFrame st (JointPoseFrame sdfJoint) c = Some (T_frame, st0)"
      and cr: "CreateJointOfType E st0 modelInfo sdfJoint p c (T_frame * JointPose sdfJoint) = Some created"
      and fin: "(case created of
                   None \<Rightarrow> Some (InvalidId, report st0 (UnsupportedJointType (Type sdfJoint)))
                 | Some st1 \<Rightarrow> ReconcileJointTransforms st1 sdfJoint p c T_parent T_child
                                (T_frame * JointPose sdfJoint)) = Some (r, st')"
      by (auto simp: ConstructSdfJoint_def descendsFrom_total Let_def split: Option.bind_splits)
    from r0 have same0: "nodes st0 = nodes st" "models st0 = models st" "skeletons st0 = skeletons st"
      "links st0 = links st"
      by (auto simp: ResolveSdfJointReferenceFrame_def report_def split: if_splits Option.bind_splits)
    show ?thesis
    proof (cases created)
      case None
      with fin same0 tr show ?thesis by (auto simp: report_def)
    next
      case (Some st1)
      with cr range same0 obtain j0 where st1: "st1 = attach st0 c p j0"
        using CreateJointOfType_created [of E st0 modelInfo sdfJoint p c _ st1] by auto
      have n1: "nodes st1 = (nodes st)[c := (nodes st ! c)\<lparr> parentBodyNode := Some p, parentJoint := j0 \<rparr>]"
        by (simp add: st1 nodes_attach same0)
      have tr1: "tree (nodes st1)"
        unfolding n1 using tr range nd by (intro tree_moved) simp_all
      have c1: "c < length (nodes st1)" using range by (simp add: n1)
      from fin Some obtain f where
        n': "nodes st' = nodes (updateJoint st1 c f)"
        and rest: "models st' = models st1" "skeletons st' = skeletons st1" "links st' = links st1"
        using ReconcileJointTransforms_nodes [of st1 sdfJoint p c T_parent T_child _ r st'] c1
        by auto
      have keys: "map (\<lambda>bn. (skeleton bn, bodyName bn)) (nodes st')
          = map (\<lambda>bn. (skeleton bn, bodyName bn)) (nodes st)"
        using range by (simp add: n' nodes_updateJoint n1 map_update list_update_same_conv)
      from tr1 have "tree (nodes st')" unfolding n' by (rule tree_updateJoint)
      moreover have "length (nodes st') = length (nodes st)"
        by (simp add: n' nodes_updateJoint n1)
      ultimately show ?thesis
        using rest keys by (simp add: st1 attach_def same0)
    qed
  qed
qed

text \<open>The joint builder on the example, evaluated.\<close>

lemma slider_built:
  "ConstructSdfJoint zero_start_engine two_bodies model_m slider_joint (Some 0) (Some 1)
     = Some (Identity 5, built_slider)"
  by (simp add: eval_joint built_slider_def sliding_arm_def two_bodies_def free_body_def
      slider_joint_def zero_start_engine_def example_axis_def translate_def
      getWorldTransform.simps descendsFrom.simps times_Isometry3d_def one_Isometry3d_def
      inverse_Isometry3d_def one_Matrix3d_def UnitZ_def)

lemma slider_built_at_initial_position:
  "map_option (\<lambda>(r, st'). (r, T_ParentBodyToJoint (parentJoint (nodes st' ! 1)),
        relative (parentJoint (nodes st' ! 1)), getWorldTransform (nodes st') 1))
     (ConstructSdfJoint initial_start_engine two_bodies model_m slider_joint (Some 0) (Some 1))
   = Some (Identity 5, translate 1 0 (- 1), translate 0 0 1, Some (translate 1 0 0))"
  by (simp add: eval_joint two_bodies_def free_body_def
      slider_joint_def initial_start_engine_def example_axis_def translate_def
      getWorldTransform.simps descendsFrom.simps times_Isometry3d_def one_Isometry3d_def
      inverse_Isometry3d_def one_Matrix3d_def UnitZ_def)

section \<open>Properties of the joint builder\<close>

lemma setPositions_same:
  assumes "relative (parentJoint (ns ! c))
         = relativeAt E (jointType (parentJoint (ns ! c))) (jointProperties (parentJoint (ns ! c))) q"
  shows "setPositions E ns c q = ns"
proof -
  have "setPositions E ns c q = ns[c := ns ! c]"
    unfolding setPositions_def by (simp add: assms [symmetric])
  then show ?thesis by simp
qed

lemma starts_at_initial_positions_example: "starts_at_initial_positions initial_start_engine"
  by (simp add: starts_at_initial_positions_def initial_start_engine_def)

lemma engine_isometric_initial_start: "engine_isometric initial_start_engine"
  by (simp add: engine_isometric_def initial_start_engine_def is_isometry_slide is_isometry_one)

text \<open>
  C1.  For a joint of a supported type between two bodies of a tree, where the parent does
  not descend from the child, and an engine that creates a joint at the initial positions of
  its properties: the builder succeeds and the parent-to-prejoint transform of the joint is
  \<open>T_parent\<inverse> \<cdot> T_child \<cdot> (T_child\<inverse> \<cdot> T_joint) \<cdot> J\<inverse>\<close>, where \<open>T_parent\<close> and \<open>T_child\<close>
  are the world transforms of the two bodies before the call and \<open>J\<close> is the transform
  across the joint at the coordinates the engine created it with.  Those are the initial
  positions stored in the joint: for a prismatic, revolute, screw or universal joint, the
  declared initial position of each axis.  With the coordinates of the joint set to its
  initial positions, the child is at \<open>T_child\<close> in the world, the pose it was declared with
  and had before the call.  All transforms are rigid and arithmetic is exact.
\<close>

theorem joint_transforms_reconciled:
  assumes "tree (nodes st)" "p < length (nodes st)" "c < length (nodes st)"
    and "descendsFrom (nodes st) p c = Some False"
    and "frame_attached (nodes st) modelInfo" "axes_present sdfJoint" "supported (Type sdfJoint)"
    and "getWorldTransform (nodes st) p = Some T_parent"
    and "getWorldTransform (nodes st) c = Some T_child"
    and "is_isometry T_parent" "is_isometry T_child" "is_isometry (JointPose sdfJoint)"
    and "engine_isometric E"
    and "T_joint = (if JointPoseFrame sdfJoint = [] then T_child else 1) * JointPose sdfJoint"
    and "starts_at_initial_positions E"
  shows "\<exists>st' j. ConstructSdfJoint E st modelInfo sdfJoint (Some p) (Some c)
                   = Some (Identity (entityCount st), st')
      \<and> parentBodyNode (nodes st' ! c) = Some p \<and> parentJoint (nodes st' ! c) = j
      \<and> T_ParentBodyToJoint j
           = inverse T_parent * T_child * (inverse T_child * T_joint) * inverse (relative j)
      \<and> T_ChildBodyToJoint j = inverse T_child * T_joint
      \<and> (\<exists>props0 pitch. relative j = relativeAt E (jointType j) (jointProperties j)
                                          (startPositions E (jointType j) props0)
                           \<and> jointProperties j = props0\<lparr> mPitch := pitch \<rparr>)
      \<and> relative j = relativeAt E (jointType j) (jointProperties j)
                        (mInitialPositions (jointProperties j))
      \<and> (Type sdfJoint \<in> {PRISMATIC, REVOLUTE, SCREW} \<longrightarrow>
            (\<exists>a. Axis sdfJoint 0 = Some a
               \<and> mInitialPositions (jointProperties j) = [InitialPosition a]))
      \<and> (Type sdfJoint = UNIVERSAL \<longrightarrow>
            (\<exists>a0 a1. Axis sdfJoint 0 = Some a0 \<and> Axis sdfJoint (Suc 0) = Some a1
               \<and> mInitialPositions (jointProperties j)
                   = [InitialPosition a0, InitialPosition a1]))
      \<and> getWorldTransform (nodes st') c = Some T_child
      \<and> getWorldTransform
           (setPositions E (nodes st') c (mInitialPositions (jointProperties j))) c
          = Some T_child"
proof -
  have nd: "(c, p) \<notin> (parentRel (nodes st))\<^sup>*"
    using assms(1,2,4) by (simp add: descendsFrom_total)
  from ConstructSdfJoint_success [OF assms(1,3,2) nd assms(5-14)] obtain st' j where
    r: "ConstructSdfJoint E st modelInfo sdfJoint (Some p) (Some c) = Some (Identity (entityCount st), st')"
    and n: "nodes st' = (nodes st)[c := (nodes st ! c)\<lparr> parentBodyNode := Some p, parentJoint := j \<rparr>]"
    and T: "T_ParentBodyToJoint j
           = inverse T_parent * T_child * (inverse T_child * T_joint) * inverse (relative j)"
      "T_ChildBodyToJoint j = inverse T_child * T_joint"
    and rel: "\<exists>props0 pitch. relative j = relativeAt E (jointType j) (jointProperties j)
                                          (startPositions E (jointType j) props0)
                           \<and> jointProperties j = props0\<lparr> mPitch := pitch \<rparr>"
    and W: "getWorldTransform (nodes st') c = Some T_child"
    and init: "Type sdfJoint \<in> {PRISMATIC, REVOLUTE, SCREW} \<longrightarrow>
            (\<exists>a. Axis sdfJoint 0 = Some a
               \<and> mInitialPositions (jointProperties j) = [InitialPosition a])"
      "Type sdfJoint = UNIVERSAL \<longrightarrow>
            (\<exists>a0 a1. Axis sdfJoint 0 = Some a0 \<and> Axis sdfJoint (Suc 0) = Some a1
               \<and> mInitialPositions (jointProperties j)
                   = [InitialPosition a0, InitialPosition a1])"
    by blast
  have pj: "parentBodyNode (nodes st' ! c) = Some p" "parentJoint (nodes st' ! c) = j"
    and c': "c < length (nodes st')"
    using assms(3) by (simp_all add: n)
  from rel obtain props0 pitch where
    r0: "relative j = relativeAt E (jointType j) (jointProperties j)
                        (startPositions E (jointType j) props0)"
    and p0: "jointProperties j = props0\<lparr> mPitch := pitch \<rparr>"
    by blast
  have "startPositions E (jointType j) props0 = mInitialPositions (jointProperties j)"
    using assms(15) by (simp add: starts_at_initial_positions_def p0)
  with r0 have at: "relative j = relativeAt E (jointType j) (jointProperties j)
                        (mInitialPositions (jointProperties j))"
    by simp
  have "setPositions E (nodes st') c (mInitialPositions (jointProperties j)) = nodes st'"
    using at by (intro setPositions_same) (simp add: pj)
  then have W0: "getWorldTransform
           (setPositions E (nodes st') c (mInitialPositions (jointProperties j))) c
          = Some T_child"
    using W by simp
  show ?thesis
    apply (rule exI [of _ st'], rule exI [of _ j])
    using r pj T rel at init W W0 by simp
qed

theorem joint_transforms_reconciled_witness:
  "tree (nodes two_bodies) \<and> descendsFrom (nodes two_bodies) 0 1 = Some False
   \<and> supported (Type slider_joint) \<and> axes_present slider_joint
   \<and> engine_isometric initial_start_engine \<and> starts_at_initial_positions initial_start_engine
   \<and> InitialPosition example_axis = Finite 1
   \<and> (\<exists>st' j. ConstructSdfJoint initial_start_engine two_bodies model_m slider_joint (Some 0) (Some 1)
                   = Some (Identity 5, st')
      \<and> parentBodyNode (nodes st' ! 1) = Some 0 \<and> parentJoint (nodes st' ! 1) = j
      \<and> mInitialPositions (jointProperties j) = [Finite 1]
      \<and> T_ParentBodyToJoint j = translate 1 0 0 * inverse (relative j)
      \<and> getWorldTransform (nodes st') 1 = Some (translate 1 0 0)
      \<and> getWorldTransform (setPositions initial_start_engine (nodes st') 1 [Finite 1]) 1
          = Some (translate 1 0 0))"
proof -
  have d: "descendsFrom (nodes two_bodies) 0 1 = Some False"
    by (simp add: descendsFrom.simps nodes_two_bodies parent_free_body)
  have f: "frame_attached (nodes two_bodies) model_m"
    by (simp add: frame_attached_def model_m_def nodes_two_bodies)
  have a: "axes_present slider_joint" and s: "supported (Type slider_joint)"
    by (simp_all add: axes_present_def supported_def slider_joint_def)
  have len: "0 < length (nodes two_bodies)" "1 < length (nodes two_bodies)"
    by (simp_all add: nodes_two_bodies)
  have Tj: "translate 1 0 0 * 1 =
      (if JointPoseFrame slider_joint = [] then translate 1 0 0 else 1) * JointPose slider_joint"
    by (simp add: slider_joint_def)
  have i: "is_isometry (JointPose slider_joint)"
    by (simp add: slider_joint_def is_isometry_one)
  have ty: "Type slider_joint = PRISMATIC" "Axis slider_joint 0 = Some example_axis"
    by (simp_all add: slider_joint_def)
  have q: "InitialPosition example_axis = Finite 1" by (simp add: example_axis_def)
  have e: "entityCount two_bodies = 5" by (simp add: two_bodies_def)
  have k: "inverse 1 * translate 1 0 0 * (inverse (translate 1 0 0) * (translate 1 0 0 * 1))
      = translate 1 0 0"
    by (simp add: inverse_one inverse_left is_isometry_translate)
  from joint_transforms_reconciled [OF tree_two_bodies len d f a s two_bodies_poses
      is_isometry_one is_isometry_translate i engine_isometric_initial_start Tj
      starts_at_initial_positions_example]
  have "\<exists>st' j. ConstructSdfJoint initial_start_engine two_bodies model_m slider_joint (Some 0) (Some 1)
                   = Some (Identity 5, st')
      \<and> parentBodyNode (nodes st' ! 1) = Some 0 \<and> parentJoint (nodes st' ! 1) = j
      \<and> mInitialPositions (jointProperties j) = [Finite 1]
      \<and> T_ParentBodyToJoint j = translate 1 0 0 * inverse (relative j)
      \<and> getWorldTransform (nodes st') 1 = Some (translate 1 0 0)
      \<and> getWorldTransform (setPositions initial_start_engine (nodes st') 1 [Finite 1]) 1
          = Some (translate 1 0 0)"
    unfolding ty e k by (auto simp: q)
  then show ?thesis
    using tree_two_bodies d a s engine_isometric_initial_start
      starts_at_initial_positions_example q by blast
qed

text \<open>
  C2.  When the declared parent descends from the declared child (in a tree of bodies),
  the builder returns the invalid identity and changes nothing but the diagnostic stream.
  Whatever the result of a call of the builder on a tree of bodies, the bodies are a tree
  afterwards: no body is its own ancestor.
\<close>

theorem closed_chain_rejected:
  assumes "tree (nodes st)" "p < length (nodes st)" "c < length (nodes st)"
    and "(c, p) \<in> (parentRel (nodes st))\<^sup>*"
  shows "ConstructSdfJoint E st modelInfo sdfJoint (Some p) (Some c) =
           Some (InvalidId,
                 st\<lparr> cerr := cerr st @
                   [ClosedKinematicChain (bodyName (nodes st ! p)) (bodyName (nodes st ! c))] \<rparr>)
       \<and> (\<forall>parentPtr childPtr r st'.
            ConstructSdfJoint E st modelInfo sdfJoint parentPtr childPtr = Some (r, st')
              \<longrightarrow> tree (nodes st') \<and> (\<forall>b. (b, b) \<notin> (parentRel (nodes st'))\<^sup>+))"
proof -
  have "tree (nodes st') \<and> (\<forall>b. (b, b) \<notin> (parentRel (nodes st'))\<^sup>+)"
    if "ConstructSdfJoint E st modelInfo sdfJoint parentPtr childPtr = Some (r, st')"
    for parentPtr childPtr r st'
  proof -
    from ConstructSdfJoint_preserves [OF assms(1) that] have t: "tree (nodes st')" by simp
    then have "acyclic (parentRel (nodes st'))" by (simp add: tree_def wf_acyclic)
    with t show ?thesis by (simp add: acyclic_def)
  qed
  then show ?thesis
    using ConstructSdfJoint_closed [OF assms] by (simp add: report_def)
qed

lemma parentRel_roots:
  assumes "\<forall>n \<in> set ns. parentBodyNode n = None"
  shows "parentRel ns = {}"
  using assms by (auto simp: parentRel_def)

lemma tree_arm_on_base: "tree (nodes arm_on_base)"
proof -
  have "nodes arm_on_base =
      (nodes two_bodies)[1 := (free_body ''arm'' (translate 1 0 0) 1)\<lparr> parentBodyNode := Some 0 \<rparr>]"
    by (simp add: arm_on_base_def two_bodies_def)
  moreover have "parentRel (nodes two_bodies) = {}"
    by (rule parentRel_roots) (simp add: nodes_two_bodies parent_free_body)
  ultimately show ?thesis
    using tree_moved [OF tree_two_bodies, of 1 0] by (simp add: nodes_two_bodies)
qed

lemma arm_descends: "(0, 1) \<in> (parentRel (nodes arm_on_base))\<^sup>*"
proof -
  have "(0, 1) \<in> parentRel (nodes arm_on_base)"
    by (simp add: parentRel_def arm_on_base_def)
  then show ?thesis by (rule r_into_rtrancl)
qed

theorem closed_chain_rejected_witness:
  "tree (nodes arm_on_base) \<and> (0, 1) \<in> (parentRel (nodes arm_on_base))\<^sup>*
   \<and> ConstructSdfJoint zero_start_engine arm_on_base model_m slider_joint (Some 1) (Some 0) =
       Some (InvalidId, arm_on_base\<lparr> cerr := [ClosedKinematicChain ''arm'' ''base''] \<rparr>)
   \<and> tree (nodes two_bodies) \<and> tree (nodes built_slider)"
proof -
  have len: "1 < length (nodes arm_on_base)" "0 < length (nodes arm_on_base)"
    by (simp_all add: arm_on_base_def)
  from closed_chain_rejected [OF tree_arm_on_base len arm_descends,
      of zero_start_engine model_m slider_joint]
  have 1: "ConstructSdfJoint zero_start_engine arm_on_base model_m slider_joint (Some 1) (Some 0) =
       Some (InvalidId, arm_on_base\<lparr> cerr := [ClosedKinematicChain ''arm'' ''base''] \<rparr>)"
    by (simp add: arm_on_base_def two_bodies_def free_body_def)
  have len2: "0 < length (nodes two_bodies)" "1 < length (nodes two_bodies)"
    by (simp_all add: nodes_two_bodies)
  have "(0, 0) \<in> (parentRel (nodes two_bodies))\<^sup>*" by simp
  from closed_chain_rejected [OF tree_two_bodies len2(1) len2(1) this,
      of zero_start_engine model_m slider_joint] slider_built
  have 2: "tree (nodes built_slider)" by blast
  from 1 2 tree_arm_on_base arm_descends tree_two_bodies show ?thesis by simp
qed

text \<open>
  C4 (as stated, refuted).  The claim lets the builder accept a null parent for the very
  first joint.  The model \<open>anchored_model\<close> has one link, \<open>arm\<close>, and one joint, whose parent
  is the name \<open>world\<close>, which is no link of the model.  The build reports that the parent
  link could not be found and creates no joint: the arm keeps the free joint it was created
  with and has no parent, and the only joint registered is that free joint.
\<close>

theorem first_joint_null_parent_counterexample:
  "map_option (cerr \<circ> snd) (ConstructSdfModel zero_start_engine empty_state 0 anchored_model)
     = Some [LinkNotInModel ''m'' ''world'', LinksNotFound ''world'' ''arm'' ''m'' True False]
   \<and> map_option (map parentBodyNode \<circ> nodes \<circ> snd)
        (ConstructSdfModel zero_start_engine empty_state 0 anchored_model) = Some [None]
   \<and> map_option (map (jointType \<circ> parentJoint) \<circ> nodes \<circ> snd)
        (ConstructSdfModel zero_start_engine empty_state 0 anchored_model) = Some [FreeJoint]
   \<and> map_option (dom \<circ> joints \<circ> snd)
        (ConstructSdfModel zero_start_engine empty_state 0 anchored_model) = Some {2}
   \<and> ConstructSdfJoint zero_start_engine two_bodies model_m world_joint None (Some 1)
       = Some (InvalidId, two_bodies\<lparr> cerr := [LinksNotFound ''world'' ''arm'' ''m'' True False] \<rparr>)"
proof -
  have "ConstructSdfJoint zero_start_engine two_bodies model_m world_joint None (Some 1)
       = Some (InvalidId, two_bodies\<lparr> cerr := [LinksNotFound ''world'' ''arm'' ''m'' True False] \<rparr>)"
    by (simp add: ConstructSdfJoint_null report_def world_joint_def two_bodies_def model_m_def)
  moreover have "\<exists>st. ConstructSdfModel zero_start_engine empty_state 0 anchored_model = Some (Identity 0, st)
     \<and> cerr st = [LinkNotInModel ''m'' ''world'', LinksNotFound ''world'' ''arm'' ''m'' True False]
     \<and> map parentBodyNode (nodes st) = [None]
     \<and> map (jointType \<circ> parentJoint) (nodes st) = [FreeJoint]
     \<and> dom (joints st) = {2}"
    by (simp add: ConstructSdfModel_def AddModel_def AddLink_def AddJoint_def report_def
        FindOrConstructLink_def ConstructSdfLink_def CreateFreeBody_def MoveModelFrame_def
        ConstructSdfJoint_def ResolveSdfLinkReferenceFrame_def GetParentModelFrame_def
        SimpleFrame_getWorldTransform_def getRelativeTransform_def
        getBodyNode_def getNumBodyNodes_def LinkByName_def
        updateJoint_def FreeJoint_setTransform_def getWorldTransform.simps Let_def
        anchored_model_def arm_link_def world_joint_def empty_state_def translate_def
        times_Isometry3d_def one_Isometry3d_def inverse_Isometry3d_def one_Matrix3d_def)
  ultimately show ?thesis by auto
qed

text \<open>
  C4 (amended).  The builder accepts no null body: for every joint, the first one
  included, a null parent or a null child makes it report the links that could not be
  found and return the invalid identity, with no other change of the state.  In the loop
  over the joints of a model, a joint whose parent or child does not resolve to a body
  leaves that report behind and the loop goes on with the next joint.
\<close>

theorem missing_link_rejected:
  "(parentPtr = None \<or> childPtr = None \<longrightarrow>
      ConstructSdfJoint E st modelInfo sdfJoint parentPtr childPtr =
        Some (InvalidId,
              st\<lparr> cerr := cerr st @
                [LinksNotFound (ParentLinkName sdfJoint) (ChildLinkName sdfJoint)
                   (skeletonName (skeletons st ! model modelInfo))
                   (parentPtr = None) (childPtr = None)] \<rparr>))
   \<and> (FindOrConstructLink st0 skel modelID sdfModel (ParentLinkName sdfJoint) = Some (parentPtr, st1)
        \<longrightarrow> FindOrConstructLink st1 skel modelID sdfModel (ChildLinkName sdfJoint) = Some (childPtr, st2)
        \<longrightarrow> models st2 modelID = Some modelInfo
        \<longrightarrow> parentPtr = None \<or> childPtr = None
        \<longrightarrow> JointLoop E st0 skel modelID sdfModel i (Some sdfJoint # js) =
              JointLoop E
                (st2\<lparr> cerr := cerr st2 @
                   [LinksNotFound (ParentLinkName sdfJoint) (ChildLinkName sdfJoint)
                      (skeletonName (skeletons st2 ! model modelInfo))
                      (parentPtr = None) (childPtr = None)] \<rparr>)
                skel modelID sdfModel (Suc i) js)"
  by (auto simp: ConstructSdfJoint_null report_def)

theorem missing_link_rejected_witness:
  "ConstructSdfJoint zero_start_engine two_bodies model_m world_joint None (Some 1) =
     Some (InvalidId,
           two_bodies\<lparr> cerr := [LinksNotFound ''world'' ''arm'' ''m'' True False] \<rparr>)
   \<and> FindOrConstructLink two_bodies 0 0 anchored_model ''world''
        = Some (None, two_bodies\<lparr> cerr := [LinkNotInModel ''m'' ''world''] \<rparr>)
   \<and> JointLoop zero_start_engine two_bodies 0 0 anchored_model 0 [Some world_joint, None] =
       Some (two_bodies\<lparr> cerr := [LinkNotInModel ''m'' ''world'',
                                  LinksNotFound ''world'' ''arm'' ''m'' True False,
                                  NullJoint 1 ''m''] \<rparr>)"
proof -
  let ?st1 = "two_bodies\<lparr> cerr := [LinkNotInModel ''m'' ''world''] \<rparr>"
  have f1: "FindOrConstructLink two_bodies 0 0 anchored_model (ParentLinkName world_joint)
      = Some (None, ?st1)"
    by (simp add: FindOrConstructLink_def getBodyNode_def LinkByName_def nodes_two_bodies
        free_body_def anchored_model_def arm_link_def world_joint_def report_def two_bodies_def)
  have f2: "FindOrConstructLink ?st1 0 0 anchored_model (ChildLinkName world_joint)
      = Some (Some 1, ?st1)"
    by (simp add: FindOrConstructLink_def getBodyNode_def world_joint_def two_bodies_def
        free_body_def)
  have m: "models ?st1 0 = Some model_m"
    by (simp add: two_bodies_def)
  have n: "(None :: nat option) = None \<or> Some (1::nat) = None" by simp
  from missing_link_rejected [of None "Some 1" zero_start_engine two_bodies model_m world_joint
      two_bodies 0 0 anchored_model ?st1 ?st1 0 "[None]"] f1 f2 m
  show ?thesis
    by (simp add: world_joint_def two_bodies_def model_m_def anchored_model_def report_def)
qed

lemma ConvertJointAxis_spec:
  assumes "GetParentModelFrame ns modelInfo = Some T_model"
  shows "ConvertJointAxis ns sdfAxis modelInfo T_joint = Some (spec_axis T_joint T_model sdfAxis)"
  using assms
  by (simp add: ConvertJointAxis_def spec_axis_def Let_def times_Isometry3d_def
      inverse_Isometry3d_def)

lemma mAxis_CopyStandardJointAxisProperties:
  "mAxis (CopyStandardJointAxisProperties index properties sdfAxis) = mAxis properties"
  by (simp add: CopyStandardJointAxisProperties_def)

lemma ConstructSingleAxisJoint_axis:
  assumes "GetParentModelFrame (nodes st) modelInfo = Some T_model" and "c < length (nodes st)"
    and "Axis sdfJoint 0 = Some a0"
  shows "\<exists>st'. ConstructSingleAxisJoint E st jtype modelInfo sdfJoint p c T_joint = Some st'
      \<and> c < length (nodes st')
      \<and> mAxis (jointProperties (parentJoint (nodes st' ! c))) = [spec_axis T_joint T_model a0]"
  using assms
  by (simp add: ConstructSingleAxisJoint_def ConvertJointAxis_spec Let_def moveTo_def attach_def
      mAxis_CopyStandardJointAxisProperties)

lemma ConstructUniversalJoint_axes:
  assumes "GetParentModelFrame (nodes st) modelInfo = Some T_model" and "c < length (nodes st)"
    and "Axis sdfJoint 0 = Some a0" "Axis sdfJoint (Suc 0) = Some a1"
  shows "\<exists>st'. ConstructUniversalJoint E st modelInfo sdfJoint p c T_joint = Some st'
      \<and> mAxis (jointProperties (parentJoint (nodes st' ! c)))
          = [spec_axis T_joint T_model a0, spec_axis T_joint T_model a1]"
proof -
  have "mAxis (default_properties 2 [Vector3d 1 0 0, Vector3d 0 1 0])
      = [Vector3d 1 0 0, Vector3d 0 1 0]"
    by (simp add: default_properties_def)
  with assms show ?thesis
    by (simp add: ConstructUniversalJoint_def ConvertJointAxis_spec Let_def moveTo_def attach_def
        mAxis_CopyStandardJointAxisProperties)
qed

text \<open>
  C5.  With \<open>T_model\<close> the world transform of the model frame: the axis that
  \<open>ConvertJointAxis\<close> returns is the declared axis rotated by the linear part of
  \<open>T_joint\<inverse> \<cdot> T_model\<close> when the axis is declared relative to the model frame, and the
  declared axis otherwise (\<open>spec_axis\<close>).  The joint created for a revolute, prismatic or
  screw joint stores that for its one axis, and the joint created for a universal joint
  stores it for each of its two axes.
\<close>

theorem axis_conversion:
  assumes "GetParentModelFrame (nodes st) modelInfo = Some T_model" and "c < length (nodes st)"
  shows "ConvertJointAxis (nodes st) sdfAxis modelInfo T_joint
           = Some (if UseParentModelFrame sdfAxis
                   then mat_vec (linear (inverse T_joint * T_model)) (Xyz sdfAxis)
                   else Xyz sdfAxis)
     \<and> (Type sdfJoint \<in> {REVOLUTE, PRISMATIC, SCREW} \<longrightarrow> Axis sdfJoint 0 = Some a0 \<longrightarrow>
          (\<exists>st'. CreateJointOfType E st modelInfo sdfJoint p c T_joint = Some (Some st')
             \<and> mAxis (jointProperties (parentJoint (nodes st' ! c)))
                 = [spec_axis T_joint T_model a0]))
     \<and> (Type sdfJoint = UNIVERSAL \<longrightarrow> Axis sdfJoint 0 = Some a0 \<longrightarrow> Axis sdfJoint 1 = Some a1 \<longrightarrow>
          (\<exists>st'. CreateJointOfType E st modelInfo sdfJoint p c T_joint = Some (Some st')
             \<and> mAxis (jointProperties (parentJoint (nodes st' ! c)))
                 = [spec_axis T_joint T_model a0, spec_axis T_joint T_model a1]))"
proof (intro conjI impI)
  show "ConvertJointAxis (nodes st) sdfAxis modelInfo T_joint
           = Some (if UseParentModelFrame sdfAxis
                   then mat_vec (linear (inverse T_joint * T_model)) (Xyz sdfAxis)
                   else Xyz sdfAxis)"
    using ConvertJointAxis_spec [OF assms(1)] by (simp add: spec_axis_def)
next
  assume t: "Type sdfJoint \<in> {REVOLUTE, PRISMATIC, SCREW}" and a: "Axis sdfJoint 0 = Some a0"
  have single: "\<exists>st'. ConstructSingleAxisJoint E st jtype modelInfo sdfJoint p c T_joint = Some st'
      \<and> c < length (nodes st')
      \<and> mAxis (jointProperties (parentJoint (nodes st' ! c))) = [spec_axis T_joint T_model a0]"
    for jtype
    using ConstructSingleAxisJoint_axis [OF assms a] .
  from t consider "Type sdfJoint = REVOLUTE" | "Type sdfJoint = PRISMATIC" | "Type sdfJoint = SCREW"
    by auto
  then show "\<exists>st'. CreateJointOfType E st modelInfo sdfJoint p c T_joint = Some (Some st')
             \<and> mAxis (jointProperties (parentJoint (nodes st' ! c)))
                 = [spec_axis T_joint T_model a0]"
  proof cases
    case 1
    with single [of RevoluteJoint] show ?thesis by (auto simp: CreateJointOfType_def)
  next
    case 2
    with single [of PrismaticJoint] show ?thesis by (auto simp: CreateJointOfType_def)
  next
    case 3
    from single [of ScrewJoint] obtain screw where
      s: "ConstructSingleAxisJoint E st ScrewJoint modelInfo sdfJoint p c T_joint = Some screw"
      and len: "c < length (nodes screw)"
      and ax: "mAxis (jointProperties (parentJoint (nodes screw ! c))) = [spec_axis T_joint T_model a0]"
      by blast
    show ?thesis
    proof (cases "ThreadPitch sdfJoint")
      case None
      with 3 s ax show ?thesis by (simp add: CreateJointOfType_def)
    next
      case (Some pitch)
      with 3 s ax len show ?thesis
        by (simp add: CreateJointOfType_def setPitch_def updateJoint_def)
    qed
  qed
next
  assume "Type sdfJoint = UNIVERSAL" "Axis sdfJoint 0 = Some a0" "Axis sdfJoint 1 = Some a1"
  then show "\<exists>st'. CreateJointOfType E st modelInfo sdfJoint p c T_joint = Some (Some st')
             \<and> mAxis (jointProperties (parentJoint (nodes st' ! c)))
                 = [spec_axis T_joint T_model a0, spec_axis T_joint T_model a1]"
    using ConstructUniversalJoint_axes [OF assms, of sdfJoint a0 a1 E p T_joint]
    by (auto simp: CreateJointOfType_def)
qed

theorem axis_conversion_witness:
  "GetParentModelFrame (nodes two_bodies) model_m = Some 1
   \<and> Type hinge_joint \<in> {REVOLUTE, PRISMATIC, SCREW} \<and> Axis hinge_joint 0 = Some model_axis
   \<and> ConvertJointAxis (nodes two_bodies) model_axis model_m quarter_turn = Some (Vector3d 0 (- 1) 0)
   \<and> (\<exists>st'. CreateJointOfType zero_start_engine two_bodies model_m hinge_joint 0 1 quarter_turn
               = Some (Some st')
          \<and> mAxis (jointProperties (parentJoint (nodes st' ! 1))) = [Vector3d 0 (- 1) 0])"
proof -
  have g: "GetParentModelFrame (nodes two_bodies) model_m = Some 1"
    by (simp add: GetParentModelFrame_def SimpleFrame_getWorldTransform_def model_m_def
        two_bodies_poses)
  have len: "1 < length (nodes two_bodies)" by (simp add: nodes_two_bodies)
  have t: "Type hinge_joint \<in> {REVOLUTE, PRISMATIC, SCREW}" and a: "Axis hinge_joint 0 = Some model_axis"
    by (simp_all add: hinge_joint_def)
  have v: "spec_axis quarter_turn 1 model_axis = Vector3d 0 (- 1) 0"
    by (simp add: spec_axis_def model_axis_def quarter_turn_def times_Isometry3d_def
        inverse_Isometry3d_def one_Isometry3d_def one_Matrix3d_def)
  note th = axis_conversion [OF g len, of model_axis quarter_turn hinge_joint model_axis
      zero_start_engine 0]
  from th have c1: "ConvertJointAxis (nodes two_bodies) model_axis model_m quarter_turn
      = Some (spec_axis quarter_turn 1 model_axis)"
    by (simp add: spec_axis_def)
  from th t a have c2: "\<exists>st'. CreateJointOfType zero_start_engine two_bodies model_m hinge_joint 0 1
        quarter_turn = Some (Some st')
      \<and> mAxis (jointProperties (parentJoint (nodes st' ! 1))) = [spec_axis quarter_turn 1 model_axis]"
    by blast
  from c1 c2 g t a show ?thesis unfolding v by blast
qed

section \<open>Lists of bodies\<close>

lemma indexOf_append:
  "indexOf P (xs @ [x]) =
     (case indexOf P xs of Some i \<Rightarrow> Some i | None \<Rightarrow> if P x then Some (length xs) else None)"
  by (induction xs) (auto split: option.splits)

lemma indexOf_Some:
  "indexOf P xs = Some i \<Longrightarrow> i < length xs \<and> P (xs ! i)"
  by (induction xs arbitrary: i) (auto split: if_splits)

lemma indexOf_None: "indexOf P xs = None \<longleftrightarrow> (\<forall>x \<in> set xs. \<not> P x)"
  by (induction xs) auto

lemma indexOf_map: "indexOf (\<lambda>x. Q (f x)) xs = indexOf Q (map f xs)"
  by (induction xs) auto

lemma getBodyNode_keys:
  assumes "map (\<lambda>bn. (skeleton bn, bodyName bn)) ns' = map (\<lambda>bn. (skeleton bn, bodyName bn)) ns"
  shows "getBodyNode ns' sk name = getBodyNode ns sk name"
proof -
  have *: "getBodyNode xs sk name
      = indexOf (\<lambda>k. fst k = sk \<and> snd k = name) (map (\<lambda>bn. (skeleton bn, bodyName bn)) xs)" for xs
    unfolding getBodyNode_def by (simp add: indexOf_map [symmetric])
  show ?thesis by (simp only: * [of ns'] * [of ns] assms)
qed

lemma first_body_keys:
  assumes "map (\<lambda>bn. (skeleton bn, bodyName bn)) ns' = map (\<lambda>bn. (skeleton bn, bodyName bn)) ns"
  shows "indexOf (\<lambda>bn. skeleton bn = sk) ns' = indexOf (\<lambda>bn. skeleton bn = sk) ns"
proof -
  have *: "indexOf (\<lambda>bn. skeleton bn = sk) xs
      = indexOf (\<lambda>k. fst k = sk) (map (\<lambda>bn. (skeleton bn, bodyName bn)) xs)" for xs
    by (simp add: indexOf_map [symmetric])
  show ?thesis by (simp only: * [of ns'] * [of ns] assms)
qed

lemma getNumBodyNodes_zero:
  "getNumBodyNodes ns sk = 0 \<longleftrightarrow> indexOf (\<lambda>bn. skeleton bn = sk) ns = None"
  by (auto simp: getNumBodyNodes_def indexOf_None filter_empty_conv)

section \<open>The shapes of a link leave the bodies alone\<close>

lemma ConstructSdfCollision_frame:
  assumes "ConstructSdfCollision st linkID collision = Some (r, st')"
  shows "nodes st' = nodes st \<and> models st' = models st \<and> links st' = links st
       \<and> skeletons st' = skeletons st"
  using assms
  by (auto simp: ConstructSdfCollision_def report_def AddShape_def Let_def
      split: option.splits prod.splits if_splits)

lemma ConstructSdfCollision_total:
  assumes "links st linkID = Some bn" "bn < length (nodes st)"
  shows "\<exists>r st'. ConstructSdfCollision st linkID collision = Some (r, st')"
  using assms
  by (auto simp: ConstructSdfCollision_def report_def AddShape_def Let_def
      split: option.splits prod.splits)

lemma ConstructSdfVisual_frame:
  assumes "ConstructSdfVisual st linkID visual = Some (r, st')"
  shows "nodes st' = nodes st \<and> models st' = models st \<and> links st' = links st
       \<and> skeletons st' = skeletons st"
  using assms
  by (auto simp: ConstructSdfVisual_def report_def AddShape_def Let_def
      split: option.splits prod.splits if_splits)

lemma ConstructSdfVisual_total:
  assumes "links st linkID = Some bn" "bn < length (nodes st)"
  shows "\<exists>r st'. ConstructSdfVisual st linkID visual = Some (r, st')"
  using assms
  by (auto simp: ConstructSdfVisual_def report_def AddShape_def Let_def
      split: option.splits prod.splits)

lemma CollisionLoop_total:
  assumes "links st linkID = Some bn" "bn < length (nodes st)"
  shows "\<exists>st'. CollisionLoop st linkID cs = Some st'
      \<and> nodes st' = nodes st \<and> models st' = models st \<and> links st' = links st
      \<and> skeletons st' = skeletons st"
  using assms
proof (induction st linkID cs rule: CollisionLoop.induct)
  case (1 st linkID)
  then show ?case by simp
next
  case (2 st linkID cs)
  then show ?case by simp
next
  case (3 st linkID collision cs)
  from ConstructSdfCollision_total [OF "3.prems", of collision] obtain r st1 where
    c: "ConstructSdfCollision st linkID collision = Some (r, st1)" by blast
  note f = ConstructSdfCollision_frame [OF c]
  from "3.IH" [of "(r, st1)" r st1] c f "3.prems" show ?case by simp
qed

lemma VisualLoop_total:
  assumes "links st linkID = Some bn" "bn < length (nodes st)"
  shows "\<exists>st'. VisualLoop st linkID vs = Some st'
      \<and> nodes st' = nodes st \<and> models st' = models st \<and> links st' = links st
      \<and> skeletons st' = skeletons st"
  using assms
proof (induction st linkID vs rule: VisualLoop.induct)
  case (1 st linkID)
  then show ?case by simp
next
  case (2 st linkID vs)
  then show ?case by simp
next
  case (3 st linkID visual vs)
  from ConstructSdfVisual_total [OF "3.prems", of visual] obtain r st1 where
    c: "ConstructSdfVisual st linkID visual = Some (r, st1)" by blast
  note f = ConstructSdfVisual_frame [OF c]
  from "3.IH" [of "(r, st1)" r st1] c f "3.prems" show ?case by simp
qed

section \<open>The link builder\<close>

lemma report_fields:
  "models (report st d) = models st" "links (report st d) = links st"
  "skeletons (report st d) = skeletons st" "entityCount (report st d) = entityCount st"
  "jointCount (report st d) = jointCount st" "joints (report st d) = joints st"
  by (simp_all add: report_def)

lemma SimpleFrame_getWorldTransform_append:
  assumes "tree ns" "frame_attached ns modelInfo"
  shows "SimpleFrame_getWorldTransform (ns @ [n]) (frame modelInfo)
       = SimpleFrame_getWorldTransform ns (frame modelInfo)"
  using assms
  by (auto simp: SimpleFrame_getWorldTransform_def frame_attached_def getWorldTransform_append
      split: Frame.splits)

text \<open>The body that the link builder appends, placed at \<open>T\<close> in the world.\<close>

lemma CreateFreeBody_placed:
  "\<exists>bn. nodes (FreeJoint_setTransform (CreateFreeBody st modelInfo sdfLink) (length (nodes st)) T)
          = nodes st @ [bn]
      \<and> parentBodyNode bn = None \<and> bodyName bn = LinkName sdfLink \<and> skeleton bn = model modelInfo
      \<and> getRelativeTransform bn = T"
  by (simp add: CreateFreeBody_def FreeJoint_setTransform_def updateJoint_def Let_def
      getRelativeTransform_def inverse_one)

lemma CreateFreeBody_rest:
  "models (FreeJoint_setTransform (CreateFreeBody st modelInfo sdfLink) b T) = models st"
  "links (FreeJoint_setTransform (CreateFreeBody st modelInfo sdfLink) b T) = links st"
  "skeletons (FreeJoint_setTransform (CreateFreeBody st modelInfo sdfLink) b T) = skeletons st"
  "entityCount (FreeJoint_setTransform (CreateFreeBody st modelInfo sdfLink) b T) = entityCount st"
  by (simp_all add: CreateFreeBody_def FreeJoint_setTransform_def updateJoint_def Let_def)

lemma FreeJoint_setTransform_report:
  "FreeJoint_setTransform (report st d) b T = report (FreeJoint_setTransform st b T) d"
  by (simp add: FreeJoint_setTransform_def updateJoint_def report_def)

lemma ResolveSdfLinkReferenceFrame_new:
  assumes "tree (nodes st)" "frame_attached (nodes st) modelInfo"
    and "SimpleFrame_getWorldTransform (nodes st) (frame modelInfo) = Some Tf"
  shows "ResolveSdfLinkReferenceFrame (CreateFreeBody st modelInfo sdfLink) frameN modelInfo
      = Some (if frameN = [] then Tf else 1,
              if frameN = [] then CreateFreeBody st modelInfo sdfLink
              else report (CreateFreeBody st modelInfo sdfLink) (UnsupportedLinkFrame frameN))"
proof -
  have "nodes (CreateFreeBody st modelInfo sdfLink) = nodes st @ [last (nodes (CreateFreeBody st modelInfo sdfLink))]"
    by (simp add: CreateFreeBody_def Let_def)
  then have "SimpleFrame_getWorldTransform (nodes (CreateFreeBody st modelInfo sdfLink)) (frame modelInfo)
      = Some Tf"
    using SimpleFrame_getWorldTransform_append [OF assms(1,2)] assms(3) by metis
  then show ?thesis
    by (simp add: ResolveSdfLinkReferenceFrame_def GetParentModelFrame_def)
qed

lemma MoveModelFrame_result:
  assumes tr: "tree ns" and fa: "frame_attached ns modelInfo"
    and Tf: "SimpleFrame_getWorldTransform ns (frame modelInfo) = Some Tf"
    and n: "nodes st = ns @ [bn]" and root: "parentBodyNode bn = None"
    and sk: "skeleton bn = model modelInfo"
  shows "MoveModelFrame st modelID modelInfo (length ns) =
     Some (if getNumBodyNodes ns (model modelInfo) = 0
           then st\<lparr> models := (models st)(modelID \<mapsto> modelInfo
                   \<lparr> frame := (frame modelInfo)
                       \<lparr> parentFrame := Body (length ns),
                         relativeTransform := inverse (getRelativeTransform bn) * Tf \<rparr> \<rparr>) \<rparr>
           else st)"
proof -
  have num: "getNumBodyNodes (nodes st) (model modelInfo) = Suc (getNumBodyNodes ns (model modelInfo))"
    by (simp add: getNumBodyNodes_def n sk)
  have f: "SimpleFrame_getWorldTransform (nodes st) (frame modelInfo) = Some Tf"
    unfolding n using SimpleFrame_getWorldTransform_append [OF tr fa] Tf by simp
  have W: "getWorldTransform (nodes st) (length ns) = Some (getRelativeTransform bn)"
    unfolding n using root by (simp add: getWorldTransform_root)
  show ?thesis
    by (simp add: MoveModelFrame_def num f W)
qed

lemma ConstructSdfLink_result:
  assumes tr: "tree (nodes st)" and m: "models st modelID = Some modelInfo"
    and fa: "frame_attached (nodes st) modelInfo"
    and Tf: "SimpleFrame_getWorldTransform (nodes st) (frame modelInfo) = Some Tf"
  shows "\<exists>st' bn. ConstructSdfLink st modelID sdfLink = Some (Identity (entityCount st), st')
     \<and> nodes st' = nodes st @ [bn]
     \<and> parentBodyNode bn = None \<and> bodyName bn = LinkName sdfLink \<and> skeleton bn = model modelInfo
     \<and> getRelativeTransform bn = (if LinkPoseFrame sdfLink = [] then Tf else 1) * LinkPose sdfLink
     \<and> links st' (entityCount st) = Some (length (nodes st)) \<and> skeletons st' = skeletons st
     \<and> models st' =
         (if getNumBodyNodes (nodes st) (model modelInfo) = 0
          then (models st)(modelID \<mapsto> modelInfo
                 \<lparr> frame := (frame modelInfo)
                     \<lparr> parentFrame := Body (length (nodes st)),
                       relativeTransform := inverse (getRelativeTransform bn) * Tf \<rparr> \<rparr>)
          else models st)"
proof -
  let ?n = "length (nodes st)"
  let ?T = "(if LinkPoseFrame sdfLink = [] then Tf else 1) * LinkPose sdfLink"
  let ?st1 = "CreateFreeBody st modelInfo sdfLink"
  let ?st2 = "if LinkPoseFrame sdfLink = [] then ?st1
              else report ?st1 (UnsupportedLinkFrame (LinkPoseFrame sdfLink))"
  let ?st3 = "FreeJoint_setTransform ?st2 ?n ?T"
  let ?st5 = "snd (AddJoint (snd (AddLink ?st3 ?n)) (jointCount st))"
  have res: "ResolveSdfLinkReferenceFrame ?st1 (LinkPoseFrame sdfLink) modelInfo
      = Some (if LinkPoseFrame sdfLink = [] then Tf else 1, ?st2)"
    using ResolveSdfLinkReferenceFrame_new [OF tr fa Tf] by simp
  have id: "fst (AddLink ?st3 ?n) = entityCount st"
    by (simp add: AddLink_def FreeJoint_setTransform_report CreateFreeBody_rest report_fields)
  have step: "ConstructSdfLink st modelID sdfLink =
      do { st6 \<leftarrow> MoveModelFrame ?st5 modelID modelInfo ?n;
           st7 \<leftarrow> CollisionLoop st6 (entityCount st) (Collisions sdfLink);
           st8 \<leftarrow> VisualLoop st7 (entityCount st) (Visuals sdfLink);
           Some (Identity (entityCount st), st8) }"
    unfolding ConstructSdfLink_def
    by (simp add: m Let_def res case_prod_beta id del: if_cancel)
  obtain bn where bn: "nodes (FreeJoint_setTransform ?st1 ?n ?T) = nodes st @ [bn]"
    "parentBodyNode bn = None" "bodyName bn = LinkName sdfLink" "skeleton bn = model modelInfo"
    "getRelativeTransform bn = ?T"
    using CreateFreeBody_placed [of st modelInfo sdfLink ?T] by blast
  have n3: "nodes ?st3 = nodes st @ [bn]"
    using bn(1) by (cases "LinkPoseFrame sdfLink = []") (simp_all add: FreeJoint_setTransform_report)
  have n5: "nodes ?st5 = nodes st @ [bn]"
    using n3 by (simp add: AddLink_def AddJoint_def)
  have m5: "models ?st5 = models st" and s5: "skeletons ?st5 = skeletons st"
    and l5: "links ?st5 = (links st)(entityCount st \<mapsto> ?n)"
    by (simp_all add: AddLink_def AddJoint_def FreeJoint_setTransform_report CreateFreeBody_rest
        report_fields)
  let ?st6 = "if getNumBodyNodes (nodes st) (model modelInfo) = 0
           then ?st5\<lparr> models := (models ?st5)(modelID \<mapsto> modelInfo
                   \<lparr> frame := (frame modelInfo)
                       \<lparr> parentFrame := Body ?n,
                         relativeTransform := inverse (getRelativeTransform bn) * Tf \<rparr> \<rparr>) \<rparr>
           else ?st5"
  have move: "MoveModelFrame ?st5 modelID modelInfo ?n = Some ?st6"
    using MoveModelFrame_result [OF tr fa Tf n5 bn(2) bn(4)] .
  have n6: "nodes ?st6 = nodes st @ [bn]" and l6: "links ?st6 = (links st)(entityCount st \<mapsto> ?n)"
    and s6: "skeletons ?st6 = skeletons st"
    using n5 l5 s5 by simp_all
  have m6: "models ?st6 =
         (if getNumBodyNodes (nodes st) (model modelInfo) = 0
          then (models st)(modelID \<mapsto> modelInfo
                 \<lparr> frame := (frame modelInfo)
                     \<lparr> parentFrame := Body ?n,
                       relativeTransform := inverse (getRelativeTransform bn) * Tf \<rparr> \<rparr>)
          else models st)"
    using m5 by simp
  have link6: "links ?st6 (entityCount st) = Some ?n" "?n < length (nodes ?st6)"
    by (simp_all add: l6 n6)
  from CollisionLoop_total [OF link6, of "Collisions sdfLink"] obtain st7 where
    c: "CollisionLoop ?st6 (entityCount st) (Collisions sdfLink) = Some st7"
    and f7: "nodes st7 = nodes ?st6" "models st7 = models ?st6" "links st7 = links ?st6"
      "skeletons st7 = skeletons ?st6"
    by blast
  have link7: "links st7 (entityCount st) = Some ?n" "?n < length (nodes st7)"
    using link6 f7 by simp_all
  from VisualLoop_total [OF link7, of "Visuals sdfLink"] obtain st8 where
    v: "VisualLoop st7 (entityCount st) (Visuals sdfLink) = Some st8"
    and f8: "nodes st8 = nodes st7" "models st8 = models st7" "links st8 = links st7"
      "skeletons st8 = skeletons st7"
    by blast
  have "ConstructSdfLink st modelID sdfLink = Some (Identity (entityCount st), st8)"
    by (simp only: step move c v bind.bind_lunit)
  moreover have "nodes st8 = nodes st @ [bn]" by (simp only: f8 f7 n6)
  moreover have "links st8 (entityCount st) = Some ?n" by (simp only: f8 f7 link6)
  moreover have "skeletons st8 = skeletons st" by (simp only: f8 f7 s6)
  moreover have "models st8 =
         (if getNumBodyNodes (nodes st) (model modelInfo) = 0
          then (models st)(modelID \<mapsto> modelInfo
                 \<lparr> frame := (frame modelInfo)
                     \<lparr> parentFrame := Body ?n,
                       relativeTransform := inverse (getRelativeTransform bn) * Tf \<rparr> \<rparr>)
          else models st)"
    by (simp only: f8 f7 m6)
  ultimately show ?thesis using bn(2-5) by blast
qed

section \<open>The link resolver\<close>

lemma build_inv_frame_attached:
  assumes "build_inv st skel modelID" "models st modelID = Some modelInfo"
  shows "frame_attached (nodes st) modelInfo"
  using assms
  by (auto simp: build_inv_def frame_attached_def first_body_def dest: indexOf_Some
      split: option.splits)

lemma build_inv_report: "build_inv st skel modelID \<Longrightarrow> build_inv (report st d) skel modelID"
  by (simp add: build_inv_def report_fields)

lemma LinkByName_name: "LinkByName sdfModel name = Some l \<Longrightarrow> LinkName l = name"
  by (auto simp: LinkByName_def find_Some_iff)

lemma LinkByName_declared: "l \<in> set (Links sdfModel) \<Longrightarrow> LinkByName sdfModel (LinkName l) \<noteq> None"
  by (auto simp: LinkByName_def find_None_iff)

lemma getBodyNode_Some:
  "getBodyNode ns skel name = Some b \<Longrightarrow> b < length ns \<and> skeleton (ns ! b) = skel \<and> bodyName (ns ! b) = name"
  by (auto simp: getBodyNode_def dest: indexOf_Some)

lemma getBodyNode_append:
  "getBodyNode (ns @ [bn]) skel name =
     (case getBodyNode ns skel name of
        Some b \<Rightarrow> Some b
      | None \<Rightarrow> if skeleton bn = skel \<and> bodyName bn = name then Some (length ns) else None)"
  by (simp add: getBodyNode_def indexOf_append)

lemma first_body_append:
  "first_body (ns @ [bn]) skel =
     (case first_body ns skel of
        Some b \<Rightarrow> Some b
      | None \<Rightarrow> if skeleton bn = skel then Some (length ns) else None)"
  by (simp add: first_body_def indexOf_append)

lemma first_body_None_getBodyNode:
  "first_body ns skel = None \<Longrightarrow> getBodyNode ns skel name = None"
  by (auto simp: first_body_def getBodyNode_def indexOf_None)

lemma FindOrConstructLink_cases [consumes 1, case_names found undeclared built]:
  assumes inv: "build_inv st skel modelID"
  obtains b where "getBodyNode (nodes st) skel name = Some b"
      "FindOrConstructLink st skel modelID sdfModel name = Some (Some b, st)"
  | "getBodyNode (nodes st) skel name = None" "LinkByName sdfModel name = None"
      "FindOrConstructLink st skel modelID sdfModel name
         = Some (None, report st (LinkNotInModel (ModelName sdfModel) name))"
  | st' bn where "getBodyNode (nodes st) skel name = None" "LinkByName sdfModel name \<noteq> None"
      "FindOrConstructLink st skel modelID sdfModel name = Some (Some (length (nodes st)), st')"
      "nodes st' = nodes st @ [bn]" "parentBodyNode bn = None" "bodyName bn = name"
      "skeleton bn = skel" "skeletons st' = skeletons st" "build_inv st' skel modelID"
proof (cases "getBodyNode (nodes st) skel name")
  case (Some b)
  then have "FindOrConstructLink st skel modelID sdfModel name = Some (Some b, st)"
    by (simp add: FindOrConstructLink_def)
  with Some show ?thesis by (rule that(1))
next
  case None
  show ?thesis
  proof (cases "LinkByName sdfModel name")
    case no: None
    with None have "FindOrConstructLink st skel modelID sdfModel name
         = Some (None, report st (LinkNotInModel (ModelName sdfModel) name))"
      by (simp add: FindOrConstructLink_def)
    with None no show ?thesis by (rule that(2))
  next
    case (Some l)
    from inv obtain modelInfo where m: "models st modelID = Some modelInfo"
      and sk: "model modelInfo = skel"
      and par: "parentFrame (frame modelInfo) =
          (case first_body (nodes st) skel of None \<Rightarrow> World | Some b \<Rightarrow> Body b)"
      and tr: "tree (nodes st)"
      by (auto simp: build_inv_def)
    have fa: "frame_attached (nodes st) modelInfo"
      using inv m by (rule build_inv_frame_attached)
    obtain Tf where Tf: "SimpleFrame_getWorldTransform (nodes st) (frame modelInfo) = Some Tf"
      using SimpleFrame_getWorldTransform_total [OF tr fa] by blast
    from ConstructSdfLink_result [OF tr m fa Tf, of l] obtain st' bn where
      c: "ConstructSdfLink st modelID l = Some (Identity (entityCount st), st')"
      and n: "nodes st' = nodes st @ [bn]"
      and b: "parentBodyNode bn = None" "bodyName bn = LinkName l" "skeleton bn = model modelInfo"
      and l: "links st' (entityCount st) = Some (length (nodes st))"
      and s: "skeletons st' = skeletons st"
      and ms: "models st' =
         (if getNumBodyNodes (nodes st) (model modelInfo) = 0
          then (models st)(modelID \<mapsto> modelInfo
                 \<lparr> frame := (frame modelInfo)
                     \<lparr> parentFrame := Body (length (nodes st)),
                       relativeTransform := inverse (getRelativeTransform bn) * Tf \<rparr> \<rparr>)
          else models st)"
      by blast
    have res: "FindOrConstructLink st skel modelID sdfModel name = Some (Some (length (nodes st)), st')"
      using None Some c l by (simp add: FindOrConstructLink_def)
    have tr': "tree (nodes st')"
      unfolding n using tr b(1) by (rule tree_append_root)
    have inv': "build_inv st' skel modelID"
    proof (cases "first_body (nodes st) skel")
      case fn: None
      then have "getNumBodyNodes (nodes st) (model modelInfo) = 0"
        by (simp add: getNumBodyNodes_zero sk first_body_def)
      with ms fn tr' b(3) sk show ?thesis
        by (simp add: build_inv_def n first_body_append)
    next
      case (Some b0)
      then have "getNumBodyNodes (nodes st) (model modelInfo) \<noteq> 0"
        by (simp add: getNumBodyNodes_zero sk first_body_def)
      with ms Some tr' m sk par show ?thesis
        by (simp add: build_inv_def n first_body_append)
    qed
    from None Some res n b(1) LinkByName_name [OF Some] b(2,3) sk s inv'
    show ?thesis by (intro that(3) [of st' bn]) simp_all
  qed
qed

lemma declared_bodies_report:
  "declared_bodies st skel sdfModel \<Longrightarrow> declared_bodies (report st d) skel sdfModel"
  by (simp add: declared_bodies_def)

lemma getBodyNode_None_filter:
  "getBodyNode ns skel name = None \<longleftrightarrow> filter (\<lambda>bn. skeleton bn = skel \<and> bodyName bn = name) ns = []"
  by (auto simp: getBodyNode_def indexOf_None filter_empty_conv)

lemma FindOrConstructLink_stable:
  assumes inv: "build_inv st skel modelID"
    and b: "getBodyNode (nodes st) skel name = Some b"
    and r: "FindOrConstructLink st skel modelID sdfModel name' = Some (r, st')"
  shows "getBodyNode (nodes st') skel name = Some b"
  using inv
proof (cases rule: FindOrConstructLink_cases [where name = name' and sdfModel = sdfModel])
  case (found b')
  with r b show ?thesis by simp
next
  case undeclared
  with r b show ?thesis by auto
next
  case (built st'' bn)
  with r b show ?thesis by (auto simp: getBodyNode_append)
qed

lemma FindOrConstructLink_inv:
  assumes inv: "build_inv st skel modelID" and d: "declared_bodies st skel sdfModel"
    and r: "FindOrConstructLink st skel modelID sdfModel name = Some (r, st')"
  shows "build_inv st' skel modelID \<and> declared_bodies st' skel sdfModel"
  using inv
proof (cases rule: FindOrConstructLink_cases [where name = name and sdfModel = sdfModel])
  case (found b)
  with r inv d show ?thesis by simp
next
  case undeclared
  with r inv d show ?thesis by (auto simp: build_inv_report declared_bodies_report)
next
  case (built st'' bn)
  with r d show ?thesis by (auto simp: declared_bodies_def)
qed

text \<open>
  C7.  In a model under construction (the bodies a tree, the model frame on the world or on
  the first body of the skeleton, all bodies of the skeleton named after declared links):
  a declared link name resolves to a body, resolving it again gives the same body and
  leaves the state as it is, and so does resolving it after any other name has been
  resolved; the first resolution adds at most one body, and only when the skeleton had no
  body of that name.  A name that is not declared resolves to null, with the error reported
  and nothing else changed.  Every resolution keeps the model in that condition.
\<close>

theorem link_resolution_idempotent:
  assumes "build_inv st skel modelID" and "declared_bodies st skel sdfModel"
  shows "(LinkByName sdfModel name \<noteq> None \<longrightarrow>
           (\<exists>b st1. FindOrConstructLink st skel modelID sdfModel name = Some (Some b, st1)
              \<and> FindOrConstructLink st1 skel modelID sdfModel name = Some (Some b, st1)
              \<and> b < length (nodes st1) \<and> bodyName (nodes st1 ! b) = name
              \<and> skeleton (nodes st1 ! b) = skel
              \<and> (nodes st1 = nodes st
                   \<or> (\<exists>bn. nodes st1 = nodes st @ [bn] \<and> getBodyNode (nodes st) skel name = None))
              \<and> (\<forall>name' r st2.
                    FindOrConstructLink st1 skel modelID sdfModel name' = Some (r, st2)
                      \<longrightarrow> FindOrConstructLink st2 skel modelID sdfModel name = Some (Some b, st2))))
       \<and> (LinkByName sdfModel name = None \<longrightarrow>
            FindOrConstructLink st skel modelID sdfModel name =
              Some (None, st\<lparr> cerr := cerr st @ [LinkNotInModel (ModelName sdfModel) name] \<rparr>))
       \<and> (\<forall>name' r st1.
            FindOrConstructLink st skel modelID sdfModel name' = Some (r, st1)
              \<longrightarrow> build_inv st1 skel modelID \<and> declared_bodies st1 skel sdfModel)"
proof (intro conjI impI allI)
  assume decl: "LinkByName sdfModel name \<noteq> None"
  have again: "\<exists>b. FindOrConstructLink st1 skel modelID sdfModel name = Some (Some b, st1)
        \<and> b = b0 \<and> b < length (nodes st1) \<and> bodyName (nodes st1 ! b) = name
        \<and> skeleton (nodes st1 ! b) = skel
        \<and> (\<forall>name' r st2.
              FindOrConstructLink st1 skel modelID sdfModel name' = Some (r, st2)
                \<longrightarrow> FindOrConstructLink st2 skel modelID sdfModel name = Some (Some b, st2))"
    if inv1: "build_inv st1 skel modelID" and g: "getBodyNode (nodes st1) skel name = Some b0"
    for st1 b0
  proof -
    have "FindOrConstructLink st2 skel modelID sdfModel name = Some (Some b0, st2)"
      if "FindOrConstructLink st1 skel modelID sdfModel name' = Some (r, st2)" for name' r st2
      using FindOrConstructLink_stable [OF inv1 g that] by (simp add: FindOrConstructLink_def)
    with g getBodyNode_Some [OF g] show ?thesis by (simp add: FindOrConstructLink_def)
  qed
  from assms(1) show "\<exists>b st1. FindOrConstructLink st skel modelID sdfModel name = Some (Some b, st1)
              \<and> FindOrConstructLink st1 skel modelID sdfModel name = Some (Some b, st1)
              \<and> b < length (nodes st1) \<and> bodyName (nodes st1 ! b) = name
              \<and> skeleton (nodes st1 ! b) = skel
              \<and> (nodes st1 = nodes st
                   \<or> (\<exists>bn. nodes st1 = nodes st @ [bn] \<and> getBodyNode (nodes st) skel name = None))
              \<and> (\<forall>name' r st2.
                    FindOrConstructLink st1 skel modelID sdfModel name' = Some (r, st2)
                      \<longrightarrow> FindOrConstructLink st2 skel modelID sdfModel name = Some (Some b, st2))"
  proof (cases rule: FindOrConstructLink_cases [where name = name and sdfModel = sdfModel])
    case (found b)
    with again [OF assms(1) found(1)] show ?thesis by blast
  next
    case undeclared
    with decl show ?thesis by simp
  next
    case (built st1 bn)
    have g: "getBodyNode (nodes st1) skel name = Some (length (nodes st))"
      using built by (simp add: getBodyNode_append)
    from again [OF built(9) g] built show ?thesis by blast
  qed
next
  assume "LinkByName sdfModel name = None"
  moreover have "getBodyNode (nodes st) skel name = None"
  proof (rule ccontr)
    assume "getBodyNode (nodes st) skel name \<noteq> None"
    then obtain b where "getBodyNode (nodes st) skel name = Some b" by auto
    from getBodyNode_Some [OF this] assms(2) \<open>LinkByName sdfModel name = None\<close>
    show False by (auto simp: declared_bodies_def)
  qed
  ultimately show "FindOrConstructLink st skel modelID sdfModel name =
              Some (None, st\<lparr> cerr := cerr st @ [LinkNotInModel (ModelName sdfModel) name] \<rparr>)"
    by (simp add: FindOrConstructLink_def report_def)
next
  fix name' r st1
  assume "FindOrConstructLink st skel modelID sdfModel name' = Some (r, st1)"
  from FindOrConstructLink_inv [OF assms this]
  show "build_inv st1 skel modelID" "declared_bodies st1 skel sdfModel" by simp_all
qed

theorem link_resolution_idempotent_witness:
  "build_inv two_bodies 0 0 \<and> declared_bodies two_bodies 0 robot
   \<and> LinkByName robot ''tool'' = Some tool_link
   \<and> (\<exists>b st1. FindOrConstructLink two_bodies 0 0 robot ''tool'' = Some (Some b, st1)
        \<and> FindOrConstructLink st1 0 0 robot ''tool'' = Some (Some b, st1)
        \<and> b < length (nodes st1) \<and> bodyName (nodes st1 ! b) = ''tool''
        \<and> skeleton (nodes st1 ! b) = 0
        \<and> (nodes st1 = nodes two_bodies
             \<or> (\<exists>bn. nodes st1 = nodes two_bodies @ [bn]
                   \<and> getBodyNode (nodes two_bodies) 0 ''tool'' = None)))
   \<and> LinkByName robot ''hand'' = None
   \<and> FindOrConstructLink two_bodies 0 0 robot ''hand'' =
        Some (None, two_bodies\<lparr> cerr := cerr two_bodies @ [LinkNotInModel (ModelName robot) ''hand''] \<rparr>)"
proof -
  have inv: "build_inv two_bodies 0 0"
    using tree_two_bodies
    by (simp add: build_inv_def first_body_def two_bodies_def model_m_def free_body_def)
  have d: "declared_bodies two_bodies 0 robot"
    by (simp add: declared_bodies_def two_bodies_def free_body_def LinkByName_def robot_def
        base_link_def arm_link_def)
  have t: "LinkByName robot ''tool'' = Some tool_link"
    by (simp add: LinkByName_def robot_def base_link_def arm_link_def tool_link_def)
  have h: "LinkByName robot ''hand'' = None"
    by (simp add: LinkByName_def robot_def base_link_def arm_link_def tool_link_def)
  note th1 = link_resolution_idempotent [OF inv d, of "''tool''"]
  note th2 = link_resolution_idempotent [OF inv d, of "''hand''"]
  from th1 t have c1: "\<exists>b st1. FindOrConstructLink two_bodies 0 0 robot ''tool'' = Some (Some b, st1)
        \<and> FindOrConstructLink st1 0 0 robot ''tool'' = Some (Some b, st1)
        \<and> b < length (nodes st1) \<and> bodyName (nodes st1 ! b) = ''tool''
        \<and> skeleton (nodes st1 ! b) = 0
        \<and> (nodes st1 = nodes two_bodies
             \<or> (\<exists>bn. nodes st1 = nodes two_bodies @ [bn]
                   \<and> getBodyNode (nodes two_bodies) 0 ''tool'' = None))"
    by (simp only: option.distinct simp_thms) blast
  from th2 h have c2: "FindOrConstructLink two_bodies 0 0 robot ''hand'' =
        Some (None, two_bodies\<lparr> cerr := cerr two_bodies @ [LinkNotInModel (ModelName robot) ''hand''] \<rparr>)"
    by blast
  show ?thesis using inv d t h c1 c2 by blast
qed

section \<open>The loops of the model assembler\<close>

lemma ReconcileJointTransforms_total:
  assumes tr: "tree (nodes st)" and c: "c < length (nodes st)" and p: "p < length (nodes st)"
    and par: "parentBodyNode (nodes st ! c) = Some p"
  shows "\<exists>r st'. ReconcileJointTransforms st sdfJoint p c T_parent T_child T_joint = Some (r, st')"
proof -
  let ?st3 = "setTransformFromChildBodyNode
                (setTransformFromParentBodyNode (setName st c (JointName sdfJoint)) c
                   (inverse T_parent * T_joint)) c (inverse T_child * T_joint)"
  have tr3: "tree (nodes ?st3)"
    using tr by (simp add: setName_def setTransformFromParentBodyNode_def
        setTransformFromChildBodyNode_def tree_updateJoint)
  have len3: "length (nodes ?st3) = length (nodes st)"
    by (simp add: setName_def setTransformFromParentBodyNode_def
        setTransformFromChildBodyNode_def nodes_updateJoint)
  have par3: "parentBodyNode (nodes ?st3 ! c) = Some p"
    using c par by (simp add: setName_def setTransformFromParentBodyNode_def
        setTransformFromChildBodyNode_def nodes_updateJoint)
  have rel: "getTransform (nodes ?st3) c p = Some (getRelativeTransform (nodes ?st3 ! c))"
    using c par3 len3 by (simp add: getTransform_def)
  obtain W where W: "getWorldTransform (nodes ?st3) p = Some W"
    using getWorldTransform_total [OF tr3, of p] p len3 by auto
  show ?thesis
    unfolding ReconcileJointTransforms_def Let_def
    by (simp add: rel W AddJoint_def)
qed

lemma ConstructSdfJoint_total:
  assumes tr: "tree (nodes st)" and fa: "frame_attached (nodes st) modelInfo"
    and ax: "axes_present sdfJoint"
    and pp: "\<forall>p. parentPtr = Some p \<longrightarrow> p < length (nodes st)"
    and cc: "\<forall>c. childPtr = Some c \<longrightarrow> c < length (nodes st)"
  shows "\<exists>r st'. ConstructSdfJoint E st modelInfo sdfJoint parentPtr childPtr = Some (r, st')"
proof (cases "parentPtr = None \<or> childPtr = None")
  case True
  then show ?thesis by (simp add: ConstructSdfJoint_null)
next
  case False
  then obtain p c where pc: "parentPtr = Some p" "childPtr = Some c" by auto
  with pp cc have range: "p < length (nodes st)" "c < length (nodes st)" by simp_all
  show ?thesis
  proof (cases "(c, p) \<in> (parentRel (nodes st))\<^sup>*")
    case True
    with tr range pc show ?thesis by (simp add: ConstructSdfJoint_closed)
  next
    case nd: False
    obtain T_parent where Wp: "getWorldTransform (nodes st) p = Some T_parent"
      using getWorldTransform_total [OF tr range(1)] by blast
    obtain T_child where Wc: "getWorldTransform (nodes st) c = Some T_child"
      using getWorldTransform_total [OF tr range(2)] by blast
    obtain st0 where
      res: "ResolveSdfJointReferenceFrame st (JointPoseFrame sdfJoint) c =
            Some (if JointPoseFrame sdfJoint = [] then T_child else 1, st0)"
      and n0: "nodes st0 = nodes st"
      using ResolveSdfJointReferenceFrame_result [OF Wc] by blast
    let ?Tj = "(if JointPoseFrame sdfJoint = [] then T_child else 1) * JointPose sdfJoint"
    obtain created where cr: "CreateJointOfType E st0 modelInfo sdfJoint p c ?Tj = Some created"
      using CreateJointOfType_total [of st0 modelInfo sdfJoint E p c ?Tj] tr fa ax
      by (auto simp: n0)
    have unfold: "ConstructSdfJoint E st modelInfo sdfJoint parentPtr childPtr =
        (case created of
           None \<Rightarrow> Some (InvalidId, report st0 (UnsupportedJointType (Type sdfJoint)))
         | Some st1 \<Rightarrow> ReconcileJointTransforms st1 sdfJoint p c T_parent T_child ?Tj)"
      using range nd tr
      by (simp add: ConstructSdfJoint_def pc descendsFrom_total Wp Wc res cr Let_def)
    show ?thesis
    proof (cases created)
      case None
      with unfold show ?thesis by simp
    next
      case (Some st1)
      with cr range n0 obtain j0 where st1: "st1 = attach st0 c p j0"
        using CreateJointOfType_created [of E st0 modelInfo sdfJoint p c ?Tj st1] by auto
      have n1: "nodes st1 = (nodes st)[c := (nodes st ! c)\<lparr> parentBodyNode := Some p, parentJoint := j0 \<rparr>]"
        by (simp add: st1 nodes_attach n0)
      have tr1: "tree (nodes st1)"
        unfolding n1 using tr range nd by (intro tree_moved) simp_all
      from ReconcileJointTransforms_total [OF tr1, of c p sdfJoint T_parent T_child ?Tj] range
      obtain r st' where
        "ReconcileJointTransforms st1 sdfJoint p c T_parent T_child ?Tj = Some (r, st')"
        by (auto simp: n1)
      with unfold Some show ?thesis by simp
    qed
  qed
qed

lemma keys_append: "keys (ns @ [bn]) = keys ns @ [(skeleton bn, bodyName bn)]"
  by (simp add: keys_def)

lemma first_body_keys_eq: "first_body ns skel = indexOf (\<lambda>k. fst k = skel) (keys ns)"
  by (simp add: first_body_def keys_def indexOf_map [symmetric])

lemma indexOf_append_list:
  "indexOf P (xs @ ys) =
     (case indexOf P xs of
        Some i \<Rightarrow> Some i
      | None \<Rightarrow> map_option (\<lambda>i. length xs + i) (indexOf P ys))"
proof (induction xs)
  case Nil
  then show ?case by (cases "indexOf P ys") simp_all
next
  case (Cons x xs)
  then show ?case
    by (cases "indexOf P xs"; cases "indexOf P ys") simp_all
qed

lemma grows_refl: "grows skel st st"
  by (simp add: grows_def)

lemma grows_report: "grows skel st (report st d)"
  by (simp add: grows_def report_fields)

lemma grows_trans:
  assumes "grows skel st st'" "grows skel st' st''"
  shows "grows skel st st''"
proof -
  from assms obtain ks ks' where
    "keys (nodes st') = keys (nodes st) @ ks" "\<forall>k \<in> set ks. fst k = skel"
    "keys (nodes st'') = keys (nodes st') @ ks'" "\<forall>k \<in> set ks'. fst k = skel"
    by (auto simp: grows_def)
  then have "keys (nodes st'') = keys (nodes st) @ (ks @ ks')" "\<forall>k \<in> set (ks @ ks'). fst k = skel"
    by auto
  with assms show ?thesis unfolding grows_def by metis
qed

lemma grows_length: "grows skel st st' \<Longrightarrow> length (nodes st) \<le> length (nodes st')"
proof -
  assume "grows skel st st'"
  then obtain ks where "keys (nodes st') = keys (nodes st) @ ks" by (auto simp: grows_def)
  then have "length (keys (nodes st')) = length (keys (nodes st)) + length ks" by simp
  then show ?thesis by (simp add: keys_def)
qed

lemma grows_first_body:
  assumes "grows skel st st'" "first_body (nodes st) skel = Some b"
  shows "first_body (nodes st') skel = Some b"
  using assms by (auto simp: grows_def first_body_keys_eq indexOf_append_list)

lemma grows_key:
  assumes "grows skel st st'" "b < length (nodes st)"
  shows "skeleton (nodes st' ! b) = skeleton (nodes st ! b)
       \<and> bodyName (nodes st' ! b) = bodyName (nodes st ! b)"
proof -
  from assms(1) obtain ks where k: "keys (nodes st') = keys (nodes st) @ ks"
    by (auto simp: grows_def)
  have lt: "b < length (nodes st')" using grows_length [OF assms(1)] assms(2) by simp
  have lb: "b < length (keys (nodes st))" using assms(2) by (simp add: keys_def)
  have "keys (nodes st') ! b = keys (nodes st) ! b"
    using lb by (simp add: k nth_append)
  moreover have "keys (nodes st') ! b = (skeleton (nodes st' ! b), bodyName (nodes st' ! b))"
    using lt by (simp add: keys_def)
  moreover have "keys (nodes st) ! b = (skeleton (nodes st ! b), bodyName (nodes st ! b))"
    using assms(2) by (simp add: keys_def)
  ultimately show ?thesis by simp
qed

lemma FindOrConstructLink_step:
  assumes inv: "build_inv st skel modelID" and d: "declared_bodies st skel sdfModel"
  shows "\<exists>r st'. FindOrConstructLink st skel modelID sdfModel name = Some (r, st')
      \<and> build_inv st' skel modelID \<and> declared_bodies st' skel sdfModel \<and> grows skel st st'
      \<and> (\<forall>b. r = Some b \<longrightarrow> b < length (nodes st'))
      \<and> (LinkByName sdfModel name = None \<longrightarrow> keys (nodes st') = keys (nodes st))
      \<and> (LinkByName sdfModel name \<noteq> None \<longrightarrow> first_body (nodes st) skel = None
            \<longrightarrow> keys (nodes st') = keys (nodes st) @ [(skel, name)])"
  using inv
proof (cases rule: FindOrConstructLink_cases [where name = name and sdfModel = sdfModel])
  case (found b)
  have "first_body (nodes st) skel \<noteq> None"
    using found(1) first_body_None_getBodyNode [of "nodes st" skel name] by auto
  moreover have "LinkByName sdfModel name \<noteq> None"
    using d getBodyNode_Some [OF found(1)] by (auto simp: declared_bodies_def)
  moreover have "b < length (nodes st)" using getBodyNode_Some [OF found(1)] by simp
  ultimately show ?thesis using found(2) inv d by (simp add: grows_refl)
next
  case undeclared
  with inv d show ?thesis
    by (simp add: build_inv_report declared_bodies_report grows_report keys_def)
next
  case (built st' bn)
  have g: "grows skel st st'"
    using built by (auto simp: grows_def keys_append)
  have "declared_bodies st' skel sdfModel"
    using built d by (auto simp: declared_bodies_def)
  with built g show ?thesis by (auto simp: keys_append)
qed

lemma LinkLoop_result:
  assumes "build_inv st skel modelID" "declared_bodies st skel sdfModel"
  shows "\<exists>st'. LinkLoop st skel modelID sdfModel ls = Some st'
      \<and> build_inv st' skel modelID \<and> declared_bodies st' skel sdfModel \<and> grows skel st st'"
  using assms
proof (induction ls arbitrary: st)
  case Nil
  then show ?case by (simp add: grows_refl)
next
  case (Cons l ls)
  from FindOrConstructLink_step [OF Cons.prems, of "LinkName l"] obtain r st1 where
    f: "FindOrConstructLink st skel modelID sdfModel (LinkName l) = Some (r, st1)"
    and i: "build_inv st1 skel modelID" "declared_bodies st1 skel sdfModel"
    and g: "grows skel st st1"
    by blast
  from Cons.IH [OF i] obtain st' where
    "LinkLoop st1 skel modelID sdfModel ls = Some st'"
    "build_inv st' skel modelID" "declared_bodies st' skel sdfModel" "grows skel st1 st'"
    by blast
  with f g show ?case by (auto intro: grows_trans)
qed

lemma ConstructSdfJoint_step:
  assumes inv: "build_inv st skel modelID" and d: "declared_bodies st skel sdfModel"
    and m: "models st modelID = Some modelInfo"
    and ax: "axes_present sdfJoint"
    and pp: "\<forall>p. parentPtr = Some p \<longrightarrow> p < length (nodes st)"
    and cc: "\<forall>c. childPtr = Some c \<longrightarrow> c < length (nodes st)"
  shows "\<exists>r st'. ConstructSdfJoint E st modelInfo sdfJoint parentPtr childPtr = Some (r, st')
      \<and> build_inv st' skel modelID \<and> declared_bodies st' skel sdfModel
      \<and> keys (nodes st') = keys (nodes st) \<and> skeletons st' = skeletons st"
proof -
  have tr: "tree (nodes st)" using inv by (simp add: build_inv_def)
  have fa: "frame_attached (nodes st) modelInfo"
    using inv m by (rule build_inv_frame_attached)
  from ConstructSdfJoint_total [OF tr fa ax pp cc] obtain r st' where
    c: "ConstructSdfJoint E st modelInfo sdfJoint parentPtr childPtr = Some (r, st')"
    by blast
  from ConstructSdfJoint_preserves [OF tr c] have
    p: "tree (nodes st')" "keys (nodes st') = keys (nodes st)" "models st' = models st"
      "skeletons st' = skeletons st"
    by (simp_all add: keys_def)
  have "first_body (nodes st') skel = first_body (nodes st) skel"
    by (simp add: first_body_keys_eq p(2))
  with inv p have "build_inv st' skel modelID" by (simp add: build_inv_def)
  moreover have "declared_bodies st' skel sdfModel"
  proof -
    have "set (keys (nodes st')) = set (keys (nodes st))" by (simp add: p(2))
    then have "(\<lambda>bn. (skeleton bn, bodyName bn)) ` set (nodes st')
        = (\<lambda>bn. (skeleton bn, bodyName bn)) ` set (nodes st)"
      by (simp add: keys_def)
    with d show ?thesis unfolding declared_bodies_def
      by (metis (mono_tags, lifting) fst_conv image_iff snd_conv)
  qed
  ultimately show ?thesis using c p by blast
qed

lemma JointLoop_result:
  assumes "build_inv st skel modelID" "declared_bodies st skel sdfModel"
    and "\<forall>j. Some j \<in> set js \<longrightarrow> axes_present j"
  shows "\<exists>st'. JointLoop E st skel modelID sdfModel i js = Some st'
      \<and> build_inv st' skel modelID \<and> declared_bodies st' skel sdfModel \<and> grows skel st st'
      \<and> (Links sdfModel = [] \<longrightarrow> keys (nodes st') = keys (nodes st))"
  using assms
proof (induction js arbitrary: st i)
  case Nil
  then show ?case by (simp add: grows_refl)
next
  case (Cons j js)
  have rest: "\<forall>j. Some j \<in> set js \<longrightarrow> axes_present j" using Cons.prems(3) by simp
  have nolinks: "Links sdfModel = [] \<Longrightarrow> LinkByName sdfModel name = None" for name
    by (simp add: LinkByName_def)
  show ?case
  proof (cases j)
    case None
    from Cons.IH [OF build_inv_report [OF Cons.prems(1)] declared_bodies_report [OF Cons.prems(2)] rest,
        of "NullJoint i (ModelName sdfModel)" "Suc i"]
    obtain st' where
      l: "JointLoop E (report st (NullJoint i (ModelName sdfModel))) skel modelID sdfModel (Suc i) js
            = Some st'"
      and r: "build_inv st' skel modelID" "declared_bodies st' skel sdfModel"
        "grows skel (report st (NullJoint i (ModelName sdfModel))) st'"
        "Links sdfModel = [] \<longrightarrow> keys (nodes st') = keys (nodes (report st (NullJoint i (ModelName sdfModel))))"
      by blast
    from r(3) have "grows skel st st'" using grows_report grows_trans by blast
    with None l r show ?thesis by simp
  next
    case (Some sdfJoint)
    have ax: "axes_present sdfJoint" using Cons.prems(3) Some by simp
    from FindOrConstructLink_step [OF Cons.prems(1,2), of "ParentLinkName sdfJoint"]
    obtain parent st1 where
      f1: "FindOrConstructLink st skel modelID sdfModel (ParentLinkName sdfJoint) = Some (parent, st1)"
      and i1: "build_inv st1 skel modelID" "declared_bodies st1 skel sdfModel"
      and g1: "grows skel st st1"
      and p1: "\<forall>b. parent = Some b \<longrightarrow> b < length (nodes st1)"
      and k1: "LinkByName sdfModel (ParentLinkName sdfJoint) = None \<longrightarrow> keys (nodes st1) = keys (nodes st)"
      by auto
    from FindOrConstructLink_step [OF i1, of "ChildLinkName sdfJoint"]
    obtain child st2 where
      f2: "FindOrConstructLink st1 skel modelID sdfModel (ChildLinkName sdfJoint) = Some (child, st2)"
      and i2: "build_inv st2 skel modelID" "declared_bodies st2 skel sdfModel"
      and g2: "grows skel st1 st2"
      and p2: "\<forall>b. child = Some b \<longrightarrow> b < length (nodes st2)"
      and k2: "LinkByName sdfModel (ChildLinkName sdfJoint) = None \<longrightarrow> keys (nodes st2) = keys (nodes st1)"
      by auto
    from i2(1) obtain modelInfo where m: "models st2 modelID = Some modelInfo"
      by (auto simp: build_inv_def)
    have pp: "\<forall>b. parent = Some b \<longrightarrow> b < length (nodes st2)"
      using p1 grows_length [OF g2] by auto
    from ConstructSdfJoint_step [OF i2 m ax pp p2, of E]
    obtain r st3 where
      c: "ConstructSdfJoint E st2 modelInfo sdfJoint parent child = Some (r, st3)"
      and i3: "build_inv st3 skel modelID" "declared_bodies st3 skel sdfModel"
      and k3: "keys (nodes st3) = keys (nodes st2)" and s3: "skeletons st3 = skeletons st2"
      by blast
    have g3: "grows skel st2 st3" by (simp add: grows_def k3 s3)
    from Cons.IH [OF i3 rest, of "Suc i"] obtain st' where
      l: "JointLoop E st3 skel modelID sdfModel (Suc i) js = Some st'"
      and r: "build_inv st' skel modelID" "declared_bodies st' skel sdfModel" "grows skel st3 st'"
        "Links sdfModel = [] \<longrightarrow> keys (nodes st') = keys (nodes st3)"
      by blast
    have "grows skel st st'"
      using g1 g2 g3 r(3) by (blast intro: grows_trans)
    moreover have "Links sdfModel = [] \<longrightarrow> keys (nodes st') = keys (nodes st)"
      using r(4) k3 k2 k1 nolinks by simp
    ultimately show ?thesis using Some f1 f2 m c l r(1,2) by simp
  qed
qed

lemma first_body_fresh: "\<forall>bn \<in> set ns. skeleton bn < skel \<Longrightarrow> first_body ns skel = None"
  by (auto simp: first_body_def indexOf_None)

lemma length_keys: "length (keys ns) = length ns"
  by (simp add: keys_def)

lemma nth_keys: "b < length ns \<Longrightarrow> keys ns ! b = (skeleton (ns ! b), bodyName (ns ! b))"
  by (simp add: keys_def)

lemma ConstructSdfModel_frame:
  assumes tr: "tree (nodes st)"
    and fresh: "\<forall>bn \<in> set (nodes st). skeleton bn < length (skeletons st)"
    and ax: "\<forall>j. Some j \<in> set (Joints sdfModel) \<longrightarrow> axes_present j"
  shows "\<exists>st' modelInfo.
       ConstructSdfModel E st worldID sdfModel = Some (Identity (entityCount st), st')
     \<and> models st' (entityCount st) = Some modelInfo \<and> model modelInfo = length (skeletons st)
     \<and> (case Links sdfModel of
           [] \<Rightarrow> parentFrame (frame modelInfo) = World
                 \<and> first_body (nodes st') (length (skeletons st)) = None
         | l # ls \<Rightarrow> parentFrame (frame modelInfo) = Body (length (nodes st))
                 \<and> first_body (nodes st') (length (skeletons st)) = Some (length (nodes st))
                 \<and> length (nodes st) < length (nodes st')
                 \<and> bodyName (nodes st' ! length (nodes st)) = LinkName l)"
proof -
  define skel where "skel = length (skeletons st)"
  define modelID where "modelID = entityCount st"
  define info where "info = \<lparr> model = skel,
      frame = \<lparr> frameName = ModelName sdfModel @ ''_frame'', parentFrame = World,
                relativeTransform = ModelPose sdfModel \<rparr> \<rparr>"
  define st2 where "st2 = snd (AddModel (st\<lparr> skeletons := skeletons st @
                  [\<lparr> skeletonName = ModelName sdfModel, mobile = \<not> Static sdfModel,
                     selfCollisionCheck = SelfCollide sdfModel \<rparr>] \<rparr>) info worldID)"
  have unfold: "ConstructSdfModel E st worldID sdfModel =
      do { st3 \<leftarrow> LinkLoop st2 skel modelID sdfModel (Links sdfModel);
           st4 \<leftarrow> JointLoop E st3 skel modelID sdfModel 0 (Joints sdfModel);
           Some (Identity modelID, st4) }"
    by (simp add: ConstructSdfModel_def Let_def AddModel_def st2_def info_def skel_def modelID_def)
  have n2: "nodes st2 = nodes st" by (simp add: st2_def AddModel_def)
  have m2: "models st2 modelID = Some info" by (simp add: st2_def AddModel_def modelID_def)
  have fb2: "first_body (nodes st2) skel = None"
    using fresh by (simp add: n2 skel_def first_body_fresh)
  have inv2: "build_inv st2 skel modelID"
    using tr m2 fb2 by (simp add: build_inv_def n2 info_def)
  have d2: "declared_bodies st2 skel sdfModel"
    using fresh by (auto simp: declared_bodies_def n2 skel_def)
  show ?thesis
  proof (cases "Links sdfModel")
    case Nil
    from JointLoop_result [OF inv2 d2 ax, of E 0] Nil obtain st4 where
      j: "JointLoop E st2 skel modelID sdfModel 0 (Joints sdfModel) = Some st4"
      and i4: "build_inv st4 skel modelID" and k: "keys (nodes st4) = keys (nodes st2)"
      by auto
    have fb4: "first_body (nodes st4) skel = None"
      using fb2 k by (simp add: first_body_keys_eq)
    from i4 fb4 obtain modelInfo where
      "models st4 modelID = Some modelInfo" "model modelInfo = skel"
      "parentFrame (frame modelInfo) = World"
      by (auto simp: build_inv_def)
    then show ?thesis
      using unfold Nil j fb4 by (simp add: skel_def modelID_def)
  next
    case (Cons l ls)
    have decl: "LinkByName sdfModel (LinkName l) \<noteq> None"
      using Cons by (simp add: LinkByName_declared)
    from FindOrConstructLink_step [OF inv2 d2, of "LinkName l"] decl fb2 obtain r s where
      f: "FindOrConstructLink st2 skel modelID sdfModel (LinkName l) = Some (r, s)"
      and i: "build_inv s skel modelID" "declared_bodies s skel sdfModel"
      and k: "keys (nodes s) = keys (nodes st2) @ [(skel, LinkName l)]"
      by auto
    from LinkLoop_result [OF i, of ls] obtain st3 where
      l3: "LinkLoop s skel modelID sdfModel ls = Some st3"
      and i3: "build_inv st3 skel modelID" "declared_bodies st3 skel sdfModel"
      and g3: "grows skel s st3"
      by auto
    from JointLoop_result [OF i3 ax, of E 0] obtain st4 where
      j: "JointLoop E st3 skel modelID sdfModel 0 (Joints sdfModel) = Some st4"
      and i4: "build_inv st4 skel modelID" and g4: "grows skel st3 st4"
      by auto
    have g: "grows skel s st4" using g3 g4 by (rule grows_trans)
    have "length (keys (nodes s)) = Suc (length (keys (nodes st)))"
      using k by (simp add: n2)
    then have len: "length (nodes s) = Suc (length (nodes st))"
      by (simp add: length_keys)
    have fbs: "first_body (nodes s) skel = Some (length (nodes st))"
      using fb2 by (simp add: first_body_keys_eq k indexOf_append_list length_keys n2)
    have "keys (nodes s) ! length (nodes st) = (skel, LinkName l)"
      by (simp add: k n2 length_keys [symmetric] nth_append)
    then have nm: "bodyName (nodes s ! length (nodes st)) = LinkName l"
      using len by (simp add: nth_keys)
    have fb4: "first_body (nodes st4) skel = Some (length (nodes st))"
      using g fbs by (rule grows_first_body)
    have nm4: "bodyName (nodes st4 ! length (nodes st)) = LinkName l"
      using grows_key [OF g, of "length (nodes st)"] len nm by simp
    have len4: "length (nodes st) < length (nodes st4)"
      using grows_length [OF g] len by simp
    from i4 fb4 obtain modelInfo where
      "models st4 modelID = Some modelInfo" "model modelInfo = skel"
      "parentFrame (frame modelInfo) = Body (length (nodes st))"
      by (auto simp: build_inv_def)
    then show ?thesis
      using unfold Cons f l3 j fb4 nm4 len4 by (simp add: skel_def modelID_def)
  qed
qed

lemma ConstructSdfLink_frame_pose:
  assumes tr: "tree (nodes st)" and m: "models st modelID = Some modelInfo"
    and fa: "frame_attached (nodes st) modelInfo"
    and Tf: "SimpleFrame_getWorldTransform (nodes st) (frame modelInfo) = Some Tf"
    and first: "getNumBodyNodes (nodes st) (model modelInfo) = 0"
    and iso: "is_isometry Tf" "is_isometry (LinkPose sdfLink)"
  shows "\<exists>st' modelInfo'.
       ConstructSdfLink st modelID sdfLink = Some (Identity (entityCount st), st')
     \<and> models st' modelID = Some modelInfo'
     \<and> parentFrame (frame modelInfo') = Body (length (nodes st))
     \<and> SimpleFrame_getWorldTransform (nodes st') (frame modelInfo') = Some Tf"
proof -
  from ConstructSdfLink_result [OF tr m fa Tf, of sdfLink] first obtain st' bn where
    c: "ConstructSdfLink st modelID sdfLink = Some (Identity (entityCount st), st')"
    and n: "nodes st' = nodes st @ [bn]" and root: "parentBodyNode bn = None"
    and rel: "getRelativeTransform bn = (if LinkPoseFrame sdfLink = [] then Tf else 1) * LinkPose sdfLink"
    and ms: "models st' = (models st)(modelID \<mapsto> modelInfo
                 \<lparr> frame := (frame modelInfo)
                     \<lparr> parentFrame := Body (length (nodes st)),
                       relativeTransform := inverse (getRelativeTransform bn) * Tf \<rparr> \<rparr>)"
    by auto
  have isoW: "is_isometry (getRelativeTransform bn)"
    using iso by (simp add: rel is_isometry_mult is_isometry_one)
  have W: "getWorldTransform (nodes st') (length (nodes st)) = Some (getRelativeTransform bn)"
    using getWorldTransform_root [of "length (nodes st)" "nodes st'"] root by (simp add: n)
  show ?thesis
    using c ms W isoW
    by (simp add: SimpleFrame_getWorldTransform_def inverse_right_cancel)
qed

text \<open>
  C6.  Construction of a model, started in a state whose bodies are a tree and belong to
  skeletons that exist, with every joint declaring the axes its type reads, completes; the
  frame registered for the model then has the world as parent when the model declares no
  link (and the skeleton has no body), and otherwise the first body of the skeleton, which
  is the body made for the first declared link.  And when the link builder makes the first
  body of a skeleton, it puts the model frame on that body, and the frame's world transform
  after the call is the one it had before (exact arithmetic, rigid transforms).
\<close>

theorem model_frame_parent:
  "(tree (nodes st) \<and> (\<forall>bn \<in> set (nodes st). skeleton bn < length (skeletons st))
      \<and> (\<forall>j. Some j \<in> set (Joints sdfModel) \<longrightarrow> axes_present j)
    \<longrightarrow> (\<exists>st' modelInfo.
           ConstructSdfModel E st worldID sdfModel = Some (Identity (entityCount st), st')
         \<and> models st' (entityCount st) = Some modelInfo \<and> model modelInfo = length (skeletons st)
         \<and> (case Links sdfModel of
               [] \<Rightarrow> parentFrame (frame modelInfo) = World
                     \<and> first_body (nodes st') (length (skeletons st)) = None
             | l # ls \<Rightarrow> parentFrame (frame modelInfo) = Body (length (nodes st))
                     \<and> first_body (nodes st') (length (skeletons st)) = Some (length (nodes st))
                     \<and> length (nodes st) < length (nodes st')
                     \<and> bodyName (nodes st' ! length (nodes st)) = LinkName l)))
   \<and> (tree (nodes s) \<and> models s modelID = Some info \<and> frame_attached (nodes s) info
      \<and> SimpleFrame_getWorldTransform (nodes s) (frame info) = Some Tf
      \<and> getNumBodyNodes (nodes s) (model info) = 0
      \<and> is_isometry Tf \<and> is_isometry (LinkPose sdfLink)
    \<longrightarrow> (\<exists>s' info'.
           ConstructSdfLink s modelID sdfLink = Some (Identity (entityCount s), s')
         \<and> models s' modelID = Some info'
         \<and> parentFrame (frame info') = Body (length (nodes s))
         \<and> SimpleFrame_getWorldTransform (nodes s') (frame info') = Some Tf))"
  using ConstructSdfModel_frame [of st sdfModel E worldID]
    ConstructSdfLink_frame_pose [of s modelID info Tf sdfLink]
  by blast

theorem model_frame_parent_witness:
  "tree (nodes two_bodies)
   \<and> map skeleton (nodes two_bodies) = [0, 0] \<and> length (skeletons two_bodies) = 1
   \<and> axes_present world_joint
   \<and> (\<exists>st' modelInfo.
         ConstructSdfModel zero_start_engine two_bodies 0 anchored_model = Some (Identity 5, st')
       \<and> models st' 5 = Some modelInfo \<and> model modelInfo = 1
       \<and> parentFrame (frame modelInfo) = Body 2 \<and> first_body (nodes st') 1 = Some 2
       \<and> 2 < length (nodes st') \<and> bodyName (nodes st' ! 2) = ''arm'')
   \<and> models registered_model 0 = Some lifted_frame
   \<and> SimpleFrame_getWorldTransform (nodes registered_model) (frame lifted_frame)
       = Some (translate 0 0 1)
   \<and> getNumBodyNodes (nodes registered_model) (model lifted_frame) = 0
   \<and> is_isometry (LinkPose arm_link)
   \<and> (\<exists>s' info'.
         ConstructSdfLink registered_model 0 arm_link = Some (Identity 1, s')
       \<and> models s' 0 = Some info' \<and> parentFrame (frame info') = Body 0
       \<and> SimpleFrame_getWorldTransform (nodes s') (frame info') = Some (translate 0 0 1))"
proof -
  have tr: "tree (nodes two_bodies)" by (rule tree_two_bodies)
  have fr: "\<forall>bn \<in> set (nodes two_bodies). skeleton bn < length (skeletons two_bodies)"
    by (simp add: two_bodies_def free_body_def)
  have ax: "axes_present world_joint" by (simp add: axes_present_def world_joint_def)
  have axs: "\<forall>j. Some j \<in> set (Joints anchored_model) \<longrightarrow> axes_present j"
    using ax by (simp add: anchored_model_def)
  have v: "entityCount two_bodies = 5" "length (skeletons two_bodies) = 1"
    "length (nodes two_bodies) = 2" "Links anchored_model = [arm_link]"
    "LinkName arm_link = ''arm''"
    by (simp_all add: two_bodies_def anchored_model_def arm_link_def)
  have tr0: "tree (nodes registered_model)"
    by (rule tree_roots) (simp add: registered_model_def empty_state_def)
  have m0: "models registered_model 0 = Some lifted_frame"
    by (simp add: registered_model_def empty_state_def)
  have fa0: "frame_attached (nodes registered_model) lifted_frame"
    by (simp add: frame_attached_def lifted_frame_def)
  have Tf0: "SimpleFrame_getWorldTransform (nodes registered_model) (frame lifted_frame)
       = Some (translate 0 0 1)"
    by (simp add: SimpleFrame_getWorldTransform_def lifted_frame_def)
  have n0: "getNumBodyNodes (nodes registered_model) (model lifted_frame) = 0"
    by (simp add: getNumBodyNodes_def registered_model_def empty_state_def)
  have iso: "is_isometry (translate 0 0 1)" "is_isometry (LinkPose arm_link)"
    by (simp_all add: arm_link_def is_isometry_translate)
  have w: "entityCount registered_model = 1" "length (nodes registered_model) = 0"
    by (simp_all add: registered_model_def empty_state_def)
  note th = model_frame_parent [of two_bodies anchored_model zero_start_engine 0
      registered_model 0 lifted_frame "translate 0 0 1" arm_link]
  from th tr fr axs have c1: "\<exists>st' modelInfo.
         ConstructSdfModel zero_start_engine two_bodies 0 anchored_model = Some (Identity 5, st')
       \<and> models st' 5 = Some modelInfo \<and> model modelInfo = 1
       \<and> parentFrame (frame modelInfo) = Body 2 \<and> first_body (nodes st') 1 = Some 2
       \<and> 2 < length (nodes st') \<and> bodyName (nodes st' ! 2) = ''arm''"
    by (simp add: v)
  from th tr0 m0 fa0 Tf0 n0 iso have c2: "\<exists>s' info'.
         ConstructSdfLink registered_model 0 arm_link = Some (Identity 1, s')
       \<and> models s' 0 = Some info' \<and> parentFrame (frame info') = Body 0
       \<and> SimpleFrame_getWorldTransform (nodes s') (frame info') = Some (translate 0 0 1)"
    by (simp add: w)
  have sk: "map skeleton (nodes two_bodies) = [0, 0]"
    by (simp add: two_bodies_def free_body_def)
  show ?thesis using tr sk v(2) ax c1 m0 Tf0 n0 iso(2) c2 by simp
qed

section \<open>Properties of the limit convention\<close>

lemma has_dof_default: "i < n \<Longrightarrow> has_dof i (default_properties n axes)"
  by (simp add: has_dof_def default_properties_def)

text \<open>
  C8.  The force limits stored for an axis are \<open>(-\<infinity>, +\<infinity>)\<close> when the declared effort is
  \<open>-1\<close>, \<open>(-5, 5)\<close> when it is \<open>5\<close>, and \<open>(-e, e)\<close> for every declared effort \<open>e\<close> that is not
  negative.
\<close>

theorem effort_limit_convention:
  assumes "has_dof index properties"
  shows "(Effort sdfAxis = Finite (- 1) \<longrightarrow>
            mForceLowerLimits (CopyStandardJointAxisProperties index properties sdfAxis) ! index = NegInf \<and>
            mForceUpperLimits (CopyStandardJointAxisProperties index properties sdfAxis) ! index = PosInf)
       \<and> (Effort sdfAxis = Finite 5 \<longrightarrow>
            mForceLowerLimits (CopyStandardJointAxisProperties index properties sdfAxis) ! index = Finite (- 5) \<and>
            mForceUpperLimits (CopyStandardJointAxisProperties index properties sdfAxis) ! index = Finite 5)
       \<and> (dle (Finite 0) (Effort sdfAxis) \<longrightarrow>
            mForceLowerLimits (CopyStandardJointAxisProperties index properties sdfAxis) ! index
              = dneg (Effort sdfAxis) \<and>
            mForceUpperLimits (CopyStandardJointAxisProperties index properties sdfAxis) ! index
              = Effort sdfAxis)"
proof -
  have nonneg: "dle (Finite 0) e \<Longrightarrow> infIfNeg e = e" for e
    by (cases e) (auto simp: infIfNeg_def)
  have minus_one: "infIfNeg (Finite (- 1)) = PosInf" and five: "infIfNeg (Finite 5) = Finite 5"
    by (simp_all add: infIfNeg_def)
  from assms show ?thesis
    by (auto simp: CopyStandardJointAxisProperties_def has_dof_def nonneg minus_one five)
qed

theorem effort_limit_convention_witness:
  "has_dof 0 (default_properties 1 [UnitZ]) \<and> dle (Finite 0) (Effort example_axis) \<and>
   mForceLowerLimits (CopyStandardJointAxisProperties 0 (default_properties 1 [UnitZ]) example_axis) ! 0
     = Finite (- 5) \<and>
   mForceUpperLimits (CopyStandardJointAxisProperties 0 (default_properties 1 [UnitZ]) example_axis) ! 0
     = Finite 5"
  using effort_limit_convention [of 0 "default_properties 1 [UnitZ]" example_axis]
  by (simp add: has_dof_default example_axis_def)

text \<open>
  C3 (as stated, refuted).  The claim includes the position limits in the convention.  The
  axis \<open>example_axis\<close> declares the negative lower position limit \<open>-1\<close>; the stored lower
  position limit is \<open>-1\<close>, not an infinity.
\<close>

theorem position_limit_counterexample:
  "dless (Lower example_axis) (Finite 0) \<and>
   mPositionLowerLimits (CopyStandardJointAxisProperties 0 (default_properties 1 [UnitZ]) example_axis) ! 0
     = Finite (- 1) \<and>
   mPositionLowerLimits (CopyStandardJointAxisProperties 0 (default_properties 1 [UnitZ]) example_axis) ! 0
     \<noteq> NegInf \<and>
   mPositionLowerLimits (CopyStandardJointAxisProperties 0 (default_properties 1 [UnitZ]) example_axis) ! 0
     \<noteq> PosInf"
  by (simp add: CopyStandardJointAxisProperties_def default_properties_def example_axis_def)

text \<open>
  C3 (amended).  The convention holds for the force and the velocity limits: a negative declared
  effort is stored as the force limits \<open>(-\<infinity>, +\<infinity>)\<close> and a negative declared maximal velocity
  as the velocity limits \<open>(-\<infinity>, +\<infinity>)\<close>.  The position limits are stored as they are declared,
  whatever their sign.
\<close>

theorem limit_convention_amended:
  assumes "has_dof index properties"
  shows "mPositionLowerLimits (CopyStandardJointAxisProperties index properties sdfAxis) ! index
           = Lower sdfAxis
       \<and> mPositionUpperLimits (CopyStandardJointAxisProperties index properties sdfAxis) ! index
           = Upper sdfAxis
       \<and> (dless (Effort sdfAxis) (Finite 0) \<longrightarrow>
            mForceLowerLimits (CopyStandardJointAxisProperties index properties sdfAxis) ! index = NegInf \<and>
            mForceUpperLimits (CopyStandardJointAxisProperties index properties sdfAxis) ! index = PosInf)
       \<and> (dless (MaxVelocity sdfAxis) (Finite 0) \<longrightarrow>
            mVelocityLowerLimits (CopyStandardJointAxisProperties index properties sdfAxis) ! index = NegInf \<and>
            mVelocityUpperLimits (CopyStandardJointAxisProperties index properties sdfAxis) ! index = PosInf)"
  using assms
  by (simp add: CopyStandardJointAxisProperties_def has_dof_def infIfNeg_def)

theorem limit_convention_amended_witness:
  "has_dof 0 (default_properties 1 [UnitZ]) \<and> dless (MaxVelocity example_axis) (Finite 0) \<and>
   mPositionLowerLimits (CopyStandardJointAxisProperties 0 (default_properties 1 [UnitZ]) example_axis) ! 0
     = Finite (- 1) \<and>
   mVelocityLowerLimits (CopyStandardJointAxisProperties 0 (default_properties 1 [UnitZ]) example_axis) ! 0
     = NegInf \<and>
   mVelocityUpperLimits (CopyStandardJointAxisProperties 0 (default_properties 1 [UnitZ]) example_axis) ! 0
     = PosInf"
  using limit_convention_amended [of 0 "default_properties 1 [UnitZ]" example_axis]
  by (simp add: has_dof_default example_axis_def)

section \<open>Properties of the plane geometry\<close>

lemma PlaneAxis_components:
  "PlaneAxis \<lparr> Normal = Vector3d x y z, Size = s \<rparr> = Vector3d (- y) x 0"
  by (simp add: PlaneAxis_def UnitZ_def)

lemma PlaneAngle_up: "PlaneAngle \<lparr> Normal = Vector3d 0 0 1, Size = s \<rparr> = 0"
  by (simp add: PlaneAngle_def PlaneAxis_components)

lemma PlaneAngle_down: "PlaneAngle \<lparr> Normal = Vector3d 0 0 (- 1), Size = s \<rparr> = 0"
  by (simp add: PlaneAngle_def PlaneAxis_components)

lemma plane_ratio_bounds:
  "0 \<le> norm3 (PlaneAxis plane) / norm3 (Normal plane) \<and>
   norm3 (PlaneAxis plane) / norm3 (Normal plane) \<le> 1"
proof (cases plane)
  case (fields n s)
  obtain x y z where n: "n = Vector3d x y z" by (cases n)
  have ax: "norm3 (PlaneAxis plane) = sqrt (y * y + x * x)"
    using fields n by (simp add: PlaneAxis_components)
  have len: "norm3 (Normal plane) = sqrt (x * x + y * y + z * z)"
    using fields n by simp
  have le: "sqrt (y * y + x * x) \<le> sqrt (x * x + y * y + z * z)"
    by (rule real_sqrt_le_mono) (simp add: add.commute)
  have nonneg: "0 \<le> sqrt (y * y + x * x)" by simp
  show ?thesis
  proof (cases "sqrt (x * x + y * y + z * z) = 0")
    case True
    then show ?thesis by (simp add: ax len)
  next
    case False
    have "0 \<le> sqrt (x * x + y * y + z * z)" by simp
    with False have pos: "0 < sqrt (x * x + y * y + z * z)" by linarith
    from pos le nonneg show ?thesis
      unfolding ax len by (simp add: divide_le_eq_1)
  qed
qed

lemma PlaneAngle_bounds: "0 \<le> PlaneAngle plane \<and> PlaneAngle plane \<le> pi / 2"
proof -
  let ?r = "norm3 (PlaneAxis plane) / norm3 (Normal plane)"
  have r: "0 \<le> ?r" "?r \<le> 1" using plane_ratio_bounds [of plane] by simp_all
  then have "- 1 \<le> ?r" by linarith
  with r have "arcsin ?r \<le> pi / 2" by (rule_tac arcsin_ubound)
  moreover have "arcsin 0 \<le> arcsin ?r"
    using r by (intro arcsin_le_arcsin) simp_all
  ultimately show ?thesis by (simp add: PlaneAngle_def)
qed

lemma PlaneRotates_norm_pos:
  assumes "PlaneRotates plane"
  shows "0 < norm3 (PlaneAxis plane)"
proof (rule ccontr)
  assume "\<not> 0 < norm3 (PlaneAxis plane)"
  moreover have "0 \<le> norm3 (PlaneAxis plane)" by (cases "PlaneAxis plane") simp
  ultimately have "norm3 (PlaneAxis plane) = 0" by linarith
  then have "PlaneAngle plane = 0" by (simp add: PlaneAngle_def)
  with assms show False by (simp add: PlaneRotates_def)
qed

text \<open>
  C9.  A plane whose normal is the up axis \<open>(0,0,1)\<close> gets the identity as its corrective
  transform: its angle is zero, the branch that computes \<open>axis/norm\<close> is not taken.  For every
  plane, that branch is taken only when the angle exceeds \<open>1e-12\<close>, and then the norm it
  divides by is positive.
\<close>

theorem plane_up_identity:
  "PlaneAngle \<lparr> Normal = Vector3d 0 0 1, Size = s \<rparr> = 0
   \<and> \<not> PlaneRotates \<lparr> Normal = Vector3d 0 0 1, Size = s \<rparr>
   \<and> tf (ConstructPlane \<lparr> Normal = Vector3d 0 0 1, Size = s \<rparr>) = 1
   \<and> (tf (ConstructPlane plane) \<noteq> 1 \<longrightarrow> PlaneAngle plane > 1 / 10 ^ 12)
   \<and> (PlaneRotates plane \<longrightarrow> PlaneAngle plane > 1 / 10 ^ 12 \<and> 0 < norm3 (PlaneAxis plane))"
proof -
  have up: "\<not> PlaneRotates \<lparr> Normal = Vector3d 0 0 1, Size = s \<rparr>"
    by (simp add: PlaneRotates_def PlaneAngle_up)
  have "tf (ConstructPlane plane) \<noteq> 1 \<longrightarrow> PlaneRotates plane"
    by (simp add: ConstructPlane_def Let_def)
  then show ?thesis
    using up PlaneRotates_norm_pos [of plane]
    by (auto simp: PlaneAngle_up ConstructPlane_def Let_def PlaneRotates_def)
qed

lemma tilted_plane_rotates: "PlaneRotates tilted_plane"
proof -
  have "PlaneAngle tilted_plane = pi / 2"
    by (simp add: PlaneAngle_def tilted_plane_def PlaneAxis_components)
  moreover have "(1::real) / 10 ^ 12 < pi / 2"
    using pi_ge_two by simp
  ultimately show ?thesis by (simp add: PlaneRotates_def)
qed

theorem plane_up_identity_witness:
  "PlaneRotates tilted_plane \<and> PlaneAngle tilted_plane > 1 / 10 ^ 12
   \<and> 0 < norm3 (PlaneAxis tilted_plane)
   \<and> tf (ConstructPlane \<lparr> Normal = Vector3d 0 0 1, Size = (2, 3) \<rparr>) = 1"
  using plane_up_identity [of "(2, 3)" tilted_plane] tilted_plane_rotates
  by simp

lemma linear_rotate_one: "linear (rotate 1 R) = R"
  by (simp add: rotate_def one_Isometry3d_def)

lemma ConstructPlane_tf:
  "tf (ConstructPlane plane) =
     (if PlaneRotates plane
      then Isometry3d (AngleAxisd (PlaneAngle plane)
                         (vdiv (PlaneAxis plane) (norm3 (PlaneAxis plane)))) (Vector3d 0 0 0)
      else 1)"
  by (simp add: ConstructPlane_def Let_def rotate_def one_Isometry3d_def)

lemma plane_sin_cos:
  fixes x y z :: real
  defines "r \<equiv> sqrt (y * y + x * x)" and "L \<equiv> sqrt (x * x + y * y + z * z)"
  assumes "0 < r"
  shows "0 < L" "sin (arcsin (r / L)) = r / L" "cos (arcsin (r / L)) = \<bar>z\<bar> / L"
proof -
  have rL: "r \<le> L" unfolding r_def L_def
    by (rule real_sqrt_le_mono) (simp add: add.commute)
  with assms show L: "0 < L" by linarith
  have b: "0 \<le> r / L" "r / L \<le> 1" using assms L rL by simp_all
  then have b': "- 1 \<le> r / L" by linarith
  show "sin (arcsin (r / L)) = r / L" using b' b(2) by (rule sin_arcsin)
  have r2: "r\<^sup>2 = y * y + x * x" unfolding r_def
    by (simp add: power2_eq_square [symmetric])
  have L2: "L\<^sup>2 = x * x + y * y + z * z" unfolding L_def
    by (simp add: power2_eq_square [symmetric])
  have "L\<^sup>2 - r\<^sup>2 = z\<^sup>2" unfolding r2 L2 by (simp add: power2_eq_square)
  moreover have "1 - (r / L)\<^sup>2 = (L\<^sup>2 - r\<^sup>2) / L\<^sup>2"
    using L by (simp add: power_divide diff_divide_distrib)
  ultimately have "1 - (r / L)\<^sup>2 = z\<^sup>2 / L\<^sup>2" by simp
  also have "\<dots> = (\<bar>z\<bar> / L)\<^sup>2" by (simp add: power_divide)
  finally have "sqrt (1 - (r / L)\<^sup>2) = \<bar>z\<bar> / L"
    using L by (simp add: real_sqrt_abs)
  moreover have "cos (arcsin (r / L)) = sqrt (1 - (r / L)\<^sup>2)"
    using b' b(2) by (rule cos_arcsin)
  ultimately show "cos (arcsin (r / L)) = \<bar>z\<bar> / L" by simp
qed

lemma ConstructPlane_up_image:
  assumes "PlaneRotates \<lparr> Normal = Vector3d x y z, Size = s \<rparr>"
  shows "mat_vec (linear (tf (ConstructPlane \<lparr> Normal = Vector3d x y z, Size = s \<rparr>))) UnitZ
         = Vector3d (x / norm3 (Vector3d x y z)) (y / norm3 (Vector3d x y z))
                    (\<bar>z\<bar> / norm3 (Vector3d x y z))"
proof -
  let ?P = "\<lparr> Normal = Vector3d x y z, Size = s \<rparr>"
  let ?r = "sqrt (y * y + x * x)"
  let ?L = "sqrt (x * x + y * y + z * z)"
  have r: "0 < ?r" using PlaneRotates_norm_pos [OF assms] by (simp add: PlaneAxis_components)
  note sc = plane_sin_cos [OF r, of z]
  have ang: "PlaneAngle ?P = arcsin (?r / ?L)"
    by (simp add: PlaneAngle_def PlaneAxis_components)
  have "tf (ConstructPlane ?P) =
      Isometry3d (AngleAxisd (arcsin (?r / ?L)) (Vector3d (- y / ?r) (x / ?r) 0)) (Vector3d 0 0 0)"
    using assms by (simp add: ConstructPlane_tf PlaneAxis_components ang)
  then show ?thesis
    using r sc by (simp add: UnitZ_def Let_def)
qed

lemma ConstructPlane_rotation_angle:
  "rotation_angle (linear (tf (ConstructPlane plane)))
     = (if PlaneRotates plane then PlaneAngle plane else 0)"
proof (cases "PlaneRotates plane")
  case False
  then show ?thesis
    by (simp add: ConstructPlane_tf rotation_angle_def one_Isometry3d_def one_Matrix3d_def)
next
  case True
  obtain x y z s where P: "plane = \<lparr> Normal = Vector3d x y z, Size = s \<rparr>"
    by (cases plane, cases "Normal plane") auto
  let ?r = "sqrt (y * y + x * x)"
  have r: "0 < ?r" using PlaneRotates_norm_pos [OF True] by (simp add: P PlaneAxis_components)
  have unit: "(- y / ?r) * (- y / ?r) + (x / ?r) * (x / ?r) = 1"
    using r by (auto simp: add_divide_distrib [symmetric])
  have "trace3 (AngleAxisd a (Vector3d (- y / ?r) (x / ?r) 0)) = 1 + 2 * cos a" for a
  proof -
    have "trace3 (AngleAxisd a (Vector3d (- y / ?r) (x / ?r) 0))
        = (1 - cos a) * ((- y / ?r) * (- y / ?r) + (x / ?r) * (x / ?r)) + 3 * cos a"
      by (simp add: Let_def algebra_simps)
    then show ?thesis unfolding unit by simp
  qed
  then have "rotation_angle (linear (tf (ConstructPlane plane))) = arccos (cos (PlaneAngle plane))"
    using True by (simp add: ConstructPlane_tf rotation_angle_def P PlaneAxis_components)
  moreover have "0 \<le> PlaneAngle plane" "PlaneAngle plane \<le> pi"
    using PlaneAngle_bounds [of plane] pi_ge_zero by linarith+
  ultimately show ?thesis using True by (simp add: arccos_cos)
qed

text \<open>
  C10.  The corrective rotation of a plane is by the arcsine of the length of the cross
  product of the up axis and the normal, divided by the length of the normal; so for every
  normal, those more than 90 degrees from up included, the transform that the builder
  returns is a rotation by an angle between 0 and 90 degrees (the identity when the angle is
  within the tolerance).  When it rotates, it takes the up axis to \<open>(x, y, |z|)\<close> over the
  length of the normal \<open>(x, y, z)\<close>: to the direction of the normal when the normal is no
  more than 90 degrees from up, and to its mirror image above the horizon otherwise.  For
  the normal \<open>(0,0,-1)\<close> the cross product is zero, the angle is 0 and the corrective
  transform is the identity: the builder returns exactly what it returns for \<open>(0,0,1)\<close>.
\<close>

theorem plane_down_same_as_up:
  "0 \<le> PlaneAngle plane \<and> PlaneAngle plane \<le> pi / 2
   \<and> PlaneAngle plane = arcsin (norm3 (cross UnitZ (Normal plane)) / norm3 (Normal plane))
   \<and> tf (ConstructPlane plane) =
       (if PlaneAngle plane > 1 / 10 ^ 12
        then Isometry3d (AngleAxisd (PlaneAngle plane)
                           (vdiv (PlaneAxis plane) (norm3 (PlaneAxis plane)))) (Vector3d 0 0 0)
        else 1)
   \<and> rotation_angle (linear (tf (ConstructPlane plane)))
       = (if PlaneAngle plane > 1 / 10 ^ 12 then PlaneAngle plane else 0)
   \<and> 0 \<le> rotation_angle (linear (tf (ConstructPlane plane)))
   \<and> rotation_angle (linear (tf (ConstructPlane plane))) \<le> pi / 2
   \<and> (Normal plane = Vector3d x y z \<and> PlaneAngle plane > 1 / 10 ^ 12 \<longrightarrow>
        mat_vec (linear (tf (ConstructPlane plane))) UnitZ
          = Vector3d (x / norm3 (Normal plane)) (y / norm3 (Normal plane))
                     (\<bar>z\<bar> / norm3 (Normal plane)))
   \<and> PlaneAxis \<lparr> Normal = Vector3d 0 0 (- 1), Size = s \<rparr> = Vector3d 0 0 0
   \<and> PlaneAngle \<lparr> Normal = Vector3d 0 0 (- 1), Size = s \<rparr> = 0
   \<and> tf (ConstructPlane \<lparr> Normal = Vector3d 0 0 (- 1), Size = s \<rparr>) = 1
   \<and> ConstructPlane \<lparr> Normal = Vector3d 0 0 (- 1), Size = s \<rparr>
       = ConstructPlane \<lparr> Normal = Vector3d 0 0 1, Size = s \<rparr>"
proof -
  have b: "0 \<le> PlaneAngle plane" "PlaneAngle plane \<le> pi / 2"
    using PlaneAngle_bounds [of plane] by simp_all
  have a: "PlaneAngle plane = arcsin (norm3 (cross UnitZ (Normal plane)) / norm3 (Normal plane))"
    by (simp add: PlaneAngle_def PlaneAxis_def)
  have t: "tf (ConstructPlane plane) =
       (if PlaneAngle plane > 1 / 10 ^ 12
        then Isometry3d (AngleAxisd (PlaneAngle plane)
                           (vdiv (PlaneAxis plane) (norm3 (PlaneAxis plane)))) (Vector3d 0 0 0)
        else 1)"
    by (simp add: ConstructPlane_tf PlaneRotates_def)
  have r: "rotation_angle (linear (tf (ConstructPlane plane)))
       = (if PlaneAngle plane > 1 / 10 ^ 12 then PlaneAngle plane else 0)"
    by (simp add: ConstructPlane_rotation_angle PlaneRotates_def)
  have rb: "0 \<le> rotation_angle (linear (tf (ConstructPlane plane)))"
    "rotation_angle (linear (tf (ConstructPlane plane))) \<le> pi / 2"
    using b by (simp_all add: r)
  have u: "Normal plane = Vector3d x y z \<and> PlaneAngle plane > 1 / 10 ^ 12 \<longrightarrow>
        mat_vec (linear (tf (ConstructPlane plane))) UnitZ
          = Vector3d (x / norm3 (Normal plane)) (y / norm3 (Normal plane))
                     (\<bar>z\<bar> / norm3 (Normal plane))"
  proof
    assume h: "Normal plane = Vector3d x y z \<and> PlaneAngle plane > 1 / 10 ^ 12"
    then obtain s' where P: "plane = \<lparr> Normal = Vector3d x y z, Size = s' \<rparr>"
      by (cases plane) auto
    have "PlaneRotates \<lparr> Normal = Vector3d x y z, Size = s' \<rparr>"
      using h unfolding P by (simp add: PlaneRotates_def)
    from ConstructPlane_up_image [OF this] show "mat_vec (linear (tf (ConstructPlane plane))) UnitZ
          = Vector3d (x / norm3 (Normal plane)) (y / norm3 (Normal plane))
                     (\<bar>z\<bar> / norm3 (Normal plane))"
      unfolding P by simp
  qed
  have d: "PlaneAxis \<lparr> Normal = Vector3d 0 0 (- 1), Size = s \<rparr> = Vector3d 0 0 0
   \<and> PlaneAngle \<lparr> Normal = Vector3d 0 0 (- 1), Size = s \<rparr> = 0
   \<and> tf (ConstructPlane \<lparr> Normal = Vector3d 0 0 (- 1), Size = s \<rparr>) = 1
   \<and> ConstructPlane \<lparr> Normal = Vector3d 0 0 (- 1), Size = s \<rparr>
       = ConstructPlane \<lparr> Normal = Vector3d 0 0 1, Size = s \<rparr>"
    by (simp add: ConstructPlane_def Let_def PlaneRotates_def PlaneAngle_up PlaneAngle_down
      PlaneAxis_components)
  from b a t r rb u d show ?thesis by blast
qed

lemma overturned_plane_angle:
  "PlaneAngle overturned_plane = arcsin (3 / 5)" "PlaneAngle overturned_plane > 1 / 10 ^ 12"
  "norm3 (Normal overturned_plane) = 5"
proof -
  have s25: "sqrt 25 = 5" by (rule real_sqrt_unique) simp_all
  have s9: "sqrt 9 = 3" by (rule real_sqrt_unique) simp_all
  show n: "norm3 (Normal overturned_plane) = 5"
    by (simp add: overturned_plane_def s25)
  show a: "PlaneAngle overturned_plane = arcsin (3 / 5)"
    by (simp add: PlaneAngle_def overturned_plane_def PlaneAxis_components s25 s9)
  have "arcsin (sin (1 / 10 ^ 12)) < arcsin (3 / 5 :: real)"
  proof (rule arcsin_less_arcsin)
    show "- 1 \<le> sin (1 / 10 ^ 12 :: real)" by simp
    have "sin (1 / 10 ^ 12 :: real) \<le> 1 / 10 ^ 12" by (rule sin_x_le_x) simp
    then show "sin (1 / 10 ^ 12 :: real) < 3 / 5" by simp
    show "(3 / 5 :: real) \<le> 1" by simp
  qed
  moreover have "arcsin (sin (1 / 10 ^ 12 :: real)) = 1 / 10 ^ 12"
  proof (rule arcsin_sin)
    show "- (pi / 2) \<le> (1 / 10 ^ 12 :: real)" using pi_ge_zero by (simp add: order_trans [of _ 0])
    show "(1 / 10 ^ 12 :: real) \<le> pi / 2" using pi_ge_two by simp
  qed
  ultimately show "PlaneAngle overturned_plane > 1 / 10 ^ 12" by (simp add: a)
qed

theorem plane_down_same_as_up_witness:
  "Normal overturned_plane = Vector3d 0 3 (- 4) \<and> PlaneAngle overturned_plane > 1 / 10 ^ 12
   \<and> rotation_angle (linear (tf (ConstructPlane overturned_plane))) = arcsin (3 / 5)
   \<and> rotation_angle (linear (tf (ConstructPlane overturned_plane))) \<le> pi / 2
   \<and> mat_vec (linear (tf (ConstructPlane overturned_plane))) UnitZ = Vector3d 0 (3 / 5) (4 / 5)"
proof -
  have n: "Normal overturned_plane = Vector3d 0 3 (- 4)" by (simp add: overturned_plane_def)
  note th = plane_down_same_as_up [of overturned_plane 0 3 "- 4" "(2, 3)"]
  from th n overturned_plane_angle(2)
  have 1: "mat_vec (linear (tf (ConstructPlane overturned_plane))) UnitZ
      = Vector3d (0 / norm3 (Normal overturned_plane)) (3 / norm3 (Normal overturned_plane))
                     (\<bar>- 4\<bar> / norm3 (Normal overturned_plane))"
    by blast
  from th have "rotation_angle (linear (tf (ConstructPlane overturned_plane)))
      = (if PlaneAngle overturned_plane > 1 / 10 ^ 12 then PlaneAngle overturned_plane else 0)"
    by blast
  with overturned_plane_angle(2)
  have 2: "rotation_angle (linear (tf (ConstructPlane overturned_plane))) = PlaneAngle overturned_plane"
    by (simp only: if_True)
  from th have 3: "rotation_angle (linear (tf (ConstructPlane overturned_plane))) \<le> pi / 2"
    by blast
  show ?thesis
    using n overturned_plane_angle 1 2 3 by simp
qed

end
